theory Spec2Isabelle
  imports Main
begin

section \<open>Data model (backend/src/types)\<close>

text \<open>
  Identifiers and object paths are strings. Timestamps (\<open>created_at\<close>, \<open>approved_at\<close>,
  \<open>updated_at\<close>) are natural numbers: the store orders them chronologically, and only
  that order is used. Several interfaces of the source share field names
  (\<open>workflow_id\<close>, \<open>owner\<close>, \<open>gcs_path\<close>, ...); the record fields carry a prefix
  that names the interface.
\<close>

datatype WorkflowStatus = PENDING_APPROVAL | APPROVED | REJECTED | RUNNING | COMPLETED | FAILED

record Workflow =
  wf_workflow_id :: string
  wf_creator :: string
  wf_collaborators :: "string list"
  wf_workload_path :: string
  wf_status :: WorkflowStatus
  wf_created_at :: nat
  wf_updated_at :: "nat option"

record WorkflowApproval =
  ap_workflow_id :: string
  ap_approver :: string
  ap_approved :: bool
  ap_approved_at :: nat

record Dataset =
  ds_dataset_id :: string
  ds_workflow_id :: string
  ds_owner :: string
  ds_filename :: string
  ds_gcs_path :: string
  ds_created_at :: nat

record WrappedKey =
  key_key_id :: string
  key_dataset_id :: string
  key_workflow_id :: string
  key_owner :: string
  key_gcs_path :: string
  key_created_at :: nat

record ExecutionResult =
  res_id :: string
  res_workflow_id :: string
  res_executed_notebook_path :: string
  res_result_path :: string
  res_created_at :: nat

record DatasetSpec =
  spec_owner :: string
  spec_ciphertext_gcs :: string
  spec_wrapped_dek_gcs :: string

record ExecuteRequest =
  exec_workflow_id :: string
  exec_workload_gcs :: string
  exec_datasets :: "DatasetSpec list"
  exec_result_base :: string
  exec_executed_notebook_base :: string

text \<open>
  Of the executor's response the controller reads \<open>result_paths\<close> (replaced by the empty
  list when it is missing: \<open>resultInfo.result_paths || []\<close>) and
  \<open>executed_notebook_path\<close>.
\<close>

record ExecuteResponse =
  resp_result_paths :: "string list option"
  resp_executed_notebook_path :: string

text \<open>The part of the configuration the modelled code reads.\<close>

record config =
  gcp_bucket :: string
  executor_url :: string
  results_pathPrefix :: string
  workload_fixedPath :: string

section \<open>The metadata store and the outside world\<close>

text \<open>
  The BigQuery tables are named \<open>owner + suffix\<close>, one table per owner and entity, and
  one shared results table. The store is a table per owner for each entity; a table
  is the list of its rows in insertion order.
\<close>

text \<open>A row of a keys table: it has no \<open>key_id\<close> column.\<close>

record KeyRow =
  kr_dataset_id :: string
  kr_workflow_id :: string
  kr_owner :: string
  kr_gcs_path :: string
  kr_created_at :: nat

record store =
  workflows :: "string \<Rightarrow> Workflow list"
  approvals :: "string \<Rightarrow> WorkflowApproval list"
  datasets :: "string \<Rightarrow> Dataset list"
  keys :: "string \<Rightarrow> KeyRow list"
  results :: "ExecutionResult list"

text \<open>
  Every method of the BigQuery service wraps one call to the store in
  \<open>try/catch\<close>. A call is named by the method and its arguments; the environment of a
  request says which calls fail (with the error message) and what
  \<open>CURRENT_TIMESTAMP()\<close> is when a call runs.
\<close>

datatype bq_call =
    InsertWorkflow string string
  | SelectWorkflow string string
  | UpdateStatus string string WorkflowStatus
  | InsertApproval string string
  | SelectApproval string string
  | InsertDataset string string
  | InsertKey string string
  | SelectDatasets string string
  | SelectKeys string string
  | InsertResults "ExecutionResult list"
  | SelectResults string

record executor_call =
  call_url :: string
  call_body :: ExecuteRequest
  call_timeout :: nat

text \<open>
  \<open>axios_post\<close> is the executor as seen through \<open>axios.post\<close>: \<open>Inl\<close> the message of
  the error it rejects with (a non-2xx response, a network error, the timeout), \<open>Inr\<close>
  the response data. \<open>file_exists\<close> is \<open>StorageService.fileExists\<close>, which catches
  every error of the object store and returns false.
\<close>

record env =
  bq_error :: "bq_call \<Rightarrow> string option"
  current_timestamp :: "bq_call \<Rightarrow> nat"
  date_now :: nat
  uuidv4 :: "nat \<Rightarrow> string"
  axios_post :: "executor_call \<Rightarrow> string + ExecuteResponse"
  file_exists :: "string \<Rightarrow> bool"
  signed_url :: "string \<Rightarrow> string + string"
  upload_to_gcs :: "string \<Rightarrow> string option"

text \<open>\<open>ORDER BY column DESC\<close>: rows of equal timestamp come latest-inserted first.\<close>

definition order_by_desc :: "('a \<Rightarrow> nat) \<Rightarrow> 'a list \<Rightarrow> 'a list" where
  "order_by_desc f xs = rev (sort_key f xs)"

section \<open>BigQueryService (backend/src/services/bigquery.service.ts)\<close>

definition bq_createWorkflow :: "env \<Rightarrow> store \<Rightarrow> Workflow \<Rightarrow> string + store" where
  "bq_createWorkflow e st workflow =
     (case bq_error e (InsertWorkflow (wf_creator workflow) (wf_workflow_id workflow)) of
        Some m \<Rightarrow> Inl (''Failed to insert workflow: '' @ m)
      | None \<Rightarrow>
          Inr (st\<lparr>workflows := (workflows st)
                 (wf_creator workflow := workflows st (wf_creator workflow) @
                    [\<lparr>wf_workflow_id = wf_workflow_id workflow,
                      wf_creator = wf_creator workflow,
                      wf_collaborators = wf_collaborators workflow,
                      wf_workload_path = wf_workload_path workflow,
                      wf_status = wf_status workflow,
                      wf_created_at = wf_created_at workflow,
                      wf_updated_at = None\<rparr>])\<rparr>))"

definition bq_getWorkflow :: "env \<Rightarrow> store \<Rightarrow> string \<Rightarrow> string \<Rightarrow> string + Workflow option" where
  "bq_getWorkflow e st workflowId creator =
     (case bq_error e (SelectWorkflow workflowId creator) of
        Some m \<Rightarrow> Inl (''Failed to get workflow: '' @ m)
      | None \<Rightarrow>
          (case filter (\<lambda>row. wf_workflow_id row = workflowId) (workflows st creator) of
             [] \<Rightarrow> Inr None
           | row # _ \<Rightarrow> Inr (Some row)))"

definition set_status :: "string \<Rightarrow> WorkflowStatus \<Rightarrow> nat \<Rightarrow> Workflow \<Rightarrow> Workflow" where
  "set_status workflowId status' t row =
     (if wf_workflow_id row = workflowId
      then row\<lparr>wf_status := status', wf_updated_at := Some t\<rparr> else row)"

definition bq_updateWorkflowStatus ::
  "env \<Rightarrow> store \<Rightarrow> string \<Rightarrow> string \<Rightarrow> WorkflowStatus \<Rightarrow> string + store" where
  "bq_updateWorkflowStatus e st workflowId creator status' =
     (case bq_error e (UpdateStatus workflowId creator status') of
        Some m \<Rightarrow> Inl (''Failed to update workflow status: '' @ m)
      | None \<Rightarrow>
          Inr (st\<lparr>workflows := (workflows st)
                 (creator := map (set_status workflowId status'
                                    (current_timestamp e (UpdateStatus workflowId creator status')))
                               (workflows st creator))\<rparr>))"

definition bq_approveWorkflow :: "env \<Rightarrow> store \<Rightarrow> string \<Rightarrow> string \<Rightarrow> string + store" where
  "bq_approveWorkflow e st workflowId clientId =
     (case bq_error e (InsertApproval workflowId clientId) of
        Some m \<Rightarrow> Inl (''Failed to approve workflow: '' @ m)
      | None \<Rightarrow>
          Inr (st\<lparr>approvals := (approvals st)
                 (clientId := approvals st clientId @
                    [\<lparr>ap_workflow_id = workflowId,
                      ap_approver = clientId,
                      ap_approved = True,
                      ap_approved_at = current_timestamp e (InsertApproval workflowId clientId)\<rparr>])\<rparr>))"

text \<open>
  The rows the approval query selects: those of the client's approvals table with the
  workflow id, latest first.
\<close>

definition approval_rows :: "store \<Rightarrow> string \<Rightarrow> string \<Rightarrow> WorkflowApproval list" where
  "approval_rows st workflowId clientId =
     order_by_desc ap_approved_at
       (filter (\<lambda>row. ap_workflow_id row = workflowId) (approvals st clientId))"

definition isWorkflowApproved :: "env \<Rightarrow> store \<Rightarrow> string \<Rightarrow> string \<Rightarrow> bool" where
  "isWorkflowApproved e st workflowId clientId =
     (case bq_error e (SelectApproval workflowId clientId) of
        Some m \<Rightarrow> False
      | None \<Rightarrow>
          (case take 1 (approval_rows st workflowId clientId) of
             [] \<Rightarrow> False
           | row # _ \<Rightarrow> ap_approved row = True))"

definition bq_insertDataset :: "env \<Rightarrow> store \<Rightarrow> Dataset \<Rightarrow> string + store" where
  "bq_insertDataset e st dataset =
     (case bq_error e (InsertDataset (ds_owner dataset) (ds_dataset_id dataset)) of
        Some m \<Rightarrow> Inl (''Failed to insert dataset: '' @ m)
      | None \<Rightarrow>
          Inr (st\<lparr>datasets := (datasets st)
                 (ds_owner dataset := datasets st (ds_owner dataset) @ [dataset])\<rparr>))"

definition bq_insertKey :: "env \<Rightarrow> store \<Rightarrow> WrappedKey \<Rightarrow> string + store" where
  "bq_insertKey e st key =
     (case bq_error e (InsertKey (key_owner key) (key_dataset_id key)) of
        Some m \<Rightarrow> Inl (''Failed to insert key: '' @ m)
      | None \<Rightarrow>
          Inr (st\<lparr>keys := (keys st)
                 (key_owner key := keys st (key_owner key) @
                    [\<lparr>kr_dataset_id = key_dataset_id key,
                      kr_workflow_id = key_workflow_id key,
                      kr_owner = key_owner key,
                      kr_gcs_path = key_gcs_path key,
                      kr_created_at = key_created_at key\<rparr>])\<rparr>))"

text \<open>
  The rows the dataset query and the key query select for an owner:
  \<open>WHERE workflow_id = @workflow_id AND owner = @owner ORDER BY created_at DESC\<close>
  on the owner's table.
\<close>

definition owner_datasets :: "store \<Rightarrow> string \<Rightarrow> string \<Rightarrow> Dataset list" where
  "owner_datasets st workflowId owner =
     order_by_desc ds_created_at
       (filter (\<lambda>row. ds_workflow_id row = workflowId \<and> ds_owner row = owner)
          (datasets st owner))"

definition owner_keys :: "store \<Rightarrow> string \<Rightarrow> string \<Rightarrow> KeyRow list" where
  "owner_keys st workflowId owner =
     order_by_desc kr_created_at
       (filter (\<lambda>row. kr_workflow_id row = workflowId \<and> kr_owner row = owner)
          (keys st owner))"

definition bq_getDatasets :: "env \<Rightarrow> store \<Rightarrow> string \<Rightarrow> string \<Rightarrow> string + Dataset list" where
  "bq_getDatasets e st workflowId owner =
     (case bq_error e (SelectDatasets workflowId owner) of
        Some m \<Rightarrow> Inl (''Failed to get datasets: '' @ m)
      | None \<Rightarrow>
          Inr (map (\<lambda>row. \<lparr>ds_dataset_id = ds_dataset_id row,
                            ds_workflow_id = workflowId,
                            ds_owner = owner,
                            ds_filename = ds_filename row,
                            ds_gcs_path = ds_gcs_path row,
                            ds_created_at = ds_created_at row\<rparr>)
                 (owner_datasets st workflowId owner)))"

definition bq_getKeys :: "env \<Rightarrow> store \<Rightarrow> string \<Rightarrow> string \<Rightarrow> string + WrappedKey list" where
  "bq_getKeys e st workflowId owner =
     (case bq_error e (SelectKeys workflowId owner) of
        Some m \<Rightarrow> Inl (''Failed to get keys: '' @ m)
      | None \<Rightarrow>
          Inr (map (\<lambda>row. \<lparr>key_key_id = kr_dataset_id row,
                            key_dataset_id = kr_dataset_id row,
                            key_workflow_id = workflowId,
                            key_owner = owner,
                            key_gcs_path = kr_gcs_path row,
                            key_created_at = kr_created_at row\<rparr>)
                 (owner_keys st workflowId owner)))"

definition bq_insertResults :: "env \<Rightarrow> store \<Rightarrow> ExecutionResult list \<Rightarrow> string + store" where
  "bq_insertResults e st rs =
     (case bq_error e (InsertResults rs) of
        Some m \<Rightarrow> Inl (''Failed to insert results: '' @ m)
      | None \<Rightarrow> Inr (st\<lparr>results := results st @ rs\<rparr>))"

definition bq_getResults :: "env \<Rightarrow> store \<Rightarrow> string \<Rightarrow> string + ExecutionResult list" where
  "bq_getResults e st workflowId =
     (case bq_error e (SelectResults workflowId) of
        Some m \<Rightarrow> Inl (''Failed to get results: '' @ m)
      | None \<Rightarrow>
          Inr (order_by_desc res_created_at
                 (filter (\<lambda>row. res_workflow_id row = workflowId) (results st))))"

section \<open>StorageService.getModelPath (backend/src/services/storage.service.ts)\<close>

definition getGcsPath :: "config \<Rightarrow> string \<Rightarrow> string" where
  "getGcsPath cfg objectName = ''gs://'' @ gcp_bucket cfg @ ''/'' @ objectName"

definition getModelPath :: "config \<Rightarrow> env \<Rightarrow> string \<Rightarrow> string option" where
  "getModelPath cfg e workflowId =
     (let modelPath = results_pathPrefix cfg @ ''/'' @ workflowId @ ''/result_model.zip'';
          gcsPath = getGcsPath cfg modelPath
      in if file_exists e gcsPath then Some gcsPath else None)"

section \<open>Requests and responses\<close>

text \<open>
  A handler answers \<open>res.status(200).json({success: true, data})\<close> or
  \<open>res.status(code).json({success: false, error, message?})\<close>.
\<close>

datatype 'a response = Success 'a | Failure nat string "string option"

text \<open>
  JavaScript's \<open>!v\<close> on a value that is a string or missing: true when it is missing
  or the empty string.
\<close>

definition falsy :: "string option \<Rightarrow> bool" where
  "falsy v = (case v of None \<Rightarrow> True | Some s \<Rightarrow> s = [])"

text \<open>
  A query parameter that may be given once (a string) or several times (an array).
  An array is never falsy, not even the empty one.
\<close>

datatype query_value = QString string | QArray "string list"

definition falsy_query :: "query_value option \<Rightarrow> bool" where
  "falsy_query v =
     (case v of None \<Rightarrow> True | Some (QString s) \<Rightarrow> s = [] | Some (QArray xs) \<Rightarrow> False)"

text \<open>
  A character of the model is one of the code units \<open>U+0000\<close> to \<open>U+00FF\<close>.
  \<open>s.split(',')\<close> cuts at every comma. \<open>s.trim()\<close> strips the white space and the
  line terminators of ECMAScript from both ends; among the characters of the model
  these are TAB, LF, VT, FF, CR, the space and the no-break space \<open>U+00A0\<close>.
\<close>

fun split_comma :: "string \<Rightarrow> string list" where
  "split_comma [] = [[]]"
| "split_comma (c # cs) =
     (if c = CHR '','' then [] # split_comma cs
      else (case split_comma cs of [] \<Rightarrow> [[c]] | w # ws \<Rightarrow> (c # w) # ws))"

definition is_space :: "char \<Rightarrow> bool" where
  "is_space c \<longleftrightarrow>
     c \<in> {CHR 0x09, CHR 0x0A, CHR 0x0B, CHR 0x0C, CHR 0x0D, CHR 0x20, CHR 0xA0}"

definition trim :: "string \<Rightarrow> string" where
  "trim s = rev (dropWhile is_space (rev (dropWhile is_space s)))"

definition collaboratorList :: "query_value \<Rightarrow> string list" where
  "collaboratorList collaborators =
     (case collaborators of
        QString s \<Rightarrow> map trim (split_comma s)
      | QArray xs \<Rightarrow> xs)"

record CreateWorkflowRequest =
  cw_workflow_id :: "string option"
  cw_creator :: "string option"
  cw_collaborators :: "string list option"

record RunWorkflowRequest =
  rw_workflow_id :: string
  rw_creator :: "string option"
  rw_collaborators :: "query_value option"

record RunData =
  run_status :: string
  run_executed_notebook :: string
  run_result_json_paths :: "string list"
  run_model_gcs_path :: "string option"

text \<open>
  What a run leaves behind: the store, the calls it made to the executor, in order, and
  its response.
\<close>

record run_result =
  rr_store :: store
  rr_calls :: "executor_call list"
  rr_response :: "RunData response"

section \<open>Workflow controller (backend/src/controllers/workflow.controller.ts)\<close>

definition createWorkflow ::
  "config \<Rightarrow> env \<Rightarrow> store \<Rightarrow> CreateWorkflowRequest \<Rightarrow> store \<times> (string \<times> WorkflowStatus) response" where
  "createWorkflow cfg e st req =
     (case (cw_workflow_id req, cw_creator req, cw_collaborators req) of
        (Some workflow_id, Some creator, Some collaborators) \<Rightarrow>
          if workflow_id = [] \<or> creator = []
          then (st, Failure 400 ''Missing required fields: workflow_id, creator, collaborators'' None)
          else
            (case bq_createWorkflow e st
                    \<lparr>wf_workflow_id = workflow_id,
                     wf_creator = creator,
                     wf_collaborators = collaborators,
                     wf_workload_path = workload_fixedPath cfg,
                     wf_status = PENDING_APPROVAL,
                     wf_created_at = date_now e,
                     wf_updated_at = None\<rparr> of
               Inl m \<Rightarrow> (st, Failure 500 ''Failed to create workflow'' (Some m))
             | Inr st' \<Rightarrow> (st', Success (workflow_id, PENDING_APPROVAL)))
      | _ \<Rightarrow> (st, Failure 400 ''Missing required fields: workflow_id, creator, collaborators'' None))"

definition getWorkflow ::
  "env \<Rightarrow> store \<Rightarrow> string \<Rightarrow> string option \<Rightarrow> Workflow response" where
  "getWorkflow e st workflow_id creator =
     (case creator of
        None \<Rightarrow> Failure 400 ''Creator parameter is required'' None
      | Some c \<Rightarrow>
          if c = [] then Failure 400 ''Creator parameter is required'' None
          else
            (case bq_getWorkflow e st workflow_id c of
               Inl m \<Rightarrow> Failure 500 ''Failed to get workflow'' (Some m)
             | Inr None \<Rightarrow> Failure 404 ''Workflow not found'' None
             | Inr (Some workflow) \<Rightarrow> Success workflow))"

definition approveWorkflow ::
  "env \<Rightarrow> store \<Rightarrow> string \<Rightarrow> string option \<Rightarrow> store \<times> (string \<times> string) response" where
  "approveWorkflow e st workflow_id client_id =
     (case client_id of
        None \<Rightarrow> (st, Failure 400 ''client_id parameter is required'' None)
      | Some c \<Rightarrow>
          if c = [] then (st, Failure 400 ''client_id parameter is required'' None)
          else
            (case bq_approveWorkflow e st workflow_id c of
               Inl m \<Rightarrow> (st, Failure 500 ''Failed to approve workflow'' (Some m))
             | Inr st' \<Rightarrow> (st', Success (workflow_id, ''APPROVED_BY_'' @ c))))"

text \<open>The approval loop of \<open>runWorkflow\<close>: the first collaborator whose check fails.\<close>

fun checkApprovals :: "env \<Rightarrow> store \<Rightarrow> string \<Rightarrow> string list \<Rightarrow> string option" where
  "checkApprovals e st workflow_id [] = None"
| "checkApprovals e st workflow_id (collaborator # rest) =
     (if \<not> isWorkflowApproved e st workflow_id collaborator then Some collaborator
      else checkApprovals e st workflow_id rest)"

text \<open>
  The matching loop: for each dataset, \<open>keys.find(k => k.dataset_id === dataset.dataset_id)\<close>,
  and a tuple is pushed when a key is found.
\<close>

fun matchDatasets :: "string \<Rightarrow> WrappedKey list \<Rightarrow> Dataset list \<Rightarrow> DatasetSpec list" where
  "matchDatasets owner ks [] = []"
| "matchDatasets owner ks (dataset # rest) =
     (case find (\<lambda>k. key_dataset_id k = ds_dataset_id dataset) ks of
        Some key \<Rightarrow>
          \<lparr>spec_owner = owner,
           spec_ciphertext_gcs = ds_gcs_path dataset,
           spec_wrapped_dek_gcs = key_gcs_path key\<rparr> # matchDatasets owner ks rest
      | None \<Rightarrow> matchDatasets owner ks rest)"

definition gatherOwner :: "env \<Rightarrow> store \<Rightarrow> string \<Rightarrow> string \<Rightarrow> string + DatasetSpec list" where
  "gatherOwner e st workflow_id owner =
     (case bq_getDatasets e st workflow_id owner of
        Inl m \<Rightarrow> Inl m
      | Inr ownerDatasets \<Rightarrow>
          (case bq_getKeys e st workflow_id owner of
             Inl m \<Rightarrow> Inl m
           | Inr ownerKeys \<Rightarrow> Inr (matchDatasets owner ownerKeys ownerDatasets)))"

fun gatherCollaborators ::
  "env \<Rightarrow> store \<Rightarrow> string \<Rightarrow> string \<Rightarrow> string list \<Rightarrow> string + DatasetSpec list" where
  "gatherCollaborators e st workflow_id creator [] = Inr []"
| "gatherCollaborators e st workflow_id creator (collaborator # rest) =
     (if collaborator = creator then gatherCollaborators e st workflow_id creator rest
      else
        (case gatherOwner e st workflow_id collaborator of
           Inl m \<Rightarrow> Inl m
         | Inr xs \<Rightarrow>
             (case gatherCollaborators e st workflow_id creator rest of
                Inl m \<Rightarrow> Inl m
              | Inr ys \<Rightarrow> Inr (xs @ ys))))"

text \<open>The list \<open>datasets\<close> of \<open>runWorkflow\<close>: the creator's tuples, then the collaborators'.\<close>

definition gatherDatasets ::
  "env \<Rightarrow> store \<Rightarrow> string \<Rightarrow> string \<Rightarrow> string list \<Rightarrow> string + DatasetSpec list" where
  "gatherDatasets e st workflow_id creator collaborators =
     (case gatherOwner e st workflow_id creator of
        Inl m \<Rightarrow> Inl m
      | Inr xs \<Rightarrow>
          (case gatherCollaborators e st workflow_id creator collaborators of
             Inl m \<Rightarrow> Inl m
           | Inr ys \<Rightarrow> Inr (xs @ ys)))"

text \<open>The handler of the inner \<open>catch (executorError)\<close>.\<close>

definition executorFailed ::
  "env \<Rightarrow> store \<Rightarrow> string \<Rightarrow> string \<Rightarrow> executor_call list \<Rightarrow> string \<Rightarrow> run_result" where
  "executorFailed e st workflow_id creator calls message =
     (case bq_updateWorkflowStatus e st workflow_id creator FAILED of
        Inl m \<Rightarrow>
          \<lparr>rr_store = st, rr_calls = calls,
           rr_response = Failure 500 ''Failed to run workflow'' (Some m)\<rparr>
      | Inr st' \<Rightarrow>
          \<lparr>rr_store = st', rr_calls = calls,
           rr_response = Failure 502 ''Executor failed'' (Some message)\<rparr>)"

definition makeResults :: "env \<Rightarrow> string \<Rightarrow> string \<Rightarrow> string list \<Rightarrow> ExecutionResult list" where
  "makeResults e workflow_id executedNotebookPath resultPaths =
     map (\<lambda>(i, path).
            \<lparr>res_id = uuidv4 e i,
             res_workflow_id = workflow_id,
             res_executed_notebook_path = executedNotebookPath,
             res_result_path = path,
             res_created_at = date_now e\<rparr>)
       (enumerate 0 resultPaths)"

definition executePayload :: "config \<Rightarrow> string \<Rightarrow> Workflow \<Rightarrow> DatasetSpec list \<Rightarrow> ExecuteRequest" where
  "executePayload cfg workflow_id workflow ds =
     \<lparr>exec_workflow_id = workflow_id,
      exec_workload_gcs = wf_workload_path workflow,
      exec_datasets = ds,
      exec_result_base = ''gs://'' @ gcp_bucket cfg @ ''/results/'' @ workflow_id @ ''/result'',
      exec_executed_notebook_base =
        ''gs://'' @ gcp_bucket cfg @ ''/results/'' @ workflow_id @ ''/executed''\<rparr>"

definition executeCall :: "config \<Rightarrow> string \<Rightarrow> Workflow \<Rightarrow> DatasetSpec list \<Rightarrow> executor_call" where
  "executeCall cfg workflow_id workflow ds =
     \<lparr>call_url = executor_url cfg @ ''/execute'',
      call_body = executePayload cfg workflow_id workflow ds,
      call_timeout = 600000\<rparr>"

text \<open>The inner \<open>try\<close> block: the call to the executor and what follows it.\<close>

definition callExecutor ::
  "config \<Rightarrow> env \<Rightarrow> store \<Rightarrow> string \<Rightarrow> string \<Rightarrow> Workflow \<Rightarrow> DatasetSpec list \<Rightarrow> run_result" where
  "callExecutor cfg e st workflow_id creator workflow ds =
     (let call = executeCall cfg workflow_id workflow ds in
      case axios_post e call of
        Inl m \<Rightarrow> executorFailed e st workflow_id creator [call] m
      | Inr resultInfo \<Rightarrow>
          (let resultPaths = (case resp_result_paths resultInfo of None \<Rightarrow> [] | Some ps \<Rightarrow> ps);
               executedNotebookPath = resp_executed_notebook_path resultInfo;
               rs = makeResults e workflow_id executedNotebookPath resultPaths
           in case (if rs \<noteq> [] then bq_insertResults e st rs else Inr st) of
                Inl m \<Rightarrow> executorFailed e st workflow_id creator [call] m
              | Inr st1 \<Rightarrow>
                  (case bq_updateWorkflowStatus e st1 workflow_id creator COMPLETED of
                     Inl m \<Rightarrow> executorFailed e st1 workflow_id creator [call] m
                   | Inr st2 \<Rightarrow>
                       \<lparr>rr_store = st2, rr_calls = [call],
                        rr_response = Success
                          \<lparr>run_status = ''success'',
                           run_executed_notebook = executedNotebookPath,
                           run_result_json_paths = resultPaths,
                           run_model_gcs_path = getModelPath cfg e workflow_id\<rparr>\<rparr>)))"

definition runFailed :: "store \<Rightarrow> string \<Rightarrow> run_result" where
  "runFailed st m =
     \<lparr>rr_store = st, rr_calls = [], rr_response = Failure 500 ''Failed to run workflow'' (Some m)\<rparr>"

definition runWorkflow :: "config \<Rightarrow> env \<Rightarrow> store \<Rightarrow> RunWorkflowRequest \<Rightarrow> run_result" where
  "runWorkflow cfg e st req =
     (case (rw_creator req, rw_collaborators req) of
        (Some creator, Some collaborators) \<Rightarrow>
          if creator = [] \<or> falsy_query (Some collaborators)
          then \<lparr>rr_store = st, rr_calls = [],
                rr_response = Failure 400 ''creator and collaborators parameters are required'' None\<rparr>
          else
            (case checkApprovals e st (rw_workflow_id req) (collaboratorList collaborators) of
               Some collaborator \<Rightarrow>
                 \<lparr>rr_store = st, rr_calls = [],
                  rr_response = Failure 403 (''Workflow not approved by '' @ collaborator) None\<rparr>
             | None \<Rightarrow>
                 (case bq_getWorkflow e st (rw_workflow_id req) creator of
                    Inl m \<Rightarrow> runFailed st m
                  | Inr None \<Rightarrow>
                      \<lparr>rr_store = st, rr_calls = [],
                       rr_response = Failure 404 ''Workflow not found'' None\<rparr>
                  | Inr (Some workflow) \<Rightarrow>
                      (case bq_updateWorkflowStatus e st (rw_workflow_id req) creator RUNNING of
                         Inl m \<Rightarrow> runFailed st m
                       | Inr st1 \<Rightarrow>
                           (case gatherDatasets e st1 (rw_workflow_id req) creator
                                   (collaboratorList collaborators) of
                              Inl m \<Rightarrow> runFailed st1 m
                            | Inr ds \<Rightarrow>
                                if ds = []
                                then \<lparr>rr_store = st1, rr_calls = [],
                                      rr_response =
                                        Failure 400 ''No datasets found for this workflow'' None\<rparr>
                                else callExecutor cfg e st1 (rw_workflow_id req) creator
                                       workflow ds))))
      | _ \<Rightarrow>
          \<lparr>rr_store = st, rr_calls = [],
           rr_response = Failure 400 ''creator and collaborators parameters are required'' None\<rparr>)"

section \<open>Storage controller (backend/src/controllers/storage.controller.ts)\<close>

text \<open>
  The two handlers that write Dataset and WrappedKey rows. \<open>signed_url\<close> is
  \<open>StorageService.generateUploadUrl\<close> and \<open>upload_to_gcs\<close> is
  \<open>StorageService.uploadFile\<close> (the message of the error it throws, if any).
\<close>

record UploadUrlRequest =
  uu_workflow_id :: "string option"
  uu_dataset_id :: "string option"
  uu_filename :: "string option"
  uu_file_type :: "string option"
  uu_owner :: "string option"

definition insertMetadata ::
  "env \<Rightarrow> store \<Rightarrow> string \<Rightarrow> string \<Rightarrow> string \<Rightarrow> string \<Rightarrow> string \<Rightarrow> string \<Rightarrow> string + store" where
  "insertMetadata e st file_type dataset_id workflow_id owner filename gcsPath =
     (if file_type = ''dataset''
      then bq_insertDataset e st
             \<lparr>ds_dataset_id = dataset_id, ds_workflow_id = workflow_id, ds_owner = owner,
              ds_filename = filename, ds_gcs_path = gcsPath, ds_created_at = date_now e\<rparr>
      else if file_type = ''key''
      then bq_insertKey e st
             \<lparr>key_key_id = dataset_id, key_dataset_id = dataset_id,
              key_workflow_id = workflow_id, key_owner = owner, key_gcs_path = gcsPath,
              key_created_at = date_now e\<rparr>
      else Inr st)"

definition generateUploadUrl ::
  "config \<Rightarrow> env \<Rightarrow> store \<Rightarrow> UploadUrlRequest \<Rightarrow> store \<times> (string \<times> string \<times> string) response" where
  "generateUploadUrl cfg e st req =
     (if falsy (uu_workflow_id req) \<or> falsy (uu_dataset_id req) \<or> falsy (uu_filename req) \<or>
         falsy (uu_file_type req) \<or> falsy (uu_owner req)
      then (st, Failure 400
              ''Missing required parameters: workflow_id, dataset_id, filename, file_type, owner''
              None)
      else
        (let workflow_id = the (uu_workflow_id req); dataset_id = the (uu_dataset_id req);
             filename = the (uu_filename req); file_type = the (uu_file_type req);
             owner = the (uu_owner req)
         in if file_type \<notin> set [''dataset'', ''workload'', ''key'']
            then (st, Failure 400 ''file_type must be one of: dataset, workload, key'' None)
            else
              (let objectName = file_type @ ''s/'' @ owner @ ''/'' @ workflow_id @ ''/'' @
                                dataset_id @ ''/'' @ filename;
                   gcsPath = getGcsPath cfg objectName
               in case signed_url e objectName of
                    Inl m \<Rightarrow> (st, Failure 500 ''Failed to generate upload URL'' (Some m))
                  | Inr uploadUrl \<Rightarrow>
                      (case insertMetadata e st file_type dataset_id workflow_id owner filename
                              gcsPath of
                         Inl m \<Rightarrow> (st, Failure 500 ''Failed to generate upload URL'' (Some m))
                       | Inr st' \<Rightarrow> (st', Success (uploadUrl, gcsPath, workflow_id))))))"

record UploadedFile =
  file_originalname :: string
  file_path :: string
  file_size :: nat

record UploadFileRequest =
  uf_file :: "UploadedFile option"
  uf_workflow_id :: "string option"
  uf_dataset_id :: "string option"
  uf_file_type :: "string option"
  uf_owner :: "string option"

definition uploadFile ::
  "config \<Rightarrow> env \<Rightarrow> store \<Rightarrow> UploadFileRequest \<Rightarrow> store \<times> (string \<times> string \<times> nat) response" where
  "uploadFile cfg e st req =
     (case uf_file req of
        None \<Rightarrow> (st, Failure 400 ''No file uploaded'' None)
      | Some file \<Rightarrow>
          if falsy (uf_workflow_id req) \<or> falsy (uf_dataset_id req) \<or>
             falsy (uf_file_type req) \<or> falsy (uf_owner req)
          then (st, Failure 400
                  ''Missing required fields: workflow_id, dataset_id, file_type, owner'' None)
          else
            (let workflow_id = the (uf_workflow_id req); dataset_id = the (uf_dataset_id req);
                 file_type = the (uf_file_type req); owner = the (uf_owner req);
                 objectName = file_type @ ''s/'' @ owner @ ''/'' @ workflow_id @ ''/'' @
                              dataset_id @ ''/'' @ file_originalname file;
                 gcsPath = getGcsPath cfg objectName
             in case upload_to_gcs e gcsPath of
                  Some m \<Rightarrow> (st, Failure 500 ''Failed to upload file'' (Some m))
                | None \<Rightarrow>
                    (case insertMetadata e st file_type dataset_id workflow_id owner
                            (file_originalname file) gcsPath of
                       Inl m \<Rightarrow> (st, Failure 500 ''Failed to upload file'' (Some m))
                     | Inr st' \<Rightarrow>
                         (st', Success (gcsPath, file_originalname file, file_size file)))))"

section \<open>The operations of the public interface\<close>

text \<open>
  The routes whose handlers write to the store. The remaining routes (reading a
  workflow, its results or its logs, listing workflows, the dashboard statistics, the
  download URL, the executor's public key, the health check) call no writing method
  of the store.
\<close>

datatype operation =
    CreateWorkflow CreateWorkflowRequest
  | ApproveWorkflow string "string option"
  | RunWorkflow RunWorkflowRequest
  | GenerateUploadUrl UploadUrlRequest
  | UploadFile UploadFileRequest

text \<open>The store after an operation has been handled in an environment.\<close>

definition perform :: "config \<Rightarrow> store \<Rightarrow> env \<times> operation \<Rightarrow> store" where
  "perform cfg st step =
     (case step of
        (e, CreateWorkflow req) \<Rightarrow> fst (createWorkflow cfg e st req)
      | (e, ApproveWorkflow workflow_id client_id) \<Rightarrow> fst (approveWorkflow e st workflow_id client_id)
      | (e, RunWorkflow req) \<Rightarrow> rr_store (runWorkflow cfg e st req)
      | (e, GenerateUploadUrl req) \<Rightarrow> fst (generateUploadUrl cfg e st req)
      | (e, UploadFile req) \<Rightarrow> fst (uploadFile cfg e st req))"

fun perform_all :: "config \<Rightarrow> store \<Rightarrow> (env \<times> operation) list \<Rightarrow> store" where
  "perform_all cfg st [] = st"
| "perform_all cfg st (step # steps) = perform_all cfg (perform cfg st step) steps"

section \<open>Notions of the specification\<close>

definition http_status :: "'a response \<Rightarrow> nat" where
  "http_status r = (case r of Success _ \<Rightarrow> 200 | Failure code _ _ \<Rightarrow> code)"

text \<open>
  The latest Approval row of an approver for a workflow: the first of the approver's
  rows for the workflow, ordered by \<open>approvedAt\<close> descending.
\<close>

definition latest_approval :: "store \<Rightarrow> string \<Rightarrow> string \<Rightarrow> WorkflowApproval option" where
  "latest_approval st workflowId approverId =
     (case approval_rows st workflowId approverId of [] \<Rightarrow> None | row # _ \<Rightarrow> Some row)"

text \<open>A collaborator whose latest Approval row is absent or has \<open>approved = false\<close>.\<close>

definition lacks_approval :: "store \<Rightarrow> string \<Rightarrow> string \<Rightarrow> bool" where
  "lacks_approval st workflowId approverId =
     (case latest_approval st workflowId approverId of
        None \<Rightarrow> True
      | Some row \<Rightarrow> ap_approved row = False)"

text \<open>
  The join of the Dataset Assembler for one owner: a lookup of the owner's WrappedKey
  rows by dataset id; for each of the owner's Dataset rows, in order, one tuple if a
  WrappedKey with the same id exists, and nothing otherwise.
\<close>

definition join_owner :: "store \<Rightarrow> string \<Rightarrow> string \<Rightarrow> DatasetSpec list" where
  "join_owner st workflowId owner =
     (let lookup = map_of (map (\<lambda>k. (kr_dataset_id k, k)) (owner_keys st workflowId owner))
      in concat
           (map (\<lambda>d. case lookup (ds_dataset_id d) of
                        None \<Rightarrow> []
                      | Some k \<Rightarrow>
                          [\<lparr>spec_owner = owner,
                            spec_ciphertext_gcs = ds_gcs_path d,
                            spec_wrapped_dek_gcs = kr_gcs_path k\<rparr>])
              (owner_datasets st workflowId owner)))"

text \<open>\<open>assemble(workflowId, ownerIds)\<close>: the joins of the owners, concatenated in order.\<close>

definition assemble :: "store \<Rightarrow> string \<Rightarrow> string list \<Rightarrow> DatasetSpec list" where
  "assemble st workflowId ownerIds = concat (map (join_owner st workflowId) ownerIds)"

text \<open>
  The owners of a run: the creator first, then the collaborators in the order given,
  without the creator.
\<close>

definition run_owners :: "string \<Rightarrow> string list \<Rightarrow> string list" where
  "run_owners creator collaborators = creator # filter (\<lambda>c. c \<noteq> creator) collaborators"

text \<open>
  How a run ends when, after the call to the executor, a step has failed with the
  message \<open>msg\<close> (the handler of the inner \<open>catch\<close>): when the store accepts the
  FAILED status write, the failure 502 with that message and the workflow in FAILED;
  when the store rejects the write, the failure 500 and the workflow left in RUNNING.
\<close>

definition failure_handled :: "env \<Rightarrow> string \<Rightarrow> string \<Rightarrow> string \<Rightarrow> run_result \<Rightarrow> bool" where
  "failure_handled e w creator msg r =
     (case bq_error e (UpdateStatus w creator FAILED) of
        None \<Rightarrow>
          rr_response r = Failure 502 ''Executor failed'' (Some msg) \<and>
          (\<forall>row \<in> set (workflows (rr_store r) creator).
             wf_workflow_id row = w \<longrightarrow> wf_status row = FAILED)
      | Some m \<Rightarrow>
          rr_response r =
            Failure 500 ''Failed to run workflow''
              (Some (''Failed to update workflow status: '' @ m)) \<and>
          (\<forall>row \<in> set (workflows (rr_store r) creator).
             wf_workflow_id row = w \<longrightarrow> wf_status row = RUNNING))"

text \<open>Every Approval row of the store is affirmative.\<close>

definition approvals_affirmative :: "store \<Rightarrow> bool" where
  "approvals_affirmative st \<longleftrightarrow> (\<forall>c. \<forall>row \<in> set (approvals st c). ap_approved row = True)"






section \<open>Example configuration, environments and stores\<close>

definition cfg0 :: config where
  "cfg0 = \<lparr>gcp_bucket = ''cleanroom'',
           executor_url = ''http://localhost:8443'',
           results_pathPrefix = ''results'',
           workload_fixedPath = ''gs://cleanroom/workloads/fraud-detector.ipynb''\<rparr>"

text \<open>An environment in which every store call succeeds and the executor answers.\<close>

definition env0 :: env where
  "env0 = \<lparr>bq_error = (\<lambda>_. None),
           current_timestamp = (\<lambda>_. 10),
           date_now = 10,
           uuidv4 = (\<lambda>i. ''uuid''),
           axios_post = (\<lambda>_. Inr \<lparr>resp_result_paths = Some [''r1'', ''r2''],
                                    resp_executed_notebook_path = ''nb''\<rparr>),
           file_exists = (\<lambda>_. False),
           signed_url = (\<lambda>_. Inr ''https://signed''),
           upload_to_gcs = (\<lambda>_. None)\<rparr>"

text \<open>The same, but the approval query for \<open>B\<close> fails.\<close>

definition env_approvals_down :: env where
  "env_approvals_down =
     env0\<lparr>bq_error := (\<lambda>c. if c = SelectApproval ''W'' ''B'' then Some ''backendError'' else None)\<rparr>"

text \<open>The same as \<open>env0\<close>, but the call to the executor runs into its timeout.\<close>

definition env_timeout :: env where
  "env_timeout = env0\<lparr>axios_post := (\<lambda>_. Inl ''timeout of 600000ms exceeded'')\<rparr>"

text \<open>Environments in which the store rejects one call.\<close>

definition rejecting :: "bq_call \<Rightarrow> bq_call \<Rightarrow> string option" where
  "rejecting call c = (if c = call then Some ''backendError'' else None)"

definition env_failed_write_down :: env where
  "env_failed_write_down = env_timeout\<lparr>bq_error := rejecting (UpdateStatus ''W'' ''A'' FAILED)\<rparr>"

definition env_completed_write_down :: env where
  "env_completed_write_down = env0\<lparr>bq_error := rejecting (UpdateStatus ''W'' ''A'' COMPLETED)\<rparr>"

definition env_running_write_down :: env where
  "env_running_write_down = env0\<lparr>bq_error := rejecting (UpdateStatus ''W'' ''A'' RUNNING)\<rparr>"

definition env_approve_down :: env where
  "env_approve_down = env0\<lparr>bq_error := rejecting (InsertApproval ''W'' ''C'')\<rparr>"

text \<open>
  Creator \<open>A\<close> has workflow \<open>W\<close> with one dataset and its key, and a second dataset
  without a key; \<open>B\<close> first declined and then approved; \<open>C\<close> has no approval row.
\<close>

definition st0 :: store where
  "st0 =
     \<lparr>workflows = (\<lambda>_. [])
        (''A'' := [\<lparr>wf_workflow_id = ''W'', wf_creator = ''A'', wf_collaborators = [''B'', ''C''],
                   wf_workload_path = ''gs://cleanroom/workloads/fraud-detector.ipynb'',
                   wf_status = PENDING_APPROVAL, wf_created_at = 1, wf_updated_at = None\<rparr>]),
      approvals = (\<lambda>_. [])
        (''B'' := [\<lparr>ap_workflow_id = ''W'', ap_approver = ''B'', ap_approved = False,
                   ap_approved_at = 1\<rparr>,
                  \<lparr>ap_workflow_id = ''W'', ap_approver = ''B'', ap_approved = True,
                   ap_approved_at = 2\<rparr>]),
      datasets = (\<lambda>_. [])
        (''A'' := [\<lparr>ds_dataset_id = ''d1'', ds_workflow_id = ''W'', ds_owner = ''A'',
                   ds_filename = ''a.csv'', ds_gcs_path = ''gs://cleanroom/datasets/A/W/d1/a.csv'',
                   ds_created_at = 3\<rparr>,
                  \<lparr>ds_dataset_id = ''d2'', ds_workflow_id = ''W'', ds_owner = ''A'',
                   ds_filename = ''b.csv'', ds_gcs_path = ''gs://cleanroom/datasets/A/W/d2/b.csv'',
                   ds_created_at = 4\<rparr>]),
      keys = (\<lambda>_. [])
        (''A'' := [\<lparr>kr_dataset_id = ''d1'', kr_workflow_id = ''W'', kr_owner = ''A'',
                   kr_gcs_path = ''gs://cleanroom/keys/A/W/d1/a.key'', kr_created_at = 5\<rparr>]),
      results = []\<rparr>"

text \<open>
  As \<open>st0\<close>, and \<open>C\<close> has approved; \<open>B\<close> has a dataset with its key, and a key
  without a dataset.
\<close>

definition st_ready :: store where
  "st_ready =
     st0\<lparr>approvals := (approvals st0)
            (''C'' := [\<lparr>ap_workflow_id = ''W'', ap_approver = ''C'', ap_approved = True,
                       ap_approved_at = 6\<rparr>]),
         datasets := (datasets st0)
            (''B'' := [\<lparr>ds_dataset_id = ''d3'', ds_workflow_id = ''W'', ds_owner = ''B'',
                       ds_filename = ''c.csv'',
                       ds_gcs_path = ''gs://cleanroom/datasets/B/W/d3/c.csv'',
                       ds_created_at = 7\<rparr>]),
         keys := (keys st0)
            (''B'' := [\<lparr>kr_dataset_id = ''d3'', kr_workflow_id = ''W'', kr_owner = ''B'',
                       kr_gcs_path = ''gs://cleanroom/keys/B/W/d3/c.key'', kr_created_at = 8\<rparr>,
                      \<lparr>kr_dataset_id = ''d4'', kr_workflow_id = ''W'', kr_owner = ''B'',
                       kr_gcs_path = ''gs://cleanroom/keys/B/W/d4/d.key'', kr_created_at = 9\<rparr>])\<rparr>"

text \<open>As \<open>st_ready\<close>, but nobody has uploaded a dataset.\<close>

definition st_nodata :: store where
  "st_nodata = st_ready\<lparr>datasets := (\<lambda>_. [])\<rparr>"

text \<open>The workflow row of \<open>W\<close> and the tuples of its matched datasets.\<close>

definition wf0 :: Workflow where
  "wf0 = \<lparr>wf_workflow_id = ''W'', wf_creator = ''A'', wf_collaborators = [''B'', ''C''],
          wf_workload_path = ''gs://cleanroom/workloads/fraud-detector.ipynb'',
          wf_status = PENDING_APPROVAL, wf_created_at = 1, wf_updated_at = None\<rparr>"

definition ds0 :: "DatasetSpec list" where
  "ds0 = [\<lparr>spec_owner = ''A'', spec_ciphertext_gcs = ''gs://cleanroom/datasets/A/W/d1/a.csv'',
           spec_wrapped_dek_gcs = ''gs://cleanroom/keys/A/W/d1/a.key''\<rparr>,
          \<lparr>spec_owner = ''B'', spec_ciphertext_gcs = ''gs://cleanroom/datasets/B/W/d3/c.csv'',
           spec_wrapped_dek_gcs = ''gs://cleanroom/keys/B/W/d3/c.key''\<rparr>]"

text \<open>The result rows of the example executor response.\<close>

definition rs0 :: "ExecutionResult list" where
  "rs0 = [\<lparr>res_id = ''uuid'', res_workflow_id = ''W'', res_executed_notebook_path = ''nb'',
           res_result_path = ''r1'', res_created_at = 10\<rparr>,
          \<lparr>res_id = ''uuid'', res_workflow_id = ''W'', res_executed_notebook_path = ''nb'',
           res_result_path = ''r2'', res_created_at = 10\<rparr>]"

text \<open>The store without any row.\<close>

definition empty_store :: store where
  "empty_store = \<lparr>workflows = (\<lambda>_. []), approvals = (\<lambda>_. []), datasets = (\<lambda>_. []),
                  keys = (\<lambda>_. []), results = []\<rparr>"

text \<open>As \<open>st_ready\<close>, but only \<open>B\<close> has uploaded a dataset.\<close>

definition st_only_B :: store where
  "st_only_B = st_ready\<lparr>datasets := (datasets st_ready)(''A'' := [])\<rparr>"

definition create_req :: CreateWorkflowRequest where
  "create_req = \<lparr>cw_workflow_id = Some ''W'', cw_creator = Some ''A'',
                 cw_collaborators = Some [''B'', ''C'']\<rparr>"

definition run_req :: "string \<Rightarrow> RunWorkflowRequest" where
  "run_req cs = \<lparr>rw_workflow_id = ''W'', rw_creator = Some ''A'', rw_collaborators = Some (QString cs)\<rparr>"







section \<open>Properties\<close>

lemma set_order_by_desc: "set (order_by_desc f xs) = set xs"
  by (simp add: order_by_desc_def)

lemma order_by_desc_Nil_iff: "order_by_desc f xs = [] \<longleftrightarrow> xs = []"
  by (metis set_order_by_desc set_empty)

lemma sorted_le_last: "sorted (xs :: nat list) \<Longrightarrow> x \<in> set xs \<Longrightarrow> x \<le> last xs"
  by (induction xs) auto

lemma hd_order_by_desc_max:
  assumes "x \<in> set xs"
  shows "f x \<le> f (hd (order_by_desc f xs))"
proof -
  let ?ys = "sort_key f xs"
  have ne: "?ys \<noteq> []" using assms by (metis set_sort empty_iff set_empty)
  have "f x \<in> set (map f ?ys)" using assms by simp
  moreover have "sorted (map f ?ys)" by (rule sorted_sort_key)
  ultimately have "f x \<le> last (map f ?ys)" by (simp add: sorted_le_last)
  then show ?thesis using ne by (simp add: order_by_desc_def hd_rev last_map)
qed

subsection \<open>The approval gate\<close>

lemmas ex_defs = cfg0_def env0_def env_approvals_down_def env_timeout_def st0_def run_req_def
  st_ready_def st_nodata_def st_only_B_def empty_store_def create_req_def
  rejecting_def env_failed_write_down_def env_completed_write_down_def env_running_write_down_def
  env_approve_down_def
lemmas eval_defs = isWorkflowApproved_def approval_rows_def order_by_desc_def latest_approval_def
  lacks_approval_def falsy_query_def collaboratorList_def trim_def is_space_def http_status_def

lemma isWorkflowApproved_iff:
  "isWorkflowApproved e st w c \<longleftrightarrow>
     bq_error e (SelectApproval w c) = None \<and> \<not> lacks_approval st w c"
  by (auto simp: isWorkflowApproved_def lacks_approval_def latest_approval_def
      split: option.splits list.splits)

lemma latest_approval_None_iff:
  "latest_approval st w c = None \<longleftrightarrow> (\<forall>row \<in> set (approvals st c). ap_workflow_id row \<noteq> w)"
proof -
  have "latest_approval st w c = None \<longleftrightarrow> approval_rows st w c = []"
    by (simp add: latest_approval_def split: list.splits)
  also have "\<dots> \<longleftrightarrow> filter (\<lambda>row. ap_workflow_id row = w) (approvals st c) = []"
    by (simp add: approval_rows_def order_by_desc_Nil_iff)
  finally show ?thesis by (simp add: filter_empty_conv)
qed

lemma latest_approval_Some:
  assumes "latest_approval st w c = Some row"
  shows "row \<in> set (approvals st c) \<and> ap_workflow_id row = w \<and>
         (\<forall>r \<in> set (approvals st c). ap_workflow_id r = w \<longrightarrow> ap_approved_at r \<le> ap_approved_at row)"
proof -
  let ?rows = "filter (\<lambda>row. ap_workflow_id row = w) (approvals st c)"
  from assms have hd: "row = hd (order_by_desc ap_approved_at ?rows)"
    and ne: "order_by_desc ap_approved_at ?rows \<noteq> []"
    by (auto simp: latest_approval_def approval_rows_def split: list.splits)
  from ne hd have "row \<in> set (order_by_desc ap_approved_at ?rows)" by simp
  then have mem: "row \<in> set ?rows" by (simp only: set_order_by_desc)
  have "\<forall>r \<in> set ?rows. ap_approved_at r \<le> ap_approved_at row"
    using hd hd_order_by_desc_max[of _ ?rows ap_approved_at] by simp
  with mem show ?thesis by auto
qed

text \<open>
  C7. The approval check returns the \<open>approved\<close> flag of the approver's most recent
  Approval row for the workflow (a row of the approver's collection with that workflow
  id and the greatest \<open>approvedAt\<close>); it returns false when there is no such row and
  when the store query fails. Its result is a boolean in every case: no error reaches
  the caller.
\<close>

theorem isWorkflowApproved_latest:
  "(bq_error e (SelectApproval workflowId approverId) \<noteq> None \<longrightarrow>
      isWorkflowApproved e st workflowId approverId = False) \<and>
   (bq_error e (SelectApproval workflowId approverId) = None \<longrightarrow>
      (case latest_approval st workflowId approverId of
         None \<Rightarrow>
           isWorkflowApproved e st workflowId approverId = False \<and>
           (\<forall>row \<in> set (approvals st approverId). ap_workflow_id row \<noteq> workflowId)
       | Some row \<Rightarrow>
           isWorkflowApproved e st workflowId approverId = ap_approved row \<and>
           row \<in> set (approvals st approverId) \<and> ap_workflow_id row = workflowId \<and>
           (\<forall>r \<in> set (approvals st approverId).
              ap_workflow_id r = workflowId \<longrightarrow> ap_approved_at r \<le> ap_approved_at row)))"
proof (intro conjI impI)
  assume "bq_error e (SelectApproval workflowId approverId) \<noteq> None"
  then show "isWorkflowApproved e st workflowId approverId = False"
    by (simp add: isWorkflowApproved_iff)
next
  assume ok: "bq_error e (SelectApproval workflowId approverId) = None"
  show "case latest_approval st workflowId approverId of
         None \<Rightarrow>
           isWorkflowApproved e st workflowId approverId = False \<and>
           (\<forall>row \<in> set (approvals st approverId). ap_workflow_id row \<noteq> workflowId)
       | Some row \<Rightarrow>
           isWorkflowApproved e st workflowId approverId = ap_approved row \<and>
           row \<in> set (approvals st approverId) \<and> ap_workflow_id row = workflowId \<and>
           (\<forall>r \<in> set (approvals st approverId).
              ap_workflow_id r = workflowId \<longrightarrow> ap_approved_at r \<le> ap_approved_at row)"
  proof (cases "latest_approval st workflowId approverId")
    case None
    then show ?thesis
      using latest_approval_None_iff[of st workflowId approverId]
      by (simp add: isWorkflowApproved_iff lacks_approval_def)
  next
    case (Some row)
    then show ?thesis
      using latest_approval_Some[OF Some] ok
      by (simp add: isWorkflowApproved_iff lacks_approval_def)
  qed
qed

theorem isWorkflowApproved_latest_witness:
  "isWorkflowApproved env_approvals_down st0 ''W'' ''B'' = False \<and>
   isWorkflowApproved env0 st0 ''W'' ''C'' = False \<and>
   latest_approval st0 ''W'' ''B'' =
     Some \<lparr>ap_workflow_id = ''W'', ap_approver = ''B'', ap_approved = True, ap_approved_at = 2\<rparr> \<and>
   isWorkflowApproved env0 st0 ''W'' ''B'' = True"
  using isWorkflowApproved_latest[of env_approvals_down "''W''" "''B''" st0]
    isWorkflowApproved_latest[of env0 "''W''" "''C''" st0]
    isWorkflowApproved_latest[of env0 "''W''" "''B''" st0]
  by (simp add: ex_defs latest_approval_def approval_rows_def order_by_desc_def)

subsection \<open>The approval loop of a run\<close>

lemma checkApprovals_None_iff:
  "checkApprovals e st w cs = None \<longleftrightarrow> (\<forall>c \<in> set cs. isWorkflowApproved e st w c)"
  by (induction cs) auto

lemma checkApprovals_first:
  "checkApprovals e st w (pre @ c # post) = Some c"
  if "\<forall>x \<in> set pre. isWorkflowApproved e st w x" and "\<not> isWorkflowApproved e st w c"
  using that by (induction pre) auto

lemma checkApprovals_Some:
  assumes "checkApprovals e st w cs = Some c"
  shows "c \<in> set cs \<and> \<not> isWorkflowApproved e st w c"
  using assms by (induction cs) (auto split: if_splits)

lemma http_status_executorFailed:
  "http_status (rr_response (executorFailed e st w creator calls m)) \<in> {500, 502}"
  by (simp add: executorFailed_def http_status_def split: sum.splits)

lemma http_status_callExecutor:
  "http_status (rr_response (callExecutor cfg e st w creator workflow ds)) \<in> {200, 500, 502}"
  using http_status_executorFailed
  by (auto simp: callExecutor_def Let_def http_status_def split: sum.splits)

lemma runWorkflow_unfold:
  assumes "rw_creator req = Some creator" and "creator \<noteq> []"
    and "rw_collaborators req = Some collaborators" and "\<not> falsy_query (Some collaborators)"
  shows "runWorkflow cfg e st req =
     (case checkApprovals e st (rw_workflow_id req) (collaboratorList collaborators) of
        Some collaborator \<Rightarrow>
          \<lparr>rr_store = st, rr_calls = [],
           rr_response = Failure 403 (''Workflow not approved by '' @ collaborator) None\<rparr>
      | None \<Rightarrow>
          (case bq_getWorkflow e st (rw_workflow_id req) creator of
             Inl m \<Rightarrow> runFailed st m
           | Inr None \<Rightarrow>
               \<lparr>rr_store = st, rr_calls = [],
                rr_response = Failure 404 ''Workflow not found'' None\<rparr>
           | Inr (Some workflow) \<Rightarrow>
               (case bq_updateWorkflowStatus e st (rw_workflow_id req) creator RUNNING of
                  Inl m \<Rightarrow> runFailed st m
                | Inr st1 \<Rightarrow>
                    (case gatherDatasets e st1 (rw_workflow_id req) creator
                            (collaboratorList collaborators) of
                       Inl m \<Rightarrow> runFailed st1 m
                     | Inr ds \<Rightarrow>
                         if ds = []
                         then \<lparr>rr_store = st1, rr_calls = [],
                               rr_response =
                                 Failure 400 ''No datasets found for this workflow'' None\<rparr>
                         else callExecutor cfg e st1 (rw_workflow_id req) creator workflow ds))))"
  using assms by (simp add: runWorkflow_def)

lemma runWorkflow_approved_status:
  assumes "rw_creator req = Some creator" and "creator \<noteq> []"
    and "rw_collaborators req = Some collaborators" and "\<not> falsy_query (Some collaborators)"
    and "checkApprovals e st (rw_workflow_id req) (collaboratorList collaborators) = None"
  shows "http_status (rr_response (runWorkflow cfg e st req)) \<in> {200, 400, 404, 500, 502}"
proof -
  have "http_status (rr_response (callExecutor cfg e s w c wf ds)) \<in> {200, 400, 404, 500, 502}"
    for s w c wf ds
    using http_status_callExecutor[of cfg e s w c wf ds] by auto
  then show ?thesis
    unfolding runWorkflow_unfold[OF assms(1-4)] assms(5)
    by (simp add: runFailed_def http_status_def split: sum.splits option.splits)
qed

lemma not_approved_valid_request:
  assumes "rw_creator req = Some creator" and "creator \<noteq> []"
    and "rw_collaborators req = Some collaborators" and "\<not> falsy_query (Some collaborators)"
  shows
    "(http_status (rr_response (runWorkflow cfg e st req)) = 403 \<longleftrightarrow>
        (\<exists>c \<in> set (collaboratorList collaborators).
           bq_error e (SelectApproval (rw_workflow_id req) c) \<noteq> None \<or>
           lacks_approval st (rw_workflow_id req) c)) \<and>
     (\<forall>pre c post.
        collaboratorList collaborators = pre @ c # post \<and>
        (\<forall>x \<in> set pre. isWorkflowApproved e st (rw_workflow_id req) x) \<and>
        \<not> isWorkflowApproved e st (rw_workflow_id req) c \<longrightarrow>
        runWorkflow cfg e st req =
          \<lparr>rr_store = st, rr_calls = [],
           rr_response = Failure 403 (''Workflow not approved by '' @ c) None\<rparr>) \<and>
     (http_status (rr_response (runWorkflow cfg e st req)) = 403 \<longrightarrow>
        rr_store (runWorkflow cfg e st req) = st \<and> rr_calls (runWorkflow cfg e st req) = [])"
proof -
  let ?w = "rw_workflow_id req"
  let ?cs = "collaboratorList collaborators"
  note unfold = runWorkflow_unfold[OF assms, of cfg e st]
  have miss: "runWorkflow cfg e st req =
      \<lparr>rr_store = st, rr_calls = [],
       rr_response = Failure 403 (''Workflow not approved by '' @ c) None\<rparr>"
    if "checkApprovals e st ?w ?cs = Some c" for c
    using that by (simp add: unfold)
  have pass: "http_status (rr_response (runWorkflow cfg e st req)) \<noteq> 403"
    if "checkApprovals e st ?w ?cs = None"
    using runWorkflow_approved_status[OF assms that, of cfg] by auto
  have iff: "http_status (rr_response (runWorkflow cfg e st req)) = 403 \<longleftrightarrow>
      checkApprovals e st ?w ?cs \<noteq> None"
  proof (cases "checkApprovals e st ?w ?cs")
    case None
    then show ?thesis using pass by simp
  next
    case (Some c)
    then show ?thesis using miss[OF Some] by (simp add: http_status_def)
  qed
  have one: "http_status (rr_response (runWorkflow cfg e st req)) = 403 \<longleftrightarrow>
        (\<exists>c \<in> set ?cs. bq_error e (SelectApproval ?w c) \<noteq> None \<or> lacks_approval st ?w c)"
    unfolding iff using checkApprovals_None_iff[of e st ?w ?cs]
    by (auto simp: isWorkflowApproved_iff)
  have two: "runWorkflow cfg e st req =
          \<lparr>rr_store = st, rr_calls = [],
           rr_response = Failure 403 (''Workflow not approved by '' @ c) None\<rparr>"
    if "?cs = pre @ c # post" and "\<forall>x \<in> set pre. isWorkflowApproved e st ?w x"
      and "\<not> isWorkflowApproved e st ?w c" for pre c post
    using miss[of c] checkApprovals_first[OF that(2,3), of post] that(1) by simp
  have three: "rr_store (runWorkflow cfg e st req) = st \<and> rr_calls (runWorkflow cfg e st req) = []"
    if "http_status (rr_response (runWorkflow cfg e st req)) = 403"
  proof -
    from that iff obtain c where "checkApprovals e st ?w ?cs = Some c" by auto
    from miss[OF this] show ?thesis by simp
  qed
  from one two three show ?thesis by blast
qed

subsection \<open>The dataset assembler\<close>

lemma owner_datasets_mem:
  "d \<in> set (owner_datasets st w owner) \<longleftrightarrow>
     d \<in> set (datasets st owner) \<and> ds_workflow_id d = w \<and> ds_owner d = owner"
  by (auto simp: owner_datasets_def set_order_by_desc)

lemma owner_keys_mem:
  "k \<in> set (owner_keys st w owner) \<longleftrightarrow>
     k \<in> set (keys st owner) \<and> kr_workflow_id k = w \<and> kr_owner k = owner"
  by (auto simp: owner_keys_def set_order_by_desc)

lemma bq_getDatasets_ok:
  assumes "bq_error e (SelectDatasets w owner) = None"
  shows "bq_getDatasets e st w owner = Inr (owner_datasets st w owner)"
proof -
  have "map (\<lambda>row. \<lparr>ds_dataset_id = ds_dataset_id row, ds_workflow_id = w, ds_owner = owner,
                     ds_filename = ds_filename row, ds_gcs_path = ds_gcs_path row,
                     ds_created_at = ds_created_at row\<rparr>) (owner_datasets st w owner) =
        owner_datasets st w owner"
    by (rule map_idI) (simp add: owner_datasets_mem)
  with assms show ?thesis by (simp add: bq_getDatasets_def)
qed

lemma find_key_map_of:
  "find (\<lambda>k. key_dataset_id k = x)
     (map (\<lambda>row. \<lparr>key_key_id = kr_dataset_id row, key_dataset_id = kr_dataset_id row,
                   key_workflow_id = w, key_owner = owner, key_gcs_path = kr_gcs_path row,
                   key_created_at = kr_created_at row\<rparr>) krs) =
   map_option (\<lambda>row. \<lparr>key_key_id = kr_dataset_id row, key_dataset_id = kr_dataset_id row,
                   key_workflow_id = w, key_owner = owner, key_gcs_path = kr_gcs_path row,
                   key_created_at = kr_created_at row\<rparr>)
     (map_of (map (\<lambda>k. (kr_dataset_id k, k)) krs) x)"
  by (induction krs) auto

lemma matchDatasets_join:
  "matchDatasets owner
     (map (\<lambda>row. \<lparr>key_key_id = kr_dataset_id row, key_dataset_id = kr_dataset_id row,
                   key_workflow_id = w, key_owner = owner, key_gcs_path = kr_gcs_path row,
                   key_created_at = kr_created_at row\<rparr>) krs) ds =
   concat (map (\<lambda>d. case map_of (map (\<lambda>k. (kr_dataset_id k, k)) krs) (ds_dataset_id d) of
                        None \<Rightarrow> []
                      | Some k \<Rightarrow>
                          [\<lparr>spec_owner = owner,
                            spec_ciphertext_gcs = ds_gcs_path d,
                            spec_wrapped_dek_gcs = kr_gcs_path k\<rparr>]) ds)"
  by (induction ds) (auto simp: find_key_map_of split: option.splits)

lemma gatherOwner_eq:
  "gatherOwner e st w owner =
     (case bq_error e (SelectDatasets w owner) of
        Some m \<Rightarrow> Inl (''Failed to get datasets: '' @ m)
      | None \<Rightarrow>
          (case bq_error e (SelectKeys w owner) of
             Some m \<Rightarrow> Inl (''Failed to get keys: '' @ m)
           | None \<Rightarrow> Inr (join_owner st w owner)))"
proof (cases "bq_error e (SelectDatasets w owner)")
  case None
  then show ?thesis
    by (simp add: gatherOwner_def bq_getDatasets_ok bq_getKeys_def matchDatasets_join
        join_owner_def split: option.splits)
next
  case (Some m)
  then show ?thesis by (simp add: gatherOwner_def bq_getDatasets_def)
qed

lemma gatherOwner_Inr: "gatherOwner e st w owner = Inr xs \<Longrightarrow> xs = join_owner st w owner"
  by (simp add: gatherOwner_eq split: option.splits)

lemma gatherCollaborators_Inr:
  "gatherCollaborators e st w creator cs = Inr ys \<Longrightarrow>
     ys = assemble st w (filter (\<lambda>c. c \<noteq> creator) cs)"
proof (induction cs arbitrary: ys)
  case Nil
  then show ?case by (simp add: assemble_def)
next
  case (Cons c cs)
  show ?case
  proof (cases "c = creator")
    case True
    with Cons show ?thesis by simp
  next
    case False
    with Cons.prems obtain xs zs where "gatherOwner e st w c = Inr xs"
      and "gatherCollaborators e st w creator cs = Inr zs" and "ys = xs @ zs"
      by (auto split: sum.splits)
    with Cons.IH[of zs] False show ?thesis
      by (simp add: assemble_def gatherOwner_Inr)
  qed
qed

lemma gatherCollaborators_ok:
  assumes "\<forall>c \<in> set cs. c \<noteq> creator \<longrightarrow>
             bq_error e (SelectDatasets w c) = None \<and> bq_error e (SelectKeys w c) = None"
  shows "gatherCollaborators e st w creator cs =
           Inr (assemble st w (filter (\<lambda>c. c \<noteq> creator) cs))"
  using assms by (induction cs) (auto simp: assemble_def gatherOwner_eq)

lemma gatherDatasets_Inr:
  assumes "gatherDatasets e st w creator cs = Inr ds"
  shows "ds = assemble st w (run_owners creator cs)"
proof -
  from assms obtain xs ys where "gatherOwner e st w creator = Inr xs"
    and "gatherCollaborators e st w creator cs = Inr ys" and "ds = xs @ ys"
    by (auto simp: gatherDatasets_def split: sum.splits)
  then show ?thesis
    using gatherCollaborators_Inr[of e st w creator cs ys]
    by (simp add: run_owners_def assemble_def gatherOwner_Inr)
qed

lemma gatherDatasets_ok:
  assumes "\<forall>c \<in> set (run_owners creator cs).
             bq_error e (SelectDatasets w c) = None \<and> bq_error e (SelectKeys w c) = None"
  shows "gatherDatasets e st w creator cs = Inr (assemble st w (run_owners creator cs))"
proof -
  from assms have "gatherCollaborators e st w creator cs =
      Inr (assemble st w (filter (\<lambda>c. c \<noteq> creator) cs))"
    by (intro gatherCollaborators_ok) (simp add: run_owners_def)
  moreover from assms have "gatherOwner e st w creator = Inr (join_owner st w creator)"
    by (simp add: gatherOwner_eq run_owners_def)
  ultimately show ?thesis
    by (simp add: gatherDatasets_def run_owners_def assemble_def)
qed

lemma join_owner_ciphertexts:
  "map spec_ciphertext_gcs (join_owner st w owner) =
     map ds_gcs_path
       (filter (\<lambda>d. \<exists>k \<in> set (owner_keys st w owner). kr_dataset_id k = ds_dataset_id d)
          (owner_datasets st w owner))"
proof -
  have "map spec_ciphertext_gcs
          (concat (map (\<lambda>d. case map_of (map (\<lambda>k. (kr_dataset_id k, k)) krs) (ds_dataset_id d) of
                        None \<Rightarrow> []
                      | Some k \<Rightarrow>
                          [\<lparr>spec_owner = owner,
                            spec_ciphertext_gcs = ds_gcs_path d,
                            spec_wrapped_dek_gcs = kr_gcs_path k\<rparr>]) ds)) =
        map ds_gcs_path (filter (\<lambda>d. \<exists>k \<in> set krs. kr_dataset_id k = ds_dataset_id d) ds)"
    for krs ds
  proof (induction ds)
    case Nil
    then show ?case by simp
  next
    case (Cons d ds)
    have "map_of (map (\<lambda>k. (kr_dataset_id k, k)) krs) (ds_dataset_id d) = None \<longleftrightarrow>
          \<not> (\<exists>k \<in> set krs. kr_dataset_id k = ds_dataset_id d)"
      by (auto simp: map_of_eq_None_iff image_iff)
    with Cons show ?case by (auto split: option.splits)
  qed
  then show ?thesis by (simp add: join_owner_def)
qed

lemma join_owner_same_owner:
  assumes "t \<in> set (join_owner st w owner)"
  shows "spec_owner t = owner \<and>
         (\<exists>d \<in> set (datasets st owner). \<exists>k \<in> set (keys st owner).
            ds_workflow_id d = w \<and> ds_owner d = owner \<and>
            kr_workflow_id k = w \<and> kr_owner k = owner \<and>
            kr_dataset_id k = ds_dataset_id d \<and>
            spec_ciphertext_gcs t = ds_gcs_path d \<and> spec_wrapped_dek_gcs t = kr_gcs_path k)"
proof -
  let ?lookup = "map_of (map (\<lambda>k. (kr_dataset_id k, k)) (owner_keys st w owner))"
  from assms obtain d where d: "d \<in> set (owner_datasets st w owner)"
    and t: "t \<in> set (case ?lookup (ds_dataset_id d) of
                        None \<Rightarrow> []
                      | Some k \<Rightarrow>
                          [\<lparr>spec_owner = owner,
                            spec_ciphertext_gcs = ds_gcs_path d,
                            spec_wrapped_dek_gcs = kr_gcs_path k\<rparr>])"
    unfolding join_owner_def Let_def set_concat by force
  show ?thesis
  proof (cases "?lookup (ds_dataset_id d)")
    case None
    with t show ?thesis by simp
  next
    case (Some k)
    from map_of_SomeD[OF Some] have "k \<in> set (owner_keys st w owner)"
      and "kr_dataset_id k = ds_dataset_id d" by auto
    moreover from t Some have "t = \<lparr>spec_owner = owner, spec_ciphertext_gcs = ds_gcs_path d,
                  spec_wrapped_dek_gcs = kr_gcs_path k\<rparr>" by simp
    ultimately show ?thesis using d
      by (auto simp: owner_datasets_mem owner_keys_mem)
  qed
qed

lemma bq_updateWorkflowStatus_frame:
  assumes "bq_updateWorkflowStatus e st w creator s = Inr st'"
  shows "approvals st' = approvals st \<and> datasets st' = datasets st \<and> keys st' = keys st \<and>
         results st' = results st \<and>
         workflows st' = (workflows st)
           (creator := map (set_status w s (current_timestamp e (UpdateStatus w creator s)))
                         (workflows st creator))"
  using assms by (auto simp: bq_updateWorkflowStatus_def split: option.splits)

lemma join_owner_cong:
  "datasets st' = datasets st \<Longrightarrow> keys st' = keys st \<Longrightarrow> join_owner st' w = join_owner st w"
  by (rule ext) (simp add: join_owner_def owner_datasets_def owner_keys_def)

lemma assemble_cong:
  "datasets st' = datasets st \<Longrightarrow> keys st' = keys st \<Longrightarrow> assemble st' w os = assemble st w os"
  by (simp add: assemble_def join_owner_cong[of st' st])

lemma rr_calls_executorFailed: "rr_calls (executorFailed e st w creator calls m) = calls"
  by (simp add: executorFailed_def split: sum.splits)

lemma rr_calls_callExecutor:
  "rr_calls (callExecutor cfg e st w creator workflow ds) = [executeCall cfg w workflow ds]"
  by (simp add: callExecutor_def Let_def rr_calls_executorFailed split: sum.splits)

lemma runWorkflow_guard:
  assumes "rr_calls (runWorkflow cfg e st req) \<noteq> [] \<or> rr_store (runWorkflow cfg e st req) \<noteq> st"
  obtains creator collaborators where
    "rw_creator req = Some creator" and "creator \<noteq> []"
    and "rw_collaborators req = Some collaborators" and "\<not> falsy_query (Some collaborators)"
proof (cases "rw_creator req")
  case None
  with assms show ?thesis by (simp add: runWorkflow_def)
next
  case c: (Some creator)
  show ?thesis
  proof (cases "rw_collaborators req")
    case None
    with assms c show ?thesis by (simp add: runWorkflow_def)
  next
    case (Some collaborators)
    with assms c that show ?thesis by (cases "creator = [] \<or> falsy_query (Some collaborators)") (auto simp: runWorkflow_def)
  qed
qed

lemma runWorkflow_reaches_executor:
  assumes "rr_calls (runWorkflow cfg e st req) \<noteq> []"
  obtains creator collaborators workflow st1 ds where
    "rw_creator req = Some creator" and "creator \<noteq> []"
    and "rw_collaborators req = Some collaborators" and "\<not> falsy_query (Some collaborators)"
    and "checkApprovals e st (rw_workflow_id req) (collaboratorList collaborators) = None"
    and "bq_getWorkflow e st (rw_workflow_id req) creator = Inr (Some workflow)"
    and "bq_updateWorkflowStatus e st (rw_workflow_id req) creator RUNNING = Inr st1"
    and "gatherDatasets e st1 (rw_workflow_id req) creator (collaboratorList collaborators) = Inr ds"
    and "ds \<noteq> []"
    and "runWorkflow cfg e st req = callExecutor cfg e st1 (rw_workflow_id req) creator workflow ds"
proof -
  from assms have "rr_calls (runWorkflow cfg e st req) \<noteq> [] \<or>
      rr_store (runWorkflow cfg e st req) \<noteq> st" by simp
  then obtain creator collaborators where g: "rw_creator req = Some creator" "creator \<noteq> []"
    "rw_collaborators req = Some collaborators" "\<not> falsy_query (Some collaborators)"
    by (rule runWorkflow_guard)
  note u = runWorkflow_unfold[OF g, of cfg e st]
  from assms show ?thesis
    using that[OF g] unfolding u
    by (simp add: runFailed_def split: option.splits sum.splits if_splits)
qed

lemmas join_defs = assemble_def run_owners_def join_owner_def owner_datasets_def owner_keys_def
  order_by_desc_def

subsection \<open>The path of a run to the executor\<close>

lemma set_status_twice [simp]:
  "set_status w s2 t2 (set_status w s1 t1 row) = set_status w s2 t2 row"
  by (simp add: set_status_def)

lemma gatherOwner_cong:
  "datasets st' = datasets st \<Longrightarrow> keys st' = keys st \<Longrightarrow>
     gatherOwner e st' w owner = gatherOwner e st w owner"
  by (simp add: gatherOwner_eq join_owner_cong[of st' st] cong: option.case_cong)

lemma gatherCollaborators_cong:
  "datasets st' = datasets st \<Longrightarrow> keys st' = keys st \<Longrightarrow>
     gatherCollaborators e st' w creator cs = gatherCollaborators e st w creator cs"
  by (induction cs) (simp_all add: gatherOwner_cong[of st' st] cong: sum.case_cong)

lemma gatherDatasets_cong:
  "datasets st' = datasets st \<Longrightarrow> keys st' = keys st \<Longrightarrow>
     gatherDatasets e st' w creator cs = gatherDatasets e st w creator cs"
  by (simp add: gatherDatasets_def gatherOwner_cong[of st' st] gatherCollaborators_cong[of st' st]
      cong: sum.case_cong)

lemma gatherDatasets_after_update:
  assumes "bq_updateWorkflowStatus e st w creator s = Inr st1"
  shows "gatherDatasets e' st1 w' c cs = gatherDatasets e' st w' c cs"
  using bq_updateWorkflowStatus_frame[OF assms] by (simp add: gatherDatasets_cong[of st1 st])

text \<open>A run whose checks pass: what it returns when no dataset resolves, and otherwise.\<close>

lemma runWorkflow_checks_passed:
  assumes "rw_creator req = Some creator" and "creator \<noteq> []"
    and "rw_collaborators req = Some collaborators" and "\<not> falsy_query (Some collaborators)"
    and "checkApprovals e st (rw_workflow_id req) (collaboratorList collaborators) = None"
    and "bq_getWorkflow e st (rw_workflow_id req) creator = Inr (Some workflow)"
    and "bq_updateWorkflowStatus e st (rw_workflow_id req) creator RUNNING = Inr st1"
    and "gatherDatasets e st (rw_workflow_id req) creator (collaboratorList collaborators) = Inr ds"
  shows "runWorkflow cfg e st req =
     (if ds = []
      then \<lparr>rr_store = st1, rr_calls = [],
            rr_response = Failure 400 ''No datasets found for this workflow'' None\<rparr>
      else callExecutor cfg e st1 (rw_workflow_id req) creator workflow ds)"
proof -
  have "gatherDatasets e st1 (rw_workflow_id req) creator (collaboratorList collaborators) = Inr ds"
    using assms(8) by (simp only: gatherDatasets_after_update[OF assms(7)])
  then show ?thesis
    by (simp only: runWorkflow_unfold[OF assms(1-4)] assms(5-7) option.case sum.case)
qed

lemma bq_updateWorkflowStatus_ok:
  assumes "bq_error e (UpdateStatus w creator s) = None"
  shows "bq_updateWorkflowStatus e st w creator s =
     Inr (st\<lparr>workflows := (workflows st)
            (creator := map (set_status w s (current_timestamp e (UpdateStatus w creator s)))
                          (workflows st creator))\<rparr>)"
  using assms by (simp add: bq_updateWorkflowStatus_def)

text \<open>The example run of \<open>W\<close> by \<open>A\<close> with collaborators \<open>B\<close> and \<open>C\<close> reaches the executor.\<close>

lemma example_checks:
  "rw_creator (run_req ''B,C'') = Some ''A''" "''A'' \<noteq> []"
  "rw_collaborators (run_req ''B,C'') = Some (QString ''B,C'')"
  "\<not> falsy_query (Some (QString ''B,C''))"
  "rw_workflow_id (run_req ''B,C'') = ''W''"
  "collaboratorList (QString ''B,C'') = [''B'', ''C'']"
  by (simp_all add: run_req_def eval_defs)

lemma example_approved: "checkApprovals env0 st_ready ''W'' [''B'', ''C''] = None"
  by (simp add: eval_defs ex_defs)

lemma example_workflow: "bq_getWorkflow env0 st_ready ''W'' ''A'' = Inr (Some wf0)"
  by (simp add: bq_getWorkflow_def wf0_def ex_defs)

lemma example_assemble: "assemble st_ready ''W'' (run_owners ''A'' [''B'', ''C'']) = ds0"
  by (simp add: join_defs ds0_def ex_defs)

lemma example_gather: "gatherDatasets env0 st_ready ''W'' ''A'' [''B'', ''C''] = Inr ds0"
  using gatherDatasets_ok[of "''A''" "[''B'', ''C'']" env0 "''W''" st_ready]
  by (simp add: example_assemble) (simp add: env0_def)

lemma example_run:
  "\<exists>st1. bq_updateWorkflowStatus env0 st_ready ''W'' ''A'' RUNNING = Inr st1 \<and>
     runWorkflow cfg0 env0 st_ready (run_req ''B,C'') = callExecutor cfg0 env0 st1 ''W'' ''A'' wf0 ds0"
proof -
  have "bq_error env0 (UpdateStatus ''W'' ''A'' RUNNING) = None" by (simp add: env0_def)
  from bq_updateWorkflowStatus_ok[OF this, of st_ready]
  obtain st1 where u: "bq_updateWorkflowStatus env0 st_ready ''W'' ''A'' RUNNING = Inr st1" by blast
  have "ds0 \<noteq> []" by (simp add: ds0_def)
  with runWorkflow_checks_passed[of "run_req ''B,C''" "''A''" "QString ''B,C''" env0 st_ready wf0 st1 ds0 cfg0]
    u example_checks example_approved example_workflow example_gather
  show ?thesis by simp
qed

text \<open>
  C3. The list of datasets a run assembles is the join of the Dataset Assembler over the
  creator followed by the collaborators in the order given, the creator left out of
  the collaborators; it is the list every call to the executor carries. The join of an
  owner has one tuple for exactly those Dataset rows of the owner for which a
  WrappedKey row of the same owner with the same dataset id exists: a dataset without
  a key and a key without a dataset contribute nothing and raise no error, and the
  dataset and the key of a tuple are rows of the collections of the tuple's owner.
\<close>

theorem gatherDatasets_assemble:
  "(\<forall>ds. gatherDatasets e st w creator cs = Inr ds \<longrightarrow>
          ds = assemble st w (run_owners creator cs)) \<and>
   ((\<forall>c \<in> set (run_owners creator cs).
        bq_error e (SelectDatasets w c) = None \<and> bq_error e (SelectKeys w c) = None) \<longrightarrow>
      gatherDatasets e st w creator cs = Inr (assemble st w (run_owners creator cs))) \<and>
   (\<forall>call \<in> set (rr_calls (runWorkflow cfg e st req)).
      \<exists>c cl. rw_creator req = Some c \<and> rw_collaborators req = Some cl \<and>
        exec_datasets (call_body call) =
          assemble st (rw_workflow_id req) (run_owners c (collaboratorList cl))) \<and>
   map spec_ciphertext_gcs (join_owner st w owner) =
     map ds_gcs_path
       (filter (\<lambda>d. \<exists>k \<in> set (owner_keys st w owner). kr_dataset_id k = ds_dataset_id d)
          (owner_datasets st w owner)) \<and>
   (\<forall>t \<in> set (join_owner st w owner).
      spec_owner t = owner \<and>
      (\<exists>d \<in> set (datasets st owner). \<exists>k \<in> set (keys st owner).
         ds_workflow_id d = w \<and> ds_owner d = owner \<and>
         kr_workflow_id k = w \<and> kr_owner k = owner \<and>
         kr_dataset_id k = ds_dataset_id d \<and>
         spec_ciphertext_gcs t = ds_gcs_path d \<and> spec_wrapped_dek_gcs t = kr_gcs_path k))"
proof -
  have calls: "\<exists>c cl. rw_creator req = Some c \<and> rw_collaborators req = Some cl \<and>
        exec_datasets (call_body call) =
          assemble st (rw_workflow_id req) (run_owners c (collaboratorList cl))"
    if "call \<in> set (rr_calls (runWorkflow cfg e st req))" for call
  proof -
    from that have "rr_calls (runWorkflow cfg e st req) \<noteq> []" by auto
    then obtain c cl workflow st1 ds where c: "rw_creator req = Some c"
      and cl: "rw_collaborators req = Some cl"
      and upd: "bq_updateWorkflowStatus e st (rw_workflow_id req) c RUNNING = Inr st1"
      and ds: "gatherDatasets e st1 (rw_workflow_id req) c (collaboratorList cl) = Inr ds"
      and run: "runWorkflow cfg e st req = callExecutor cfg e st1 (rw_workflow_id req) c workflow ds"
      by (rule runWorkflow_reaches_executor)
    from that run have "call = executeCall cfg (rw_workflow_id req) workflow ds"
      by (simp add: rr_calls_callExecutor)
    then have "exec_datasets (call_body call) = ds"
      by (simp add: executeCall_def executePayload_def)
    also have "ds = assemble st1 (rw_workflow_id req) (run_owners c (collaboratorList cl))"
      using ds by (rule gatherDatasets_Inr)
    also have "\<dots> = assemble st (rw_workflow_id req) (run_owners c (collaboratorList cl))"
      using bq_updateWorkflowStatus_frame[OF upd] by (simp add: assemble_cong[of st1 st])
    finally show ?thesis using c cl by simp
  qed
  show ?thesis
    using gatherDatasets_Inr[of e st w creator cs] gatherDatasets_ok[of creator cs e w st]
      calls join_owner_ciphertexts[of st w owner] join_owner_same_owner[of _ st w owner]
    by blast
qed

theorem gatherDatasets_assemble_witness:
  "gatherDatasets env0 st_ready ''W'' ''A'' [''B'', ''A'', ''C''] =
     Inr [\<lparr>spec_owner = ''A'', spec_ciphertext_gcs = ''gs://cleanroom/datasets/A/W/d1/a.csv'',
           spec_wrapped_dek_gcs = ''gs://cleanroom/keys/A/W/d1/a.key''\<rparr>,
          \<lparr>spec_owner = ''B'', spec_ciphertext_gcs = ''gs://cleanroom/datasets/B/W/d3/c.csv'',
           spec_wrapped_dek_gcs = ''gs://cleanroom/keys/B/W/d3/c.key''\<rparr>] \<and>
   map ds_dataset_id (owner_datasets st_ready ''W'' ''A'') = [''d2'', ''d1''] \<and>
   map kr_dataset_id (owner_keys st_ready ''W'' ''B'') = [''d4'', ''d3'']"
proof -
  have ok: "\<forall>c \<in> set (run_owners ''A'' [''B'', ''A'', ''C'']).
        bq_error env0 (SelectDatasets ''W'' c) = None \<and> bq_error env0 (SelectKeys ''W'' c) = None"
    by (simp add: env0_def)
  have "gatherDatasets env0 st_ready ''W'' ''A'' [''B'', ''A'', ''C''] =
      Inr (assemble st_ready ''W'' (run_owners ''A'' [''B'', ''A'', ''C'']))"
    using gatherDatasets_assemble[of env0 st_ready "''W''" "''A''" "[''B'', ''A'', ''C'']"] ok
    by blast
  then show ?thesis
    by (simp add: join_defs ex_defs)
qed

subsection \<open>The call to the executor\<close>

lemma bq_getWorkflow_Some:
  assumes "bq_getWorkflow e st w creator = Inr (Some workflow)"
  shows "workflow \<in> set (workflows st creator) \<and> wf_workflow_id workflow = w"
proof -
  from assms have "filter (\<lambda>row. wf_workflow_id row = w) (workflows st creator) \<noteq> []"
    and "workflow = hd (filter (\<lambda>row. wf_workflow_id row = w) (workflows st creator))"
    by (auto simp: bq_getWorkflow_def split: option.splits list.splits)
  then have "workflow \<in> set (filter (\<lambda>row. wf_workflow_id row = w) (workflows st creator))"
    using hd_in_set by blast
  then show ?thesis by simp
qed

lemma set_status_status:
  "wf_workflow_id (set_status w s t row) = w \<Longrightarrow> wf_status (set_status w s t row) = s"
  by (cases "wf_workflow_id row = w") (simp_all add: set_status_def)

lemma set_status_rows:
  "\<forall>row \<in> set (map (set_status w s t) rows). wf_workflow_id row = w \<longrightarrow> wf_status row = s"
proof (intro ballI impI)
  fix row
  assume "row \<in> set (map (set_status w s t) rows)" and w: "wf_workflow_id row = w"
  then obtain r where "row = set_status w s t r" by auto
  with w show "wf_status row = s" using set_status_status[of w s t r] by simp
qed

lemma set_status_keeps_id: "wf_workflow_id (set_status w s t row) = wf_workflow_id row"
  by (simp add: set_status_def)

lemma executorFailed_ok:
  assumes "bq_error e (UpdateStatus w creator FAILED) = None"
  shows "executorFailed e st w creator calls m =
     \<lparr>rr_store = st\<lparr>workflows := (workflows st)
          (creator := map (set_status w FAILED (current_timestamp e (UpdateStatus w creator FAILED)))
                        (workflows st creator))\<rparr>,
      rr_calls = calls,
      rr_response = Failure 502 ''Executor failed'' (Some m)\<rparr>"
  by (simp add: executorFailed_def bq_updateWorkflowStatus_ok[OF assms])

lemma callExecutor_failure:
  assumes "axios_post e (executeCall cfg w workflow ds) = Inl m"
  shows "callExecutor cfg e st w creator workflow ds =
           executorFailed e st w creator [executeCall cfg w workflow ds] m"
  using assms by (simp add: callExecutor_def)


lemma makeResults_paths:
  "map res_result_path (makeResults e w nb paths) = paths \<and>
   length (makeResults e w nb paths) = length paths \<and>
   (\<forall>r \<in> set (makeResults e w nb paths).
      res_workflow_id r = w \<and> res_executed_notebook_path r = nb)"
proof -
  have "map res_result_path (map (\<lambda>(i, path).
            \<lparr>res_id = uuidv4 e i, res_workflow_id = w, res_executed_notebook_path = nb,
             res_result_path = path, res_created_at = date_now e\<rparr>) (enumerate n paths)) = paths"
    for n
    by (induction paths arbitrary: n) simp_all
  then show ?thesis by (auto simp: makeResults_def)
qed

lemma workflows_after_two_updates:
  assumes "workflows st1 = (workflows st)(creator := map (set_status w s1 t1) (workflows st creator))"
  shows "(workflows st1)(creator := map (set_status w s2 t2) (workflows st1 creator)) =
         (workflows st)(creator := map (set_status w s2 t2) (workflows st creator))"
  by (simp add: assms o_def)

lemma workflow_row_after_update:
  assumes "workflow \<in> set (workflows st creator)" and "wf_workflow_id workflow = w"
    and "workflows st' = (workflows st)(creator := map (set_status w s t) (workflows st creator))"
  shows "(\<exists>row \<in> set (workflows st' creator). wf_workflow_id row = w) \<and>
         (\<forall>row \<in> set (workflows st' creator). wf_workflow_id row = w \<longrightarrow> wf_status row = s)"
proof -
  have "set_status w s t workflow \<in> set (workflows st' creator)"
    using assms(1,3) by simp
  moreover have "wf_workflow_id (set_status w s t workflow) = w"
    using assms(2) by (simp add: set_status_keeps_id)
  ultimately have "\<exists>row \<in> set (workflows st' creator). wf_workflow_id row = w" by blast
  moreover have "\<forall>row \<in> set (workflows st' creator). wf_workflow_id row = w \<longrightarrow> wf_status row = s"
    using set_status_rows[of w s t "workflows st creator"] assms(3) by simp
  ultimately show ?thesis by blast
qed

lemma example_nodata:
  "checkApprovals env0 st_nodata ''W'' [''B'', ''C''] = None"
  "bq_getWorkflow env0 st_nodata ''W'' ''A'' = Inr (Some wf0)"
  "assemble st_nodata ''W'' (run_owners ''A'' [''B'', ''C'']) = []"
  "workflows st_nodata ''A'' = [wf0]"
  by (simp_all add: eval_defs join_defs bq_getWorkflow_def wf0_def ex_defs)

lemma example_env0:
  "bq_error env0 c = None"
  by (simp add: env0_def)

text \<open>What every run that reaches the executor has done before the call.\<close>

lemma runWorkflow_dispatched:
  assumes "rr_calls (runWorkflow cfg e st req) \<noteq> []" and "rw_creator req = Some creator"
  obtains workflow st1 ds where
    "workflow \<in> set (workflows st creator)" and "wf_workflow_id workflow = rw_workflow_id req"
    and "results st1 = results st" and "approvals st1 = approvals st"
    and "datasets st1 = datasets st" and "keys st1 = keys st"
    and "workflows st1 = (workflows st)
           (creator := map (set_status (rw_workflow_id req) RUNNING
                              (current_timestamp e (UpdateStatus (rw_workflow_id req) creator RUNNING)))
                         (workflows st creator))"
    and "runWorkflow cfg e st req = callExecutor cfg e st1 (rw_workflow_id req) creator workflow ds"
    and "rr_calls (runWorkflow cfg e st req) = [executeCall cfg (rw_workflow_id req) workflow ds]"
proof -
  from assms(1) obtain creator' collaborators workflow st1 ds where
    c: "rw_creator req = Some creator'"
    and g: "bq_getWorkflow e st (rw_workflow_id req) creator' = Inr (Some workflow)"
    and u: "bq_updateWorkflowStatus e st (rw_workflow_id req) creator' RUNNING = Inr st1"
    and r: "runWorkflow cfg e st req = callExecutor cfg e st1 (rw_workflow_id req) creator' workflow ds"
    by (rule runWorkflow_reaches_executor)
  from c assms(2) have eq: "creator' = creator" by simp
  show ?thesis
    using bq_getWorkflow_Some[OF g] bq_updateWorkflowStatus_frame[OF u] r
      rr_calls_callExecutor[of cfg e st1 "rw_workflow_id req" creator workflow ds]
    unfolding eq by (intro that[of workflow st1 ds]) simp_all
qed

lemma executor_failure_write_accepted:
  assumes "rr_calls (runWorkflow cfg e st req) \<noteq> []"
    and "axios_post e (hd (rr_calls (runWorkflow cfg e st req))) = Inl message"
    and "rw_creator req = Some creator"
    and "bq_error e (UpdateStatus (rw_workflow_id req) creator FAILED) = None"
  shows
    "rr_response (runWorkflow cfg e st req) = Failure 502 ''Executor failed'' (Some message) \<and>
     results (rr_store (runWorkflow cfg e st req)) = results st \<and>
     length (rr_calls (runWorkflow cfg e st req)) = 1 \<and>
     call_timeout (hd (rr_calls (runWorkflow cfg e st req))) = 600000 \<and>
     workflows (rr_store (runWorkflow cfg e st req)) =
       (workflows st)
         (creator := map (set_status (rw_workflow_id req) FAILED
                            (current_timestamp e (UpdateStatus (rw_workflow_id req) creator FAILED)))
                       (workflows st creator)) \<and>
     (\<exists>row \<in> set (workflows (rr_store (runWorkflow cfg e st req)) creator).
        wf_workflow_id row = rw_workflow_id req) \<and>
     (\<forall>row \<in> set (workflows (rr_store (runWorkflow cfg e st req)) creator).
        wf_workflow_id row = rw_workflow_id req \<longrightarrow> wf_status row = FAILED)"
proof -
  let ?w = "rw_workflow_id req"
  let ?r = "runWorkflow cfg e st req"
  from assms(1,3) obtain workflow st1 ds where
    wf: "workflow \<in> set (workflows st creator)" "wf_workflow_id workflow = ?w"
    and res: "results st1 = results st"
    and wfs: "workflows st1 = (workflows st)
           (creator := map (set_status ?w RUNNING
                              (current_timestamp e (UpdateStatus ?w creator RUNNING)))
                         (workflows st creator))"
    and run: "?r = callExecutor cfg e st1 ?w creator workflow ds"
    and calls: "rr_calls ?r = [executeCall cfg ?w workflow ds]"
    by (rule runWorkflow_dispatched)
  from assms(2) calls have "axios_post e (executeCall cfg ?w workflow ds) = Inl message" by simp
  then have "?r = executorFailed e st1 ?w creator [executeCall cfg ?w workflow ds] message"
    unfolding run by (rule callExecutor_failure)
  then have r: "?r =
     \<lparr>rr_store = st1\<lparr>workflows := (workflows st1)
          (creator := map (set_status ?w FAILED (current_timestamp e (UpdateStatus ?w creator FAILED)))
                        (workflows st1 creator))\<rparr>,
      rr_calls = [executeCall cfg ?w workflow ds],
      rr_response = Failure 502 ''Executor failed'' (Some message)\<rparr>"
    by (simp only: executorFailed_ok[OF assms(4)])
  have final: "workflows (rr_store ?r) = (workflows st)
         (creator := map (set_status ?w FAILED (current_timestamp e (UpdateStatus ?w creator FAILED)))
                       (workflows st creator))"
    unfolding r using workflows_after_two_updates[OF wfs] by simp
  have rows: "(\<exists>row \<in> set (workflows (rr_store ?r) creator). wf_workflow_id row = ?w) \<and>
     (\<forall>row \<in> set (workflows (rr_store ?r) creator). wf_workflow_id row = ?w \<longrightarrow> wf_status row = FAILED)"
    using wf final by (rule workflow_row_after_update)
  have "rr_response ?r = Failure 502 ''Executor failed'' (Some message)"
    and "results (rr_store ?r) = results st"
    and "length (rr_calls ?r) = 1"
    and "call_timeout (hd (rr_calls ?r)) = 600000"
    using res by (simp_all add: r executeCall_def)
  with final rows show ?thesis by blast
qed

lemma example_run_reaches:
  assumes "\<And>c. bq_error e c = None"
  shows "rr_calls (runWorkflow cfg0 e st_ready (run_req ''B,C'')) =
           [executeCall cfg0 ''W'' wf0 ds0]"
proof -
  have a: "checkApprovals e st_ready (rw_workflow_id (run_req ''B,C''))
             (collaboratorList (QString ''B,C'')) = None"
    by (simp add: eval_defs run_req_def st_ready_def st0_def assms)
  have b: "bq_getWorkflow e st_ready (rw_workflow_id (run_req ''B,C'')) ''A'' = Inr (Some wf0)"
    by (simp add: bq_getWorkflow_def wf0_def run_req_def st_ready_def st0_def assms)
  have c: "bq_updateWorkflowStatus e st_ready (rw_workflow_id (run_req ''B,C'')) ''A'' RUNNING =
      Inr (st_ready\<lparr>workflows := (workflows st_ready)
            (''A'' := map (set_status (rw_workflow_id (run_req ''B,C'')) RUNNING
                            (current_timestamp e
                               (UpdateStatus (rw_workflow_id (run_req ''B,C'')) ''A'' RUNNING)))
                          (workflows st_ready ''A''))\<rparr>)"
    by (rule bq_updateWorkflowStatus_ok) (rule assms)
  have "gatherDatasets e st_ready ''W'' ''A'' [''B'', ''C''] =
      Inr (assemble st_ready ''W'' (run_owners ''A'' [''B'', ''C'']))"
    by (rule gatherDatasets_ok) (simp add: assms)
  then have d: "gatherDatasets e st_ready (rw_workflow_id (run_req ''B,C'')) ''A''
      (collaboratorList (QString ''B,C'')) = Inr ds0"
    by (simp only: example_checks example_assemble)
  have "ds0 \<noteq> []" by (simp add: ds0_def)
  with runWorkflow_checks_passed[OF example_checks(1-4) a b c d, of cfg0]
  show ?thesis by (simp add: rr_calls_callExecutor example_checks)
qed

lemma example_ready:
  "results st_ready = []" "workflows st_ready ''A'' = [wf0]"
  by (simp_all add: ex_defs wf0_def)

subsection \<open>Creating a workflow\<close>

text \<open>
  C8 (amended). create fails with InvalidArgument (HTTP 400) if workflowId or creator is
  missing or empty or collaborators is missing. Otherwise, whether or not a workflow
  with the same workflowId exists for the creator, and also when collaborators is the
  empty list, it inserts exactly one new Workflow row into the creator's collection,
  with status PENDING_APPROVAL and the workloadRef of the configuration, changes
  nothing else and returns the workflowId and the status; if the store rejects the
  insert it answers 500 and the store is unchanged.
\<close>

theorem createWorkflow_inserts:
  "(falsy (cw_workflow_id req) \<or> falsy (cw_creator req) \<or> cw_collaborators req = None \<longrightarrow>
      createWorkflow cfg e st req =
        (st, Failure 400 ''Missing required fields: workflow_id, creator, collaborators'' None)) \<and>
   (\<forall>w c cs. cw_workflow_id req = Some w \<and> cw_creator req = Some c \<and>
        cw_collaborators req = Some cs \<and> w \<noteq> [] \<and> c \<noteq> [] \<longrightarrow>
      (case bq_error e (InsertWorkflow c w) of
         None \<Rightarrow>
           snd (createWorkflow cfg e st req) = Success (w, PENDING_APPROVAL) \<and>
           workflows (fst (createWorkflow cfg e st req)) =
             (workflows st)
               (c := workflows st c @
                  [\<lparr>wf_workflow_id = w, wf_creator = c, wf_collaborators = cs,
                    wf_workload_path = workload_fixedPath cfg, wf_status = PENDING_APPROVAL,
                    wf_created_at = date_now e, wf_updated_at = None\<rparr>]) \<and>
           approvals (fst (createWorkflow cfg e st req)) = approvals st \<and>
           datasets (fst (createWorkflow cfg e st req)) = datasets st \<and>
           keys (fst (createWorkflow cfg e st req)) = keys st \<and>
           results (fst (createWorkflow cfg e st req)) = results st
       | Some m \<Rightarrow>
           createWorkflow cfg e st req =
             (st, Failure 500 ''Failed to create workflow''
                    (Some (''Failed to insert workflow: '' @ m)))))"
  by (auto simp: createWorkflow_def bq_createWorkflow_def falsy_def
      split: option.splits)

theorem createWorkflow_inserts_witness:
  "createWorkflow cfg0 env0 empty_store (create_req\<lparr>cw_creator := Some []\<rparr>) =
     (empty_store, Failure 400 ''Missing required fields: workflow_id, creator, collaborators'' None) \<and>
   snd (createWorkflow cfg0 env0 empty_store create_req) = Success (''W'', PENDING_APPROVAL) \<and>
   workflows (fst (createWorkflow cfg0 env0 empty_store create_req)) ''A'' =
     [\<lparr>wf_workflow_id = ''W'', wf_creator = ''A'', wf_collaborators = [''B'', ''C''],
       wf_workload_path = ''gs://cleanroom/workloads/fraud-detector.ipynb'',
       wf_status = PENDING_APPROVAL, wf_created_at = 10, wf_updated_at = None\<rparr>]"
proof -
  have "falsy (cw_creator (create_req\<lparr>cw_creator := Some []\<rparr>))"
    by (simp add: falsy_def)
  with createWorkflow_inserts[of "create_req\<lparr>cw_creator := Some []\<rparr>" cfg0 env0 empty_store]
  have 1: "createWorkflow cfg0 env0 empty_store (create_req\<lparr>cw_creator := Some []\<rparr>) =
     (empty_store, Failure 400 ''Missing required fields: workflow_id, creator, collaborators'' None)"
    by blast
  have "cw_workflow_id create_req = Some ''W'' \<and> cw_creator create_req = Some ''A'' \<and>
        cw_collaborators create_req = Some [''B'', ''C''] \<and> ''W'' \<noteq> [] \<and> ''A'' \<noteq> []"
    by (simp add: create_req_def)
  with createWorkflow_inserts[of create_req cfg0 env0 empty_store]
  have "case bq_error env0 (InsertWorkflow ''A'' ''W'') of
         None \<Rightarrow>
           snd (createWorkflow cfg0 env0 empty_store create_req) = Success (''W'', PENDING_APPROVAL) \<and>
           workflows (fst (createWorkflow cfg0 env0 empty_store create_req)) =
             (workflows empty_store)
               (''A'' := workflows empty_store ''A'' @
                  [\<lparr>wf_workflow_id = ''W'', wf_creator = ''A'', wf_collaborators = [''B'', ''C''],
                    wf_workload_path = workload_fixedPath cfg0, wf_status = PENDING_APPROVAL,
                    wf_created_at = date_now env0, wf_updated_at = None\<rparr>]) \<and>
           approvals (fst (createWorkflow cfg0 env0 empty_store create_req)) = approvals empty_store \<and>
           datasets (fst (createWorkflow cfg0 env0 empty_store create_req)) = datasets empty_store \<and>
           keys (fst (createWorkflow cfg0 env0 empty_store create_req)) = keys empty_store \<and>
           results (fst (createWorkflow cfg0 env0 empty_store create_req)) = results empty_store
       | Some m \<Rightarrow>
           createWorkflow cfg0 env0 empty_store create_req =
             (empty_store, Failure 500 ''Failed to create workflow''
                    (Some (''Failed to insert workflow: '' @ m)))"
    by blast
  then have 2: "snd (createWorkflow cfg0 env0 empty_store create_req) = Success (''W'', PENDING_APPROVAL)"
    and 3: "workflows (fst (createWorkflow cfg0 env0 empty_store create_req)) ''A'' =
     [\<lparr>wf_workflow_id = ''W'', wf_creator = ''A'', wf_collaborators = [''B'', ''C''],
       wf_workload_path = ''gs://cleanroom/workloads/fraud-detector.ipynb'',
       wf_status = PENDING_APPROVAL, wf_created_at = 10, wf_updated_at = None\<rparr>]"
    by (simp_all add: example_env0 empty_store_def cfg0_def env0_def)
  from 1 2 3 show ?thesis by simp
qed

text \<open>
  The claim as stated fails: \<open>A\<close> already has a workflow \<open>W\<close> in \<open>st0\<close>, and creating
  \<open>W\<close> again succeeds and leaves two rows with that id; and a request whose list of
  collaborators is empty succeeds.
\<close>

theorem createWorkflow_inserts_counterexample:
  "map wf_workflow_id (workflows st0 ''A'') = [''W''] \<and>
   snd (createWorkflow cfg0 env0 st0 create_req) = Success (''W'', PENDING_APPROVAL) \<and>
   map wf_workflow_id (workflows (fst (createWorkflow cfg0 env0 st0 create_req)) ''A'') =
     [''W'', ''W''] \<and>
   snd (createWorkflow cfg0 env0 empty_store (create_req\<lparr>cw_collaborators := Some []\<rparr>)) =
     Success (''W'', PENDING_APPROVAL) \<and>
   map wf_collaborators
     (workflows (fst (createWorkflow cfg0 env0 empty_store
                        (create_req\<lparr>cw_collaborators := Some []\<rparr>))) ''A'') = [[]]"
  by (simp add: createWorkflow_def bq_createWorkflow_def ex_defs)

subsection \<open>The parameter guard and the approval gate of a run\<close>

lemma runWorkflow_missing_parameters:
  assumes "falsy (rw_creator req) \<or> falsy_query (rw_collaborators req)"
  shows "runWorkflow cfg e st req =
     \<lparr>rr_store = st, rr_calls = [],
      rr_response = Failure 400 ''creator and collaborators parameters are required'' None\<rparr>"
proof (cases "rw_creator req")
  case None
  then show ?thesis by (simp add: runWorkflow_def)
next
  case c: (Some creator)
  show ?thesis
  proof (cases "rw_collaborators req")
    case None
    with c show ?thesis by (simp add: runWorkflow_def)
  next
    case (Some collaborators)
    with c assms have "creator = [] \<or> falsy_query (Some collaborators)"
      by (simp add: falsy_def)
    with c Some show ?thesis by (simp add: runWorkflow_def)
  qed
qed

lemma runWorkflow_403_valid:
  assumes "http_status (rr_response (runWorkflow cfg e st req)) = 403"
  obtains creator collaborators where
    "rw_creator req = Some creator" and "creator \<noteq> []"
    and "rw_collaborators req = Some collaborators" and "\<not> falsy_query (Some collaborators)"
proof (cases "falsy (rw_creator req) \<or> falsy_query (rw_collaborators req)")
  case True
  from runWorkflow_missing_parameters[OF True, of cfg e st] assms show ?thesis
    by (simp add: http_status_def)
next
  case False
  then obtain creator collaborators where "rw_creator req = Some creator" "creator \<noteq> []"
    "rw_collaborators req = Some collaborators" "\<not> falsy_query (Some collaborators)"
    by (cases "rw_creator req"; cases "rw_collaborators req")
       (auto simp: falsy_def falsy_query_def)
  then show ?thesis by (rule that)
qed

text \<open>
  C1 (amended). For every run request that carries a non-empty creator and a non-empty
  collaborators parameter, run fails with NotApproved (HTTP 403) if and only if for at
  least one collaborator of the caller-supplied list the approval check fails: the
  approval query fails, or the collaborator's latest Approval row is absent or has
  \<open>approved = false\<close>. The list is checked in order, the run aborts at the first such
  collaborator and names it, and then the store is unchanged (no status update) and
  no call is made to the executor. A request whose creator or collaborators parameter
  is missing or empty is refused with 400, whatever the approvals are, with the store
  unchanged and no call to the executor.
\<close>

theorem runWorkflow_not_approved:
  "(falsy (rw_creator req) \<or> falsy_query (rw_collaborators req) \<longrightarrow>
      runWorkflow cfg e st req =
        \<lparr>rr_store = st, rr_calls = [],
         rr_response = Failure 400 ''creator and collaborators parameters are required'' None\<rparr>) \<and>
   (\<forall>creator collaborators.
      rw_creator req = Some creator \<and> creator \<noteq> [] \<and>
      rw_collaborators req = Some collaborators \<and> \<not> falsy_query (Some collaborators) \<longrightarrow>
      (http_status (rr_response (runWorkflow cfg e st req)) = 403 \<longleftrightarrow>
         (\<exists>c \<in> set (collaboratorList collaborators).
            bq_error e (SelectApproval (rw_workflow_id req) c) \<noteq> None \<or>
            lacks_approval st (rw_workflow_id req) c)) \<and>
      (\<forall>pre c post.
         collaboratorList collaborators = pre @ c # post \<and>
         (\<forall>x \<in> set pre. isWorkflowApproved e st (rw_workflow_id req) x) \<and>
         \<not> isWorkflowApproved e st (rw_workflow_id req) c \<longrightarrow>
         runWorkflow cfg e st req =
           \<lparr>rr_store = st, rr_calls = [],
            rr_response = Failure 403 (''Workflow not approved by '' @ c) None\<rparr>)) \<and>
   (http_status (rr_response (runWorkflow cfg e st req)) = 403 \<longrightarrow>
      rr_store (runWorkflow cfg e st req) = st \<and> rr_calls (runWorkflow cfg e st req) = [])"
proof (intro conjI impI allI)
  assume "falsy (rw_creator req) \<or> falsy_query (rw_collaborators req)"
  then show "runWorkflow cfg e st req =
        \<lparr>rr_store = st, rr_calls = [],
         rr_response = Failure 400 ''creator and collaborators parameters are required'' None\<rparr>"
    by (rule runWorkflow_missing_parameters)
next
  fix creator collaborators
  assume a: "rw_creator req = Some creator \<and> creator \<noteq> [] \<and>
      rw_collaborators req = Some collaborators \<and> \<not> falsy_query (Some collaborators)"
  then have v: "rw_creator req = Some creator" "creator \<noteq> []"
    "rw_collaborators req = Some collaborators" "\<not> falsy_query (Some collaborators)"
    by simp_all
  note n = not_approved_valid_request[OF v, of cfg e st]
  from n show "http_status (rr_response (runWorkflow cfg e st req)) = 403 \<longleftrightarrow>
         (\<exists>c \<in> set (collaboratorList collaborators).
            bq_error e (SelectApproval (rw_workflow_id req) c) \<noteq> None \<or>
            lacks_approval st (rw_workflow_id req) c)"
    by (rule conjunct1)
  fix pre c post
  assume "collaboratorList collaborators = pre @ c # post \<and>
         (\<forall>x \<in> set pre. isWorkflowApproved e st (rw_workflow_id req) x) \<and>
         \<not> isWorkflowApproved e st (rw_workflow_id req) c"
  with n show "runWorkflow cfg e st req =
           \<lparr>rr_store = st, rr_calls = [],
            rr_response = Failure 403 (''Workflow not approved by '' @ c) None\<rparr>"
    by blast
next
  assume h: "http_status (rr_response (runWorkflow cfg e st req)) = 403"
  then obtain creator collaborators where v: "rw_creator req = Some creator" "creator \<noteq> []"
    "rw_collaborators req = Some collaborators" "\<not> falsy_query (Some collaborators)"
    by (rule runWorkflow_403_valid)
  from not_approved_valid_request[OF v, of cfg e st] h
  show "rr_store (runWorkflow cfg e st req) = st" and "rr_calls (runWorkflow cfg e st req) = []"
    by blast+
qed

theorem runWorkflow_not_approved_witness:
  "collaboratorList (QString ''B, C'') = [''B''] @ ''C'' # [] \<and>
   isWorkflowApproved env0 st0 ''W'' ''B'' \<and>
   \<not> isWorkflowApproved env0 st0 ''W'' ''C'' \<and>
   runWorkflow cfg0 env0 st0 (run_req ''B, C'') =
     \<lparr>rr_store = st0, rr_calls = [],
      rr_response = Failure 403 ''Workflow not approved by C'' None\<rparr> \<and>
   falsy (rw_creator (run_req ''B, C''\<lparr>rw_creator := Some []\<rparr>)) \<and>
   runWorkflow cfg0 env0 st0 (run_req ''B, C''\<lparr>rw_creator := Some []\<rparr>) =
     \<lparr>rr_store = st0, rr_calls = [],
      rr_response = Failure 400 ''creator and collaborators parameters are required'' None\<rparr>"
proof -
  have a: "rw_creator (run_req ''B, C'') = Some ''A'' \<and> ''A'' \<noteq> [] \<and>
    rw_collaborators (run_req ''B, C'') = Some (QString ''B, C'') \<and>
    \<not> falsy_query (Some (QString ''B, C''))"
    by (simp add: run_req_def falsy_query_def)
  have l: "collaboratorList (QString ''B, C'') = [''B''] @ ''C'' # []"
    by (simp add: eval_defs)
  have b: "isWorkflowApproved env0 st0 ''W'' ''B''" and c: "\<not> isWorkflowApproved env0 st0 ''W'' ''C''"
    by (simp_all add: eval_defs ex_defs)
  have w: "rw_workflow_id (run_req ''B, C'') = ''W''" by (simp add: run_req_def)
  have pre: "\<forall>x \<in> set [''B'']. isWorkflowApproved env0 st0 (rw_workflow_id (run_req ''B, C'')) x"
    using b w by simp
  from runWorkflow_not_approved[of "run_req ''B, C''" cfg0 env0 st0] a
  have "\<forall>pre c post.
         collaboratorList (QString ''B, C'') = pre @ c # post \<and>
         (\<forall>x \<in> set pre. isWorkflowApproved env0 st0 (rw_workflow_id (run_req ''B, C'')) x) \<and>
         \<not> isWorkflowApproved env0 st0 (rw_workflow_id (run_req ''B, C'')) c \<longrightarrow>
         runWorkflow cfg0 env0 st0 (run_req ''B, C'') =
           \<lparr>rr_store = st0, rr_calls = [],
            rr_response = Failure 403 (''Workflow not approved by '' @ c) None\<rparr>"
    by blast
  from this[rule_format, of "[''B'']" "''C''" "[]"] l pre c w
  have 1: "runWorkflow cfg0 env0 st0 (run_req ''B, C'') =
     \<lparr>rr_store = st0, rr_calls = [],
      rr_response = Failure 403 ''Workflow not approved by C'' None\<rparr>"
    by simp
  have f: "falsy (rw_creator (run_req ''B, C''\<lparr>rw_creator := Some []\<rparr>))"
    by (simp add: falsy_def)
  with runWorkflow_not_approved[of "run_req ''B, C''\<lparr>rw_creator := Some []\<rparr>" cfg0 env0 st0]
  have 2: "runWorkflow cfg0 env0 st0 (run_req ''B, C''\<lparr>rw_creator := Some []\<rparr>) =
     \<lparr>rr_store = st0, rr_calls = [],
      rr_response = Failure 400 ''creator and collaborators parameters are required'' None\<rparr>"
    by blast
  from l b c 1 f 2 show ?thesis by simp
qed

text \<open>
  The claim as stated fails in two ways. When the approval query for \<open>B\<close> fails, the run
  is refused with 403 although the latest Approval row of \<open>B\<close>, the only collaborator
  named, is affirmative. And a request without the creator parameter is refused with
  400, not 403, although the collaborator it names has no Approval row.
\<close>

theorem runWorkflow_not_approved_counterexample:
  "collaboratorList (QString ''B'') = [''B''] \<and>
   lacks_approval st0 ''W'' ''B'' = False \<and>
   rr_response (runWorkflow cfg0 env_approvals_down st0 (run_req ''B'')) =
     Failure 403 ''Workflow not approved by B'' None \<and>
   collaboratorList (QString ''C'') = [''C''] \<and>
   lacks_approval st0 ''W'' ''C'' = True \<and>
   rr_response (runWorkflow cfg0 env0 st0
      \<lparr>rw_workflow_id = ''W'', rw_creator = None, rw_collaborators = Some (QString ''C'')\<rparr>) =
     Failure 400 ''creator and collaborators parameters are required'' None"
  by (simp add: runWorkflow_def eval_defs ex_defs)

lemma collaboratorList_no_break_space:
  "collaboratorList (QString [CHR ''B'', CHR 0xA0, CHR '','', CHR 0x20, CHR ''C'']) = [''B'', ''C'']"
  by (simp add: collaboratorList_def trim_def is_space_def)

subsection \<open>A rejected call to the executor\<close>

lemma executorFailed_eq:
  "executorFailed e st w creator calls m =
     (case bq_error e (UpdateStatus w creator FAILED) of
        None \<Rightarrow>
          \<lparr>rr_store = st\<lparr>workflows := (workflows st)
               (creator := map (set_status w FAILED (current_timestamp e (UpdateStatus w creator FAILED)))
                             (workflows st creator))\<rparr>,
           rr_calls = calls,
           rr_response = Failure 502 ''Executor failed'' (Some m)\<rparr>
      | Some m' \<Rightarrow>
          \<lparr>rr_store = st, rr_calls = calls,
           rr_response = Failure 500 ''Failed to run workflow''
                           (Some (''Failed to update workflow status: '' @ m'))\<rparr>)"
  by (simp add: executorFailed_def bq_updateWorkflowStatus_def split: option.splits)

text \<open>The handler of a failure after the call, when the store rejects the FAILED write.\<close>

lemma executorFailed_rejected:
  assumes "bq_error e (UpdateStatus w creator FAILED) = Some m'"
  shows "executorFailed e st w creator calls m =
          \<lparr>rr_store = st, rr_calls = calls,
           rr_response = Failure 500 ''Failed to run workflow''
                           (Some (''Failed to update workflow status: '' @ m'))\<rparr>"
  by (simp add: executorFailed_eq assms)

lemma executor_failure_write_rejected:
  assumes "rr_calls (runWorkflow cfg e st req) \<noteq> []"
    and "axios_post e (hd (rr_calls (runWorkflow cfg e st req))) = Inl message"
    and "rw_creator req = Some creator"
    and "bq_error e (UpdateStatus (rw_workflow_id req) creator FAILED) = Some m"
  shows
    "rr_response (runWorkflow cfg e st req) =
       Failure 500 ''Failed to run workflow'' (Some (''Failed to update workflow status: '' @ m)) \<and>
     results (rr_store (runWorkflow cfg e st req)) = results st \<and>
     workflows (rr_store (runWorkflow cfg e st req)) =
       (workflows st)
         (creator := map (set_status (rw_workflow_id req) RUNNING
                            (current_timestamp e (UpdateStatus (rw_workflow_id req) creator RUNNING)))
                       (workflows st creator)) \<and>
     (\<forall>row \<in> set (workflows (rr_store (runWorkflow cfg e st req)) creator).
        wf_workflow_id row = rw_workflow_id req \<longrightarrow> wf_status row = RUNNING)"
proof -
  let ?w = "rw_workflow_id req"
  let ?r = "runWorkflow cfg e st req"
  from assms(1,3) obtain workflow st1 ds where
    wf: "workflow \<in> set (workflows st creator)" "wf_workflow_id workflow = ?w"
    and res: "results st1 = results st"
    and wfs: "workflows st1 = (workflows st)
           (creator := map (set_status ?w RUNNING
                              (current_timestamp e (UpdateStatus ?w creator RUNNING)))
                         (workflows st creator))"
    and run: "?r = callExecutor cfg e st1 ?w creator workflow ds"
    and calls: "rr_calls ?r = [executeCall cfg ?w workflow ds]"
    by (rule runWorkflow_dispatched)
  from assms(2) calls have "axios_post e (executeCall cfg ?w workflow ds) = Inl message" by simp
  then have "?r = executorFailed e st1 ?w creator [executeCall cfg ?w workflow ds] message"
    unfolding run by (rule callExecutor_failure)
  then have r: "?r =
     \<lparr>rr_store = st1, rr_calls = [executeCall cfg ?w workflow ds],
      rr_response = Failure 500 ''Failed to run workflow''
                      (Some (''Failed to update workflow status: '' @ m))\<rparr>"
    by (simp only: executorFailed_rejected[OF assms(4)])
  have rows: "(\<exists>row \<in> set (workflows st1 creator). wf_workflow_id row = ?w) \<and>
     (\<forall>row \<in> set (workflows st1 creator). wf_workflow_id row = ?w \<longrightarrow> wf_status row = RUNNING)"
    using wf wfs by (rule workflow_row_after_update)
  show ?thesis using res wfs rows by (simp add: r)
qed

text \<open>
  C4 (amended). For every run that reaches the executor call: if the call fails (an
  error response, a network error or the timeout of 600000 ms, all of which reject the
  call with a message), run inserts no ExecutionResult row and has called the executor
  exactly once (no retry). If the store accepts the FAILED status write, run sets the
  status of the workflow to FAILED and returns the failure 502 "Executor failed" with
  the message of the call's error; if the store rejects that write, run answers 500
  and the status of the workflow stays RUNNING.
\<close>

theorem runWorkflow_executor_failure:
  assumes "rr_calls (runWorkflow cfg e st req) \<noteq> []"
    and "axios_post e (hd (rr_calls (runWorkflow cfg e st req))) = Inl message"
    and "rw_creator req = Some creator"
  shows
    "results (rr_store (runWorkflow cfg e st req)) = results st \<and>
     length (rr_calls (runWorkflow cfg e st req)) = 1 \<and>
     call_timeout (hd (rr_calls (runWorkflow cfg e st req))) = 600000 \<and>
     (\<exists>row \<in> set (workflows (rr_store (runWorkflow cfg e st req)) creator).
        wf_workflow_id row = rw_workflow_id req) \<and>
     (case bq_error e (UpdateStatus (rw_workflow_id req) creator FAILED) of
        None \<Rightarrow>
          rr_response (runWorkflow cfg e st req) =
            Failure 502 ''Executor failed'' (Some message) \<and>
          (\<forall>row \<in> set (workflows (rr_store (runWorkflow cfg e st req)) creator).
             wf_workflow_id row = rw_workflow_id req \<longrightarrow> wf_status row = FAILED)
      | Some m \<Rightarrow>
          rr_response (runWorkflow cfg e st req) =
            Failure 500 ''Failed to run workflow''
              (Some (''Failed to update workflow status: '' @ m)) \<and>
          (\<forall>row \<in> set (workflows (rr_store (runWorkflow cfg e st req)) creator).
             wf_workflow_id row = rw_workflow_id req \<longrightarrow> wf_status row = RUNNING))"
proof -
  let ?w = "rw_workflow_id req"
  let ?r = "runWorkflow cfg e st req"
  from assms(1,3) obtain workflow st1 ds where
    wf: "workflow \<in> set (workflows st creator)" "wf_workflow_id workflow = ?w"
    and calls: "rr_calls ?r = [executeCall cfg ?w workflow ds]"
    by (rule runWorkflow_dispatched)
  have c: "length (rr_calls ?r) = 1" "call_timeout (hd (rr_calls ?r)) = 600000"
    by (simp_all add: calls executeCall_def)
  show ?thesis
  proof (cases "bq_error e (UpdateStatus ?w creator FAILED)")
    case None
    note acc = executor_failure_write_accepted[OF assms None]
    from acc have 1: "rr_response ?r = Failure 502 ''Executor failed'' (Some message)"
      and 2: "results (rr_store ?r) = results st"
      and 3: "\<exists>row \<in> set (workflows (rr_store ?r) creator). wf_workflow_id row = ?w"
      and 4: "\<forall>row \<in> set (workflows (rr_store ?r) creator).
                wf_workflow_id row = ?w \<longrightarrow> wf_status row = FAILED"
      by blast+
    from 1 2 3 4 c show ?thesis by (simp add: None)
  next
    case (Some m)
    note rej = executor_failure_write_rejected[OF assms Some]
    from rej have w: "workflows (rr_store ?r) =
       (workflows st)
         (creator := map (set_status ?w RUNNING
                            (current_timestamp e (UpdateStatus ?w creator RUNNING)))
                       (workflows st creator))" by blast
    have 3: "\<exists>row \<in> set (workflows (rr_store ?r) creator). wf_workflow_id row = ?w"
      using workflow_row_after_update[OF wf w] by blast
    from rej have 1: "rr_response ?r =
         Failure 500 ''Failed to run workflow'' (Some (''Failed to update workflow status: '' @ m))"
      and 2: "results (rr_store ?r) = results st"
      and 4: "\<forall>row \<in> set (workflows (rr_store ?r) creator).
                wf_workflow_id row = ?w \<longrightarrow> wf_status row = RUNNING"
      by blast+
    from 1 2 3 4 c show ?thesis by (simp add: Some)
  qed
qed


lemma example_run_reaches_if:
  assumes "\<And>c. bq_error e (SelectApproval ''W'' c) = None"
    and "bq_error e (SelectWorkflow ''W'' ''A'') = None"
    and "bq_error e (UpdateStatus ''W'' ''A'' RUNNING) = None"
    and "\<And>c. bq_error e (SelectDatasets ''W'' c) = None"
    and "\<And>c. bq_error e (SelectKeys ''W'' c) = None"
  shows "rr_calls (runWorkflow cfg0 e st_ready (run_req ''B,C'')) =
           [executeCall cfg0 ''W'' wf0 ds0]"
proof -
  have a: "checkApprovals e st_ready (rw_workflow_id (run_req ''B,C''))
             (collaboratorList (QString ''B,C'')) = None"
    by (simp add: eval_defs run_req_def st_ready_def st0_def assms)
  have b: "bq_getWorkflow e st_ready (rw_workflow_id (run_req ''B,C'')) ''A'' = Inr (Some wf0)"
    by (simp add: bq_getWorkflow_def wf0_def run_req_def st_ready_def st0_def assms)
  have c: "bq_updateWorkflowStatus e st_ready (rw_workflow_id (run_req ''B,C'')) ''A'' RUNNING =
      Inr (st_ready\<lparr>workflows := (workflows st_ready)
            (''A'' := map (set_status (rw_workflow_id (run_req ''B,C'')) RUNNING
                            (current_timestamp e
                               (UpdateStatus (rw_workflow_id (run_req ''B,C'')) ''A'' RUNNING)))
                          (workflows st_ready ''A''))\<rparr>)"
    by (rule bq_updateWorkflowStatus_ok) (simp add: example_checks assms)
  have "gatherDatasets e st_ready ''W'' ''A'' [''B'', ''C''] =
      Inr (assemble st_ready ''W'' (run_owners ''A'' [''B'', ''C'']))"
    by (rule gatherDatasets_ok) (simp add: assms)
  then have d: "gatherDatasets e st_ready (rw_workflow_id (run_req ''B,C'')) ''A''
      (collaboratorList (QString ''B,C'')) = Inr ds0"
    by (simp only: example_checks example_assemble)
  have "ds0 \<noteq> []" by (simp add: ds0_def)
  with runWorkflow_checks_passed[OF example_checks(1-4) a b c d, of cfg0]
  show ?thesis by (simp add: rr_calls_callExecutor example_checks)
qed

theorem runWorkflow_executor_failure_witness:
  "rr_calls (runWorkflow cfg0 env_timeout st_ready (run_req ''B,C'')) \<noteq> [] \<and>
   axios_post env_timeout (hd (rr_calls (runWorkflow cfg0 env_timeout st_ready (run_req ''B,C'')))) =
     Inl ''timeout of 600000ms exceeded'' \<and>
   bq_error env_timeout (UpdateStatus ''W'' ''A'' FAILED) = None \<and>
   rr_response (runWorkflow cfg0 env_timeout st_ready (run_req ''B,C'')) =
     Failure 502 ''Executor failed'' (Some ''timeout of 600000ms exceeded'') \<and>
   results (rr_store (runWorkflow cfg0 env_timeout st_ready (run_req ''B,C''))) = results st_ready \<and>
   length (rr_calls (runWorkflow cfg0 env_timeout st_ready (run_req ''B,C''))) = 1"
proof -
  let ?r = "runWorkflow cfg0 env_timeout st_ready (run_req ''B,C'')"
  have ok: "bq_error env_timeout c = None" for c
    by (simp add: env_timeout_def env0_def)
  have calls: "rr_calls ?r \<noteq> []"
    using example_run_reaches_if[of env_timeout] by (simp add: ok)
  have fails: "axios_post env_timeout (hd (rr_calls ?r)) = Inl ''timeout of 600000ms exceeded''"
    by (simp add: env_timeout_def)
  note inst = runWorkflow_executor_failure[OF calls fails example_checks(1)]
  from inst have "rr_response ?r =
     Failure 502 ''Executor failed'' (Some ''timeout of 600000ms exceeded'')"
    and "results (rr_store ?r) = results st_ready" and "length (rr_calls ?r) = 1"
    by (simp_all add: ok)
  with calls fails ok show ?thesis by simp
qed

text \<open>
  The claim as stated fails when the store rejects the FAILED status write: the call to
  the executor has run into its timeout, and run answers 500, not 502, and leaves the
  workflow in RUNNING.
\<close>

theorem runWorkflow_executor_failure_counterexample:
  "rr_calls (runWorkflow cfg0 env_failed_write_down st_ready (run_req ''B,C'')) =
     [executeCall cfg0 ''W'' wf0 ds0] \<and>
   axios_post env_failed_write_down (executeCall cfg0 ''W'' wf0 ds0) =
     Inl ''timeout of 600000ms exceeded'' \<and>
   rr_response (runWorkflow cfg0 env_failed_write_down st_ready (run_req ''B,C'')) =
     Failure 500 ''Failed to run workflow'' (Some ''Failed to update workflow status: backendError'') \<and>
   map wf_status
     (workflows (rr_store (runWorkflow cfg0 env_failed_write_down st_ready (run_req ''B,C''))) ''A'') =
     [RUNNING]"
proof -
  let ?e = env_failed_write_down
  let ?r = "runWorkflow cfg0 ?e st_ready (run_req ''B,C'')"
  have calls: "rr_calls ?r = [executeCall cfg0 ''W'' wf0 ds0]"
    by (rule example_run_reaches_if)
       (simp_all add: env_failed_write_down_def env_timeout_def env0_def rejecting_def)
  have fails: "axios_post ?e (executeCall cfg0 ''W'' wf0 ds0) = Inl ''timeout of 600000ms exceeded''"
    by (simp add: env_failed_write_down_def env_timeout_def)
  have ne: "rr_calls ?r \<noteq> []" and fails': "axios_post ?e (hd (rr_calls ?r)) =
      Inl ''timeout of 600000ms exceeded''"
    using calls fails by simp_all
  have rej: "bq_error ?e (UpdateStatus (rw_workflow_id (run_req ''B,C'')) ''A'' FAILED) =
      Some ''backendError''"
    by (simp add: example_checks env_failed_write_down_def rejecting_def)
  note f = executor_failure_write_rejected[OF ne fails' example_checks(1) rej]
  from f have 1: "rr_response ?r =
     Failure 500 ''Failed to run workflow'' (Some ''Failed to update workflow status: backendError'')"
    by simp
  from f have w: "workflows (rr_store ?r) =
       (workflows st_ready)
         (''A'' := map (set_status (rw_workflow_id (run_req ''B,C'')) RUNNING
                            (current_timestamp ?e
                               (UpdateStatus (rw_workflow_id (run_req ''B,C'')) ''A'' RUNNING)))
                       (workflows st_ready ''A''))" by blast
  have 2: "map wf_status (workflows (rr_store ?r) ''A'') = [RUNNING]"
    unfolding w by (simp add: example_ready example_checks set_status_def wf0_def)
  from calls fails 1 2 show ?thesis by simp
qed

subsection \<open>A resolved call to the executor\<close>

lemma results_executorFailed: "results (rr_store (executorFailed e st w creator calls m)) = results st"
  by (simp add: executorFailed_eq split: option.splits)

lemma executorFailed_handled:
  assumes "\<forall>row \<in> set (workflows st creator). wf_workflow_id row = w \<longrightarrow> wf_status row = RUNNING"
  shows "failure_handled e w creator m (executorFailed e st w creator calls m)"
proof (cases "bq_error e (UpdateStatus w creator FAILED)")
  case None
  then show ?thesis
    using set_status_rows[of w FAILED _ "workflows st creator"]
    by (simp add: failure_handled_def executorFailed_eq)
next
  case (Some m')
  with assms show ?thesis
    by (simp add: failure_handled_def executorFailed_eq)
qed

lemma callExecutor_resolved:
  assumes "axios_post e (executeCall cfg w workflow ds) = Inr resultInfo"
    and "rs = makeResults e w (resp_executed_notebook_path resultInfo)
                (case resp_result_paths resultInfo of None \<Rightarrow> [] | Some ps \<Rightarrow> ps)"
  shows "callExecutor cfg e st w creator workflow ds =
     (case (if rs = [] then None else bq_error e (InsertResults rs)) of
        Some m \<Rightarrow>
          executorFailed e st w creator [executeCall cfg w workflow ds]
            (''Failed to insert results: '' @ m)
      | None \<Rightarrow>
          (case bq_error e (UpdateStatus w creator COMPLETED) of
             Some m \<Rightarrow>
               executorFailed e (st\<lparr>results := results st @ rs\<rparr>) w creator
                 [executeCall cfg w workflow ds] (''Failed to update workflow status: '' @ m)
           | None \<Rightarrow>
               \<lparr>rr_store = st\<lparr>results := results st @ rs,
                    workflows := (workflows st)
                      (creator := map (set_status w COMPLETED
                                         (current_timestamp e (UpdateStatus w creator COMPLETED)))
                                    (workflows st creator))\<rparr>,
                rr_calls = [executeCall cfg w workflow ds],
                rr_response = Success
                  \<lparr>run_status = ''success'',
                   run_executed_notebook = resp_executed_notebook_path resultInfo,
                   run_result_json_paths =
                     (case resp_result_paths resultInfo of None \<Rightarrow> [] | Some ps \<Rightarrow> ps),
                   run_model_gcs_path = getModelPath cfg e w\<rparr>\<rparr>))"
proof (cases "rs = []")
  case True
  have ins: "(if rs \<noteq> [] then bq_insertResults e st rs else Inr st) =
      Inr (st\<lparr>results := results st @ rs\<rparr>)"
    using True by simp
  show ?thesis
    unfolding callExecutor_def Let_def assms(1) sum.case assms(2)[symmetric] ins
    by (simp add: True bq_updateWorkflowStatus_def split: option.splits)
next
  case False
  show ?thesis
  proof (cases "bq_error e (InsertResults rs)")
    case None
    have ins: "(if rs \<noteq> [] then bq_insertResults e st rs else Inr st) =
        Inr (st\<lparr>results := results st @ rs\<rparr>)"
      using False None by (simp add: bq_insertResults_def)
    show ?thesis
      unfolding callExecutor_def Let_def assms(1) sum.case assms(2)[symmetric] ins
      by (simp add: False None bq_updateWorkflowStatus_def split: option.splits)
  next
    case (Some m)
    have ins: "(if rs \<noteq> [] then bq_insertResults e st rs else Inr st) =
        Inl (''Failed to insert results: '' @ m)"
      using False Some by (simp add: bq_insertResults_def)
    show ?thesis
      unfolding callExecutor_def Let_def assms(1) sum.case assms(2)[symmetric] ins
      by (simp add: False Some)
  qed
qed


text \<open>
  C5 (amended). For every run whose call to the executor succeeds: the request carries
  the output path prefixes \<open>gs://{bucket}/results/{workflowId}/result\<close> and
  \<open>gs://{bucket}/results/{workflowId}/executed\<close>, and the executor is called once. Run
  builds one ExecutionResult row per result reference the executor returned (none when
  the response has no result references), each tagged with the workflow and the
  executed-artifact reference, and inserts them as one batch (no insert is made when
  there is no row). If the store accepts the insert and the COMPLETED status write, run
  persists exactly these rows, sets the status of the workflow to COMPLETED and returns
  the executed-artifact reference, all result references and the model reference
  \<open>gs://{bucket}/{pathPrefix}/{workflowId}/result_model.zip\<close> when that object exists (none
  otherwise). If the store rejects the insert, no row is persisted; if it rejects the
  COMPLETED write, the inserted rows are kept; in both cases run ends as after a failed
  call: it writes FAILED and returns 502 with the store's error message, or, if the
  FAILED write is rejected as well, it answers 500 and the workflow stays RUNNING.
\<close>

theorem runWorkflow_executor_success:
  assumes "rr_calls (runWorkflow cfg e st req) \<noteq> []"
    and "axios_post e (hd (rr_calls (runWorkflow cfg e st req))) = Inr resultInfo"
    and "rw_creator req = Some creator"
    and "resultPaths = (case resp_result_paths resultInfo of None \<Rightarrow> [] | Some ps \<Rightarrow> ps)"
    and "rs = makeResults e (rw_workflow_id req) (resp_executed_notebook_path resultInfo) resultPaths"
  shows
    "length (rr_calls (runWorkflow cfg e st req)) = 1 \<and>
     exec_workflow_id (call_body (hd (rr_calls (runWorkflow cfg e st req)))) = rw_workflow_id req \<and>
     exec_result_base (call_body (hd (rr_calls (runWorkflow cfg e st req)))) =
       ''gs://'' @ gcp_bucket cfg @ ''/results/'' @ rw_workflow_id req @ ''/result'' \<and>
     exec_executed_notebook_base (call_body (hd (rr_calls (runWorkflow cfg e st req)))) =
       ''gs://'' @ gcp_bucket cfg @ ''/results/'' @ rw_workflow_id req @ ''/executed'' \<and>
     map res_result_path rs = resultPaths \<and>
     length rs = length resultPaths \<and>
     (\<forall>r \<in> set rs. res_workflow_id r = rw_workflow_id req \<and>
        res_executed_notebook_path r = resp_executed_notebook_path resultInfo) \<and>
     (case (if rs = [] then None else bq_error e (InsertResults rs)) of
        Some m \<Rightarrow>
          results (rr_store (runWorkflow cfg e st req)) = results st \<and>
          failure_handled e (rw_workflow_id req) creator (''Failed to insert results: '' @ m)
            (runWorkflow cfg e st req)
      | None \<Rightarrow>
          results (rr_store (runWorkflow cfg e st req)) = results st @ rs \<and>
          (case bq_error e (UpdateStatus (rw_workflow_id req) creator COMPLETED) of
             Some m \<Rightarrow>
               failure_handled e (rw_workflow_id req) creator
                 (''Failed to update workflow status: '' @ m) (runWorkflow cfg e st req)
           | None \<Rightarrow>
               rr_response (runWorkflow cfg e st req) =
                 Success
                   \<lparr>run_status = ''success'',
                    run_executed_notebook = resp_executed_notebook_path resultInfo,
                    run_result_json_paths = resultPaths,
                    run_model_gcs_path =
                      (if file_exists e
                            (''gs://'' @ gcp_bucket cfg @ ''/'' @ results_pathPrefix cfg @ ''/'' @
                             rw_workflow_id req @ ''/result_model.zip'')
                       then Some (''gs://'' @ gcp_bucket cfg @ ''/'' @ results_pathPrefix cfg @
                                  ''/'' @ rw_workflow_id req @ ''/result_model.zip'')
                       else None)\<rparr> \<and>
               (\<exists>row \<in> set (workflows (rr_store (runWorkflow cfg e st req)) creator).
                  wf_workflow_id row = rw_workflow_id req) \<and>
               (\<forall>row \<in> set (workflows (rr_store (runWorkflow cfg e st req)) creator).
                  wf_workflow_id row = rw_workflow_id req \<longrightarrow> wf_status row = COMPLETED)))"
proof -
  let ?w = "rw_workflow_id req"
  let ?r = "runWorkflow cfg e st req"
  from assms(1,3) obtain workflow st1 ds where
    wf: "workflow \<in> set (workflows st creator)" "wf_workflow_id workflow = ?w"
    and res: "results st1 = results st"
    and wfs: "workflows st1 = (workflows st)
           (creator := map (set_status ?w RUNNING
                              (current_timestamp e (UpdateStatus ?w creator RUNNING)))
                         (workflows st creator))"
    and run: "?r = callExecutor cfg e st1 ?w creator workflow ds"
    and calls: "rr_calls ?r = [executeCall cfg ?w workflow ds]"
    by (rule runWorkflow_dispatched)
  from assms(2) calls have post: "axios_post e (executeCall cfg ?w workflow ds) = Inr resultInfo"
    by simp
  have rs: "rs = makeResults e ?w (resp_executed_notebook_path resultInfo)
                (case resp_result_paths resultInfo of None \<Rightarrow> [] | Some ps \<Rightarrow> ps)"
    using assms(4,5) by simp
  note r = callExecutor_resolved[OF post rs, of st1 creator, folded run]
  have running: "\<forall>row \<in> set (workflows st1 creator). wf_workflow_id row = ?w \<longrightarrow> wf_status row = RUNNING"
    using workflow_row_after_update[OF wf wfs] by blast
  have running': "\<forall>row \<in> set (workflows (st1\<lparr>results := results st1 @ rs\<rparr>) creator).
      wf_workflow_id row = ?w \<longrightarrow> wf_status row = RUNNING"
    using running by simp
  have head: "length (rr_calls ?r) = 1"
    "exec_workflow_id (call_body (hd (rr_calls ?r))) = ?w"
    "exec_result_base (call_body (hd (rr_calls ?r))) =
       ''gs://'' @ gcp_bucket cfg @ ''/results/'' @ ?w @ ''/result''"
    "exec_executed_notebook_base (call_body (hd (rr_calls ?r))) =
       ''gs://'' @ gcp_bucket cfg @ ''/results/'' @ ?w @ ''/executed''"
    by (simp_all add: calls executeCall_def executePayload_def)
  have paths: "map res_result_path rs = resultPaths" "length rs = length resultPaths"
     "\<forall>r \<in> set rs. res_workflow_id r = ?w \<and>
        res_executed_notebook_path r = resp_executed_notebook_path resultInfo"
    unfolding assms(5) using makeResults_paths[of e ?w "resp_executed_notebook_path resultInfo" resultPaths]
    by blast+
  have tail: "case (if rs = [] then None else bq_error e (InsertResults rs)) of
        Some m \<Rightarrow>
          results (rr_store ?r) = results st \<and>
          failure_handled e ?w creator (''Failed to insert results: '' @ m) ?r
      | None \<Rightarrow>
          results (rr_store ?r) = results st @ rs \<and>
          (case bq_error e (UpdateStatus ?w creator COMPLETED) of
             Some m \<Rightarrow>
               failure_handled e ?w creator (''Failed to update workflow status: '' @ m) ?r
           | None \<Rightarrow>
               rr_response ?r =
                 Success
                   \<lparr>run_status = ''success'',
                    run_executed_notebook = resp_executed_notebook_path resultInfo,
                    run_result_json_paths = resultPaths,
                    run_model_gcs_path =
                      (if file_exists e
                            (''gs://'' @ gcp_bucket cfg @ ''/'' @ results_pathPrefix cfg @ ''/'' @
                             ?w @ ''/result_model.zip'')
                       then Some (''gs://'' @ gcp_bucket cfg @ ''/'' @ results_pathPrefix cfg @
                                  ''/'' @ ?w @ ''/result_model.zip'')
                       else None)\<rparr> \<and>
               (\<exists>row \<in> set (workflows (rr_store ?r) creator). wf_workflow_id row = ?w) \<and>
               (\<forall>row \<in> set (workflows (rr_store ?r) creator).
                  wf_workflow_id row = ?w \<longrightarrow> wf_status row = COMPLETED))"
  proof (cases "if rs = [] then None else bq_error e (InsertResults rs)")
    case (Some m)
    with r have eq: "?r = executorFailed e st1 ?w creator [executeCall cfg ?w workflow ds]
            (''Failed to insert results: '' @ m)" by simp
    have "failure_handled e ?w creator (''Failed to insert results: '' @ m) ?r"
      unfolding eq using running by (rule executorFailed_handled)
    moreover have "results (rr_store ?r) = results st"
      unfolding eq by (simp add: results_executorFailed res)
    ultimately show ?thesis by (simp add: Some)
  next
    case None
    note ins = None
    show ?thesis
    proof (cases "bq_error e (UpdateStatus ?w creator COMPLETED)")
      case (Some m)
      with r ins have eq: "?r = executorFailed e (st1\<lparr>results := results st1 @ rs\<rparr>) ?w creator
           [executeCall cfg ?w workflow ds] (''Failed to update workflow status: '' @ m)" by simp
      have "failure_handled e ?w creator (''Failed to update workflow status: '' @ m) ?r"
        unfolding eq using running' by (rule executorFailed_handled)
      moreover have "results (rr_store ?r) = results st @ rs"
        unfolding eq by (simp add: results_executorFailed res)
      ultimately show ?thesis by (simp add: ins Some)
    next
      case None
      with r ins have eq: "?r =
               \<lparr>rr_store = st1\<lparr>results := results st1 @ rs,
                    workflows := (workflows st1)
                      (creator := map (set_status ?w COMPLETED
                                         (current_timestamp e (UpdateStatus ?w creator COMPLETED)))
                                    (workflows st1 creator))\<rparr>,
                rr_calls = [executeCall cfg ?w workflow ds],
                rr_response = Success
                  \<lparr>run_status = ''success'',
                   run_executed_notebook = resp_executed_notebook_path resultInfo,
                   run_result_json_paths =
                     (case resp_result_paths resultInfo of None \<Rightarrow> [] | Some ps \<Rightarrow> ps),
                   run_model_gcs_path = getModelPath cfg e ?w\<rparr>\<rparr>" by simp
      have final: "workflows (rr_store ?r) = (workflows st)
         (creator := map (set_status ?w COMPLETED
                            (current_timestamp e (UpdateStatus ?w creator COMPLETED)))
                       (workflows st creator))"
        unfolding eq using workflows_after_two_updates[OF wfs] by simp
      have rows: "(\<exists>row \<in> set (workflows (rr_store ?r) creator). wf_workflow_id row = ?w) \<and>
         (\<forall>row \<in> set (workflows (rr_store ?r) creator).
            wf_workflow_id row = ?w \<longrightarrow> wf_status row = COMPLETED)"
        using wf final by (rule workflow_row_after_update)
      have resp: "rr_response ?r =
                 Success
                   \<lparr>run_status = ''success'',
                    run_executed_notebook = resp_executed_notebook_path resultInfo,
                    run_result_json_paths = resultPaths,
                    run_model_gcs_path =
                      (if file_exists e
                            (''gs://'' @ gcp_bucket cfg @ ''/'' @ results_pathPrefix cfg @ ''/'' @
                             ?w @ ''/result_model.zip'')
                       then Some (''gs://'' @ gcp_bucket cfg @ ''/'' @ results_pathPrefix cfg @
                                  ''/'' @ ?w @ ''/result_model.zip'')
                       else None)\<rparr>"
        unfolding eq by (simp add: assms(4) getModelPath_def getGcsPath_def)
      have "results (rr_store ?r) = results st @ rs"
        unfolding eq by (simp add: res)
      with rows resp show ?thesis by (simp add: ins None)
    qed
  qed
  from head paths tail show ?thesis by blast
qed


lemma example_run_if:
  assumes "\<And>c. bq_error e (SelectApproval ''W'' c) = None"
    and "bq_error e (SelectWorkflow ''W'' ''A'') = None"
    and "bq_error e (UpdateStatus ''W'' ''A'' RUNNING) = None"
    and "\<And>c. bq_error e (SelectDatasets ''W'' c) = None"
    and "\<And>c. bq_error e (SelectKeys ''W'' c) = None"
  shows "runWorkflow cfg0 e st_ready (run_req ''B,C'') =
           callExecutor cfg0 e
             (st_ready\<lparr>workflows := (workflows st_ready)
                (''A'' := map (set_status ''W'' RUNNING
                                (current_timestamp e (UpdateStatus ''W'' ''A'' RUNNING)))
                              (workflows st_ready ''A''))\<rparr>)
             ''W'' ''A'' wf0 ds0"
proof -
  have a: "checkApprovals e st_ready (rw_workflow_id (run_req ''B,C''))
             (collaboratorList (QString ''B,C'')) = None"
    by (simp add: eval_defs run_req_def st_ready_def st0_def assms)
  have b: "bq_getWorkflow e st_ready (rw_workflow_id (run_req ''B,C'')) ''A'' = Inr (Some wf0)"
    by (simp add: bq_getWorkflow_def wf0_def run_req_def st_ready_def st0_def assms)
  have c: "bq_updateWorkflowStatus e st_ready (rw_workflow_id (run_req ''B,C'')) ''A'' RUNNING =
      Inr (st_ready\<lparr>workflows := (workflows st_ready)
            (''A'' := map (set_status (rw_workflow_id (run_req ''B,C'')) RUNNING
                            (current_timestamp e
                               (UpdateStatus (rw_workflow_id (run_req ''B,C'')) ''A'' RUNNING)))
                          (workflows st_ready ''A''))\<rparr>)"
    by (rule bq_updateWorkflowStatus_ok) (simp add: example_checks assms)
  have "gatherDatasets e st_ready ''W'' ''A'' [''B'', ''C''] =
      Inr (assemble st_ready ''W'' (run_owners ''A'' [''B'', ''C'']))"
    by (rule gatherDatasets_ok) (simp add: assms)
  then have d: "gatherDatasets e st_ready (rw_workflow_id (run_req ''B,C'')) ''A''
      (collaboratorList (QString ''B,C'')) = Inr ds0"
    by (simp only: example_checks example_assemble)
  have "ds0 \<noteq> []" by (simp add: ds0_def)
  with runWorkflow_checks_passed[OF example_checks(1-4) a b c d, of cfg0]
  show ?thesis by (simp add: example_checks)
qed

lemma example_results:
  "makeResults env0 ''W'' ''nb'' [''r1'', ''r2''] = rs0"
  "makeResults env_completed_write_down ''W'' ''nb'' [''r1'', ''r2''] = rs0"
  by (simp_all add: makeResults_def rs0_def env0_def env_completed_write_down_def)

theorem runWorkflow_executor_success_witness:
  "rr_calls (runWorkflow cfg0 env0 st_ready (run_req ''B,C'')) \<noteq> [] \<and>
   axios_post env0 (hd (rr_calls (runWorkflow cfg0 env0 st_ready (run_req ''B,C'')))) =
     Inr \<lparr>resp_result_paths = Some [''r1'', ''r2''], resp_executed_notebook_path = ''nb''\<rparr> \<and>
   results (rr_store (runWorkflow cfg0 env0 st_ready (run_req ''B,C''))) = rs0 \<and>
   rr_response (runWorkflow cfg0 env0 st_ready (run_req ''B,C'')) =
     Success \<lparr>run_status = ''success'', run_executed_notebook = ''nb'',
              run_result_json_paths = [''r1'', ''r2''], run_model_gcs_path = None\<rparr> \<and>
   exec_result_base (call_body (hd (rr_calls (runWorkflow cfg0 env0 st_ready (run_req ''B,C''))))) =
     ''gs://cleanroom/results/W/result'' \<and>
   exec_executed_notebook_base
       (call_body (hd (rr_calls (runWorkflow cfg0 env0 st_ready (run_req ''B,C''))))) =
     ''gs://cleanroom/results/W/executed''"
proof -
  let ?r = "runWorkflow cfg0 env0 st_ready (run_req ''B,C'')"
  let ?info = "\<lparr>resp_result_paths = Some [''r1'', ''r2''], resp_executed_notebook_path = ''nb''\<rparr>"
  have calls: "rr_calls ?r \<noteq> []"
    using example_run_reaches_if[of env0] by (simp add: example_env0)
  have post: "axios_post env0 (hd (rr_calls ?r)) = Inr ?info"
    by (simp add: env0_def)
  have paths: "[''r1'', ''r2''] = (case resp_result_paths ?info of None \<Rightarrow> [] | Some ps \<Rightarrow> ps)"
    by simp
  have rs: "rs0 = makeResults env0 (rw_workflow_id (run_req ''B,C''))
      (resp_executed_notebook_path ?info) [''r1'', ''r2'']"
    by (simp add: example_checks example_results)
  note inst = runWorkflow_executor_success[OF calls post example_checks(1) paths rs]
  have ne: "rs0 \<noteq> []" by (simp add: rs0_def)
  from inst have 1: "results (rr_store ?r) = results st_ready @ rs0"
    and 2: "rr_response ?r =
       Success \<lparr>run_status = ''success'', run_executed_notebook = ''nb'',
              run_result_json_paths = [''r1'', ''r2''],
              run_model_gcs_path =
                (if file_exists env0
                      (''gs://'' @ gcp_bucket cfg0 @ ''/'' @ results_pathPrefix cfg0 @ ''/'' @
                       rw_workflow_id (run_req ''B,C'') @ ''/result_model.zip'')
                 then Some (''gs://'' @ gcp_bucket cfg0 @ ''/'' @ results_pathPrefix cfg0 @ ''/'' @
                            rw_workflow_id (run_req ''B,C'') @ ''/result_model.zip'')
                 else None)\<rparr>"
    and 3: "exec_result_base (call_body (hd (rr_calls ?r))) =
       ''gs://'' @ gcp_bucket cfg0 @ ''/results/'' @ rw_workflow_id (run_req ''B,C'') @ ''/result''"
    and 4: "exec_executed_notebook_base (call_body (hd (rr_calls ?r))) =
       ''gs://'' @ gcp_bucket cfg0 @ ''/results/'' @ rw_workflow_id (run_req ''B,C'') @ ''/executed''"
    by (simp_all add: ne example_env0)
  have f1: "results (rr_store ?r) = rs0"
    by (simp only: 1 example_ready append_Nil)
  have f2: "rr_response ?r =
     Success \<lparr>run_status = ''success'', run_executed_notebook = ''nb'',
              run_result_json_paths = [''r1'', ''r2''], run_model_gcs_path = None\<rparr>"
    unfolding 2 by (simp add: env0_def)
  have f3: "exec_result_base (call_body (hd (rr_calls ?r))) = ''gs://cleanroom/results/W/result''"
    and f4: "exec_executed_notebook_base (call_body (hd (rr_calls ?r))) =
      ''gs://cleanroom/results/W/executed''"
    unfolding 3 4 by (simp_all add: example_checks cfg0_def)
  from calls post f1 f2 f3 f4 show ?thesis by simp
qed

text \<open>
  The claim as stated fails when the store rejects the COMPLETED status write: the call
  to the executor has succeeded and both result rows are persisted, but run answers
  502 and the workflow ends in FAILED.
\<close>

theorem runWorkflow_executor_success_counterexample:
  "rr_calls (runWorkflow cfg0 env_completed_write_down st_ready (run_req ''B,C'')) =
     [executeCall cfg0 ''W'' wf0 ds0] \<and>
   axios_post env_completed_write_down (executeCall cfg0 ''W'' wf0 ds0) =
     Inr \<lparr>resp_result_paths = Some [''r1'', ''r2''], resp_executed_notebook_path = ''nb''\<rparr> \<and>
   rr_response (runWorkflow cfg0 env_completed_write_down st_ready (run_req ''B,C'')) =
     Failure 502 ''Executor failed'' (Some ''Failed to update workflow status: backendError'') \<and>
   results (rr_store (runWorkflow cfg0 env_completed_write_down st_ready (run_req ''B,C''))) = rs0 \<and>
   map wf_status
     (workflows (rr_store (runWorkflow cfg0 env_completed_write_down st_ready (run_req ''B,C'')))
        ''A'') = [FAILED]"
proof -
  let ?e = env_completed_write_down
  let ?r = "runWorkflow cfg0 ?e st_ready (run_req ''B,C'')"
  let ?info = "\<lparr>resp_result_paths = Some [''r1'', ''r2''], resp_executed_notebook_path = ''nb''\<rparr>"
  let ?st1 = "st_ready\<lparr>workflows := (workflows st_ready)
                (''A'' := map (set_status ''W'' RUNNING
                                (current_timestamp ?e (UpdateStatus ''W'' ''A'' RUNNING)))
                              (workflows st_ready ''A''))\<rparr>"
  have run: "?r = callExecutor cfg0 ?e ?st1 ''W'' ''A'' wf0 ds0"
    by (rule example_run_if)
       (simp_all add: env_completed_write_down_def env0_def rejecting_def)
  have post: "axios_post ?e (executeCall cfg0 ''W'' wf0 ds0) = Inr ?info"
    by (simp add: env_completed_write_down_def env0_def)
  have rs: "rs0 = makeResults ?e ''W'' (resp_executed_notebook_path ?info)
                (case resp_result_paths ?info of None \<Rightarrow> [] | Some ps \<Rightarrow> ps)"
    by (simp add: example_results)
  have ne: "rs0 \<noteq> []" by (simp add: rs0_def)
  have ins: "bq_error ?e (InsertResults rs0) = None"
    and comp: "bq_error ?e (UpdateStatus ''W'' ''A'' COMPLETED) = Some ''backendError''"
    and failed: "bq_error ?e (UpdateStatus ''W'' ''A'' FAILED) = None"
    by (simp_all add: env_completed_write_down_def rejecting_def)
  have eq: "?r = executorFailed ?e (?st1\<lparr>results := results ?st1 @ rs0\<rparr>) ''W'' ''A''
      [executeCall cfg0 ''W'' wf0 ds0] (''Failed to update workflow status: '' @ ''backendError'')"
    unfolding run callExecutor_resolved[OF post rs] by (simp add: ne ins comp)
  have 0: "rr_calls ?r = [executeCall cfg0 ''W'' wf0 ds0]"
    unfolding eq by (rule rr_calls_executorFailed)
  have 1: "rr_response ?r =
     Failure 502 ''Executor failed'' (Some ''Failed to update workflow status: backendError'')"
    unfolding eq by (simp add: executorFailed_eq failed)
  have 2: "results (rr_store ?r) = rs0"
    unfolding eq by (simp add: results_executorFailed example_ready)
  have 3: "map wf_status (workflows (rr_store ?r) ''A'') = [FAILED]"
    unfolding eq by (simp add: executorFailed_eq failed example_ready set_status_def wf0_def)
  from 0 post 1 2 3 show ?thesis by simp
qed

subsection \<open>A run without datasets\<close>

lemma gatherCollaborators_Inl_iff:
  "(\<exists>m. gatherCollaborators e st w creator cs = Inl m) \<longleftrightarrow>
     (\<exists>c \<in> set cs. c \<noteq> creator \<and>
        (bq_error e (SelectDatasets w c) \<noteq> None \<or> bq_error e (SelectKeys w c) \<noteq> None))"
proof (induction cs)
  case Nil
  then show ?case by simp
next
  case (Cons c cs)
  show ?case
  proof (cases "c = creator")
    case True
    with Cons show ?thesis by simp
  next
    case False
    show ?thesis
    proof (cases "bq_error e (SelectDatasets w c) = None \<and> bq_error e (SelectKeys w c) = None")
      case True
      then have "gatherOwner e st w c = Inr (join_owner st w c)"
        by (simp add: gatherOwner_eq)
      with False True Cons show ?thesis
        by (auto split: sum.splits)
    next
      case f: False
      then have "\<exists>m. gatherOwner e st w c = Inl m"
        by (auto simp: gatherOwner_eq split: option.splits)
      with False f show ?thesis by auto
    qed
  qed
qed

lemma gatherDatasets_Inl_iff:
  "(\<exists>m. gatherDatasets e st w creator cs = Inl m) \<longleftrightarrow>
     (\<exists>c \<in> set (run_owners creator cs).
        bq_error e (SelectDatasets w c) \<noteq> None \<or> bq_error e (SelectKeys w c) \<noteq> None)"
proof (cases "bq_error e (SelectDatasets w creator) = None \<and> bq_error e (SelectKeys w creator) = None")
  case True
  then have o: "gatherOwner e st w creator = Inr (join_owner st w creator)"
    by (simp add: gatherOwner_eq)
  have "(\<exists>m. gatherDatasets e st w creator cs = Inl m) \<longleftrightarrow>
        (\<exists>m. gatherCollaborators e st w creator cs = Inl m)"
    by (auto simp: gatherDatasets_def o split: sum.splits)
  with True show ?thesis
    by (auto simp: gatherCollaborators_Inl_iff run_owners_def)
next
  case False
  then have "\<exists>m. gatherOwner e st w creator = Inl m"
    by (auto simp: gatherOwner_eq split: option.splits)
  then have "\<exists>m. gatherDatasets e st w creator cs = Inl m"
    by (auto simp: gatherDatasets_def)
  with False show ?thesis by (auto simp: run_owners_def)
qed

lemma runWorkflow_running_write_rejected:
  assumes "rw_creator req = Some creator" and "creator \<noteq> []"
    and "rw_collaborators req = Some collaborators" and "\<not> falsy_query (Some collaborators)"
    and "checkApprovals e st (rw_workflow_id req) (collaboratorList collaborators) = None"
    and "bq_getWorkflow e st (rw_workflow_id req) creator = Inr (Some workflow)"
    and "bq_error e (UpdateStatus (rw_workflow_id req) creator RUNNING) = Some m"
  shows "runWorkflow cfg e st req =
     \<lparr>rr_store = st, rr_calls = [],
      rr_response = Failure 500 ''Failed to run workflow''
                      (Some (''Failed to update workflow status: '' @ m))\<rparr>"
proof -
  have "bq_updateWorkflowStatus e st (rw_workflow_id req) creator RUNNING =
      Inl (''Failed to update workflow status: '' @ m)"
    using assms(7) by (simp add: bq_updateWorkflowStatus_def)
  then show ?thesis
    unfolding runWorkflow_unfold[OF assms(1-4)] assms(5,6)
    by (simp add: runFailed_def)
qed

lemma runWorkflow_gather_failed:
  assumes "rw_creator req = Some creator" and "creator \<noteq> []"
    and "rw_collaborators req = Some collaborators" and "\<not> falsy_query (Some collaborators)"
    and "checkApprovals e st (rw_workflow_id req) (collaboratorList collaborators) = None"
    and "bq_getWorkflow e st (rw_workflow_id req) creator = Inr (Some workflow)"
    and "bq_updateWorkflowStatus e st (rw_workflow_id req) creator RUNNING = Inr st1"
    and "gatherDatasets e st (rw_workflow_id req) creator (collaboratorList collaborators) = Inl m"
  shows "runWorkflow cfg e st req =
     \<lparr>rr_store = st1, rr_calls = [],
      rr_response = Failure 500 ''Failed to run workflow'' (Some m)\<rparr>"
proof -
  have "gatherDatasets e st1 (rw_workflow_id req) creator (collaboratorList collaborators) = Inl m"
    using assms(8) by (simp only: gatherDatasets_after_update[OF assms(7)])
  then show ?thesis
    unfolding runWorkflow_unfold[OF assms(1-4)] assms(5-7)
    by (simp add: runFailed_def)
qed


text \<open>
  C6 (amended). For every run that passes the approval and existence checks: if the
  store rejects the RUNNING status write, run answers 500 and changes nothing. If the
  store accepts it but a dataset or key query of the creator or of a named collaborator
  fails, run answers 500 and the status of the workflow is left RUNNING. Otherwise the
  list of datasets is assembled across the creator and all named collaborators, and
  run fails with NoDatasets (HTTP 400) if and only if that list is empty; an owner who
  contributes no dataset is no error as long as the whole list is not empty. When run
  fails with NoDatasets, no call is made to the executor, and the status of the
  workflow has been set to RUNNING and is left so (no rollback).
\<close>

theorem runWorkflow_no_datasets:
  assumes "rw_creator req = Some creator" and "creator \<noteq> []"
    and "rw_collaborators req = Some collaborators" and "\<not> falsy_query (Some collaborators)"
    and "checkApprovals e st (rw_workflow_id req) (collaboratorList collaborators) = None"
    and "bq_getWorkflow e st (rw_workflow_id req) creator = Inr (Some workflow)"
    and "st1 = st\<lparr>workflows := (workflows st)
               (creator := map (set_status (rw_workflow_id req) RUNNING
                                  (current_timestamp e
                                     (UpdateStatus (rw_workflow_id req) creator RUNNING)))
                             (workflows st creator))\<rparr>"
  shows
    "(case bq_error e (UpdateStatus (rw_workflow_id req) creator RUNNING) of
        Some m \<Rightarrow>
          runWorkflow cfg e st req =
            \<lparr>rr_store = st, rr_calls = [],
             rr_response = Failure 500 ''Failed to run workflow''
                             (Some (''Failed to update workflow status: '' @ m))\<rparr>
      | None \<Rightarrow>
          (case gatherDatasets e st (rw_workflow_id req) creator (collaboratorList collaborators) of
             Inl m \<Rightarrow>
               runWorkflow cfg e st req =
                 \<lparr>rr_store = st1, rr_calls = [],
                  rr_response = Failure 500 ''Failed to run workflow'' (Some m)\<rparr>
           | Inr ds \<Rightarrow>
               ds = assemble st (rw_workflow_id req)
                      (run_owners creator (collaboratorList collaborators)) \<and>
               (rr_response (runWorkflow cfg e st req) =
                  Failure 400 ''No datasets found for this workflow'' None \<longleftrightarrow> ds = []) \<and>
               (http_status (rr_response (runWorkflow cfg e st req)) = 400 \<longleftrightarrow> ds = []) \<and>
               (ds = [] \<longrightarrow>
                  rr_calls (runWorkflow cfg e st req) = [] \<and>
                  rr_store (runWorkflow cfg e st req) = st1))) \<and>
     ((\<exists>m. gatherDatasets e st (rw_workflow_id req) creator (collaboratorList collaborators) =
            Inl m) \<longleftrightarrow>
      (\<exists>c \<in> set (run_owners creator (collaboratorList collaborators)).
         bq_error e (SelectDatasets (rw_workflow_id req) c) \<noteq> None \<or>
         bq_error e (SelectKeys (rw_workflow_id req) c) \<noteq> None)) \<and>
     (\<exists>row \<in> set (workflows st1 creator). wf_workflow_id row = rw_workflow_id req) \<and>
     (\<forall>row \<in> set (workflows st1 creator).
        wf_workflow_id row = rw_workflow_id req \<longrightarrow> wf_status row = RUNNING)"
proof -
  let ?w = "rw_workflow_id req"
  let ?cl = "collaboratorList collaborators"
  let ?r = "runWorkflow cfg e st req"
  have rows: "(\<exists>row \<in> set (workflows st1 creator). wf_workflow_id row = ?w) \<and>
      (\<forall>row \<in> set (workflows st1 creator). wf_workflow_id row = ?w \<longrightarrow> wf_status row = RUNNING)"
    using bq_getWorkflow_Some[OF assms(6)] unfolding assms(7)
    by (intro workflow_row_after_update[of workflow st creator]) simp_all
  have main: "case bq_error e (UpdateStatus ?w creator RUNNING) of
        Some m \<Rightarrow>
          ?r = \<lparr>rr_store = st, rr_calls = [],
             rr_response = Failure 500 ''Failed to run workflow''
                             (Some (''Failed to update workflow status: '' @ m))\<rparr>
      | None \<Rightarrow>
          (case gatherDatasets e st ?w creator ?cl of
             Inl m \<Rightarrow>
               ?r = \<lparr>rr_store = st1, rr_calls = [],
                  rr_response = Failure 500 ''Failed to run workflow'' (Some m)\<rparr>
           | Inr ds \<Rightarrow>
               ds = assemble st ?w (run_owners creator ?cl) \<and>
               (rr_response ?r = Failure 400 ''No datasets found for this workflow'' None \<longleftrightarrow>
                  ds = []) \<and>
               (http_status (rr_response ?r) = 400 \<longleftrightarrow> ds = []) \<and>
               (ds = [] \<longrightarrow> rr_calls ?r = [] \<and> rr_store ?r = st1))"
  proof (cases "bq_error e (UpdateStatus ?w creator RUNNING)")
    case (Some m)
    from runWorkflow_running_write_rejected[OF assms(1-6) Some, of cfg] Some
    show ?thesis by simp
  next
    case None
    have upd: "bq_updateWorkflowStatus e st ?w creator RUNNING = Inr st1"
      unfolding assms(7) using None by (rule bq_updateWorkflowStatus_ok)
    show ?thesis
    proof (cases "gatherDatasets e st ?w creator ?cl")
      case (Inl m)
      from runWorkflow_gather_failed[OF assms(1-6) upd Inl, of cfg] None Inl
      show ?thesis by simp
    next
      case (Inr ds)
      note run = runWorkflow_checks_passed[OF assms(1-6) upd Inr, of cfg]
      have a: "ds = assemble st ?w (run_owners creator ?cl)"
        using Inr by (rule gatherDatasets_Inr)
      have disp: "http_status (rr_response (callExecutor cfg e st1 ?w creator workflow ds)) \<noteq> 400"
        using http_status_callExecutor[of cfg e st1 ?w creator workflow ds] by auto
      then have disp': "rr_response (callExecutor cfg e st1 ?w creator workflow ds) \<noteq>
          Failure 400 ''No datasets found for this workflow'' None"
        by (auto simp: http_status_def)
      have b: "rr_response ?r = Failure 400 ''No datasets found for this workflow'' None \<longleftrightarrow>
          ds = []"
        using disp' by (simp add: run)
      have c: "http_status (rr_response ?r) = 400 \<longleftrightarrow> ds = []"
        using disp by (simp add: run http_status_def)
      have d: "rr_calls ?r = [] \<and> rr_store ?r = st1" if "ds = []"
        using that by (simp add: run)
      from a b c d None Inr show ?thesis by simp
    qed
  qed
  from main gatherDatasets_Inl_iff[of e st ?w creator ?cl] rows show ?thesis by blast
qed


theorem runWorkflow_no_datasets_witness:
  "checkApprovals env0 st_nodata ''W'' [''B'', ''C''] = None \<and>
   bq_getWorkflow env0 st_nodata ''W'' ''A'' = Inr (Some wf0) \<and>
   rr_response (runWorkflow cfg0 env0 st_nodata (run_req ''B,C'')) =
     Failure 400 ''No datasets found for this workflow'' None \<and>
   rr_calls (runWorkflow cfg0 env0 st_nodata (run_req ''B,C'')) = [] \<and>
   map wf_status (workflows (rr_store (runWorkflow cfg0 env0 st_nodata (run_req ''B,C''))) ''A'') =
     [RUNNING] \<and>
   join_owner st_ready ''W'' ''C'' = [] \<and>
   http_status (rr_response (runWorkflow cfg0 env0 st_ready (run_req ''B,C''))) \<noteq> 400"
proof -
  let ?q = "run_req ''B,C''"
  let ?st1 = "\<lambda>st. st\<lparr>workflows := (workflows st)
               (''A'' := map (set_status (rw_workflow_id ?q) RUNNING
                                  (current_timestamp env0
                                     (UpdateStatus (rw_workflow_id ?q) ''A'' RUNNING)))
                             (workflows st ''A''))\<rparr>"
  have a: "checkApprovals env0 st_nodata (rw_workflow_id ?q) (collaboratorList (QString ''B,C'')) = None"
    by (simp only: example_checks example_nodata)
  have b: "bq_getWorkflow env0 st_nodata (rw_workflow_id ?q) ''A'' = Inr (Some wf0)"
    by (simp only: example_checks example_nodata)
  have "gatherDatasets env0 st_nodata ''W'' ''A'' [''B'', ''C''] =
      Inr (assemble st_nodata ''W'' (run_owners ''A'' [''B'', ''C'']))"
    by (rule gatherDatasets_ok) (simp add: example_env0)
  then have g: "gatherDatasets env0 st_nodata (rw_workflow_id ?q) ''A''
      (collaboratorList (QString ''B,C'')) = Inr []"
    by (simp only: example_checks example_nodata)
  note inst = runWorkflow_no_datasets[OF example_checks(1-4) a b refl, of cfg0]
  from inst have 1: "rr_response (runWorkflow cfg0 env0 st_nodata ?q) =
       Failure 400 ''No datasets found for this workflow'' None"
    and 2: "rr_calls (runWorkflow cfg0 env0 st_nodata ?q) = []"
    and 3: "rr_store (runWorkflow cfg0 env0 st_nodata ?q) = ?st1 st_nodata"
    by (simp_all add: example_env0 g)
  have 4: "map wf_status (workflows (rr_store (runWorkflow cfg0 env0 st_nodata ?q)) ''A'') = [RUNNING]"
    unfolding 3 by (simp add: example_nodata example_checks set_status_def wf0_def)
  have a': "checkApprovals env0 st_ready (rw_workflow_id ?q) (collaboratorList (QString ''B,C'')) = None"
    by (simp only: example_checks example_approved)
  have b': "bq_getWorkflow env0 st_ready (rw_workflow_id ?q) ''A'' = Inr (Some wf0)"
    by (simp only: example_checks example_workflow)
  have g': "gatherDatasets env0 st_ready (rw_workflow_id ?q) ''A''
      (collaboratorList (QString ''B,C'')) = Inr ds0"
    by (simp only: example_checks example_gather)
  have ne: "ds0 \<noteq> []" by (simp add: ds0_def)
  note inst' = runWorkflow_no_datasets[OF example_checks(1-4) a' b' refl, of cfg0]
  from inst' ne have 5: "http_status (rr_response (runWorkflow cfg0 env0 st_ready ?q)) \<noteq> 400"
    by (simp add: example_env0 g')
  have 6: "join_owner st_ready ''W'' ''C'' = []"
    by (simp add: join_defs ex_defs)
  from 1 2 4 5 6 example_nodata(1,2) show ?thesis by simp
qed

text \<open>
  The claim as stated fails when the store rejects the RUNNING status write: the run has
  passed the approval and existence checks and no dataset of the workflow exists, yet
  run answers 500, not NoDatasets, and the workflow is still in PENDING_APPROVAL.
\<close>

theorem runWorkflow_no_datasets_counterexample:
  "checkApprovals env_running_write_down st_nodata ''W'' [''B'', ''C''] = None \<and>
   bq_getWorkflow env_running_write_down st_nodata ''W'' ''A'' = Inr (Some wf0) \<and>
   assemble st_nodata ''W'' (run_owners ''A'' [''B'', ''C'']) = [] \<and>
   runWorkflow cfg0 env_running_write_down st_nodata (run_req ''B,C'') =
     \<lparr>rr_store = st_nodata, rr_calls = [],
      rr_response = Failure 500 ''Failed to run workflow''
                      (Some ''Failed to update workflow status: backendError'')\<rparr> \<and>
   map wf_status (workflows st_nodata ''A'') = [PENDING_APPROVAL]"
proof -
  let ?e = env_running_write_down
  let ?q = "run_req ''B,C''"
  have ok: "bq_error ?e (SelectApproval w c) = None" "bq_error ?e (SelectWorkflow w c) = None" for w c
    by (simp_all add: env_running_write_down_def env0_def rejecting_def)
  have a0: "checkApprovals ?e st_nodata ''W'' [''B'', ''C''] = None"
    by (simp add: eval_defs st_nodata_def st_ready_def st0_def ok)
  have b0: "bq_getWorkflow ?e st_nodata ''W'' ''A'' = Inr (Some wf0)"
    by (simp add: bq_getWorkflow_def wf0_def st_nodata_def st_ready_def st0_def ok)
  have a: "checkApprovals ?e st_nodata (rw_workflow_id ?q) (collaboratorList (QString ''B,C'')) = None"
    by (simp only: example_checks a0)
  have b: "bq_getWorkflow ?e st_nodata (rw_workflow_id ?q) ''A'' = Inr (Some wf0)"
    by (simp only: example_checks b0)
  have rej: "bq_error ?e (UpdateStatus (rw_workflow_id ?q) ''A'' RUNNING) = Some ''backendError''"
    by (simp add: example_checks env_running_write_down_def rejecting_def)
  have r: "runWorkflow cfg0 ?e st_nodata ?q =
     \<lparr>rr_store = st_nodata, rr_calls = [],
      rr_response = Failure 500 ''Failed to run workflow''
                      (Some ''Failed to update workflow status: backendError'')\<rparr>"
    using runWorkflow_running_write_rejected[OF example_checks(1-4) a b rej, of cfg0] by simp
  have s: "map wf_status (workflows st_nodata ''A'') = [PENDING_APPROVAL]"
    by (simp add: example_nodata wf0_def)
  from a0 b0 example_nodata(3) r s show ?thesis by simp
qed

subsection \<open>Recording an approval\<close>

lemma approveWorkflow_refused:
  "client_id = None \<or> client_id = Some [] \<Longrightarrow>
     approveWorkflow e st w client_id = (st, Failure 400 ''client_id parameter is required'' None)"
  by (auto simp: approveWorkflow_def)

lemma approveWorkflow_rejected:
  "c \<noteq> [] \<Longrightarrow> bq_error e (InsertApproval w c) = Some m \<Longrightarrow>
     approveWorkflow e st w (Some c) =
       (st, Failure 500 ''Failed to approve workflow'' (Some (''Failed to approve workflow: '' @ m)))"
  by (simp add: approveWorkflow_def bq_approveWorkflow_def)

lemma approveWorkflow_accepted:
  "c \<noteq> [] \<Longrightarrow> bq_error e (InsertApproval w c) = None \<Longrightarrow>
     approveWorkflow e st w (Some c) =
       (st\<lparr>approvals := (approvals st)
             (c := approvals st c @
                [\<lparr>ap_workflow_id = w, ap_approver = c, ap_approved = True,
                  ap_approved_at = current_timestamp e (InsertApproval w c)\<rparr>])\<rparr>,
        Success (w, ''APPROVED_BY_'' @ c))"
  by (simp add: approveWorkflow_def bq_approveWorkflow_def)

text \<open>
  C9 (amended). For every workflowId and approverId, recordApproval leaves the Workflow
  records unchanged, in particular it never modifies the status field of a workflow,
  and it leaves the datasets, the keys and the results unchanged. If the approver id is
  missing or empty, it answers 400 and changes nothing. Otherwise, if the store accepts
  the insert, it appends one affirmative Approval row, for that workflow and approver,
  to the approval collection of that approver, leaves the collections of the other
  approvers unchanged, and answers with the status APPROVED_BY_ followed by the approver
  id; if the store rejects the insert, it answers 500 and changes nothing. Quorum is not
  evaluated: the answer is the same whatever rows the store holds.
\<close>

theorem approveWorkflow_frame:
  "workflows (fst (approveWorkflow e st w client_id)) = workflows st \<and>
   (\<forall>creator. map wf_status (workflows (fst (approveWorkflow e st w client_id)) creator) =
               map wf_status (workflows st creator)) \<and>
   datasets (fst (approveWorkflow e st w client_id)) = datasets st \<and>
   keys (fst (approveWorkflow e st w client_id)) = keys st \<and>
   results (fst (approveWorkflow e st w client_id)) = results st \<and>
   (case client_id of
      None \<Rightarrow>
        approveWorkflow e st w client_id =
          (st, Failure 400 ''client_id parameter is required'' None)
    | Some c \<Rightarrow>
        if c = [] then
          approveWorkflow e st w client_id =
            (st, Failure 400 ''client_id parameter is required'' None)
        else
          (case bq_error e (InsertApproval w c) of
             Some m \<Rightarrow>
               approveWorkflow e st w client_id =
                 (st, Failure 500 ''Failed to approve workflow''
                        (Some (''Failed to approve workflow: '' @ m)))
           | None \<Rightarrow>
               snd (approveWorkflow e st w client_id) = Success (w, ''APPROVED_BY_'' @ c) \<and>
               (\<exists>row. approvals (fst (approveWorkflow e st w client_id)) c =
                        approvals st c @ [row] \<and>
                      ap_workflow_id row = w \<and> ap_approver row = c \<and> ap_approved row = True) \<and>
               (\<forall>c'. c' \<noteq> c \<longrightarrow>
                  approvals (fst (approveWorkflow e st w client_id)) c' = approvals st c'))) \<and>
   snd (approveWorkflow e st w client_id) = snd (approveWorkflow e st' w client_id)"
proof (cases "client_id = None \<or> client_id = Some []")
  case True
  from approveWorkflow_refused[OF True, of e st w] approveWorkflow_refused[OF True, of e st' w] True
  show ?thesis by auto
next
  case False
  then obtain c where c: "client_id = Some c" "c \<noteq> []" by auto
  show ?thesis
  proof (cases "bq_error e (InsertApproval w c)")
    case None
    from approveWorkflow_accepted[OF c(2) None, of st] approveWorkflow_accepted[OF c(2) None, of st']
      c None
    show ?thesis by simp
  next
    case (Some m)
    from approveWorkflow_rejected[OF c(2) Some, of st] approveWorkflow_rejected[OF c(2) Some, of st']
      c Some
    show ?thesis by simp
  qed
qed

theorem approveWorkflow_frame_witness:
  "approveWorkflow env0 st0 ''W'' (Some ''C'') =
     (st0\<lparr>approvals := (approvals st0)
            (''C'' := [\<lparr>ap_workflow_id = ''W'', ap_approver = ''C'', ap_approved = True,
                        ap_approved_at = 10\<rparr>])\<rparr>,
      Success (''W'', ''APPROVED_BY_C'')) \<and>
   approvals (fst (approveWorkflow env0 st0 ''W'' (Some ''C''))) ''B'' = approvals st0 ''B'' \<and>
   map wf_status (workflows (fst (approveWorkflow env0 st0 ''W'' (Some ''C''))) ''A'') =
     [PENDING_APPROVAL]"
proof -
  have ok: "bq_error env0 (InsertApproval ''W'' ''C'') = None" by (simp add: env0_def)
  have 1: "approveWorkflow env0 st0 ''W'' (Some ''C'') =
     (st0\<lparr>approvals := (approvals st0)
            (''C'' := [\<lparr>ap_workflow_id = ''W'', ap_approver = ''C'', ap_approved = True,
                        ap_approved_at = 10\<rparr>])\<rparr>,
      Success (''W'', ''APPROVED_BY_C''))"
    by (simp add: approveWorkflow_def bq_approveWorkflow_def env0_def st0_def)
  from approveWorkflow_frame[of env0 st0 "''W''" "Some ''C''" st0]
  have 2: "approvals (fst (approveWorkflow env0 st0 ''W'' (Some ''C''))) ''B'' = approvals st0 ''B''"
    and 3: "map wf_status (workflows (fst (approveWorkflow env0 st0 ''W'' (Some ''C''))) ''A'') =
      map wf_status (workflows st0 ''A'')"
    by (simp_all add: ok)
  have "map wf_status (workflows st0 ''A'') = [PENDING_APPROVAL]" by (simp add: st0_def)
  with 1 2 3 show ?thesis by simp
qed

text \<open>
  The claim as stated fails for the empty approver id, which is refused with 400, and
  when the store rejects the insert, which is answered with 500: in both cases no
  Approval row is appended.
\<close>

theorem approveWorkflow_frame_counterexample:
  "approveWorkflow env0 st0 ''W'' (Some '''') =
     (st0, Failure 400 ''client_id parameter is required'' None) \<and>
   approveWorkflow env_approve_down st0 ''W'' (Some ''C'') =
     (st0, Failure 500 ''Failed to approve workflow''
             (Some ''Failed to approve workflow: backendError'')) \<and>
   approvals st0 ''C'' = []"
proof -
  have 1: "approveWorkflow env0 st0 ''W'' (Some '''') =
     (st0, Failure 400 ''client_id parameter is required'' None)"
    by (rule approveWorkflow_refused) simp
  have "bq_error env_approve_down (InsertApproval ''W'' ''C'') = Some ''backendError''"
    by (simp add: env_approve_down_def rejecting_def)
  from approveWorkflow_rejected[OF _ this, of st0]
  have 2: "approveWorkflow env_approve_down st0 ''W'' (Some ''C'') =
     (st0, Failure 500 ''Failed to approve workflow''
             (Some ''Failed to approve workflow: backendError''))" by simp
  have 3: "approvals st0 ''C'' = []" by (simp add: st0_def)
  from 1 2 3 show ?thesis by simp
qed

subsection \<open>What the operations write\<close>

lemma executorFailed_store:
  "approvals (rr_store (executorFailed e st w creator calls m)) = approvals st \<and>
   datasets (rr_store (executorFailed e st w creator calls m)) = datasets st \<and>
   keys (rr_store (executorFailed e st w creator calls m)) = keys st \<and>
   results (rr_store (executorFailed e st w creator calls m)) = results st \<and>
   (workflows (rr_store (executorFailed e st w creator calls m)) = workflows st \<or>
    (\<exists>t. workflows (rr_store (executorFailed e st w creator calls m)) =
          (workflows st)(creator := map (set_status w FAILED t) (workflows st creator))))"
proof (cases "bq_error e (UpdateStatus w creator FAILED)")
  case None
  then have "workflows (rr_store (executorFailed e st w creator calls m)) =
      (workflows st)(creator := map (set_status w FAILED
         (current_timestamp e (UpdateStatus w creator FAILED))) (workflows st creator))"
    by (simp add: executorFailed_eq)
  then have "\<exists>t. workflows (rr_store (executorFailed e st w creator calls m)) =
          (workflows st)(creator := map (set_status w FAILED t) (workflows st creator))"
    by (rule exI)
  with None show ?thesis by (simp add: executorFailed_eq)
next
  case (Some m')
  then show ?thesis by (simp add: executorFailed_eq)
qed

lemma callExecutor_store:
  "approvals (rr_store (callExecutor cfg e st w creator workflow ds)) = approvals st \<and>
   datasets (rr_store (callExecutor cfg e st w creator workflow ds)) = datasets st \<and>
   keys (rr_store (callExecutor cfg e st w creator workflow ds)) = keys st \<and>
   (\<exists>rs. results (rr_store (callExecutor cfg e st w creator workflow ds)) = results st @ rs) \<and>
   (workflows (rr_store (callExecutor cfg e st w creator workflow ds)) = workflows st \<or>
    (\<exists>s t. s \<in> {COMPLETED, FAILED} \<and>
       workflows (rr_store (callExecutor cfg e st w creator workflow ds)) =
         (workflows st)(creator := map (set_status w s t) (workflows st creator))))"
proof (cases "axios_post e (executeCall cfg w workflow ds)")
  case (Inl m)
  then have "callExecutor cfg e st w creator workflow ds =
      executorFailed e st w creator [executeCall cfg w workflow ds] m"
    by (simp add: callExecutor_def)
  with executorFailed_store[of e st w creator "[executeCall cfg w workflow ds]" m]
  show ?thesis by auto
next
  case (Inr resultInfo)
  define rs where "rs = makeResults e w (resp_executed_notebook_path resultInfo)
                (case resp_result_paths resultInfo of None \<Rightarrow> [] | Some ps \<Rightarrow> ps)"
  note r = callExecutor_resolved[OF Inr rs_def, of st creator]
  let ?c = "[executeCall cfg w workflow ds]"
  show ?thesis
  proof (cases "if rs = [] then None else bq_error e (InsertResults rs)")
    case (Some m)
    with r have "callExecutor cfg e st w creator workflow ds =
        executorFailed e st w creator ?c (''Failed to insert results: '' @ m)" by simp
    with executorFailed_store[of e st w creator ?c "''Failed to insert results: '' @ m"]
    show ?thesis by auto
  next
    case None
    show ?thesis
    proof (cases "bq_error e (UpdateStatus w creator COMPLETED)")
      case (Some m)
      with None r have "callExecutor cfg e st w creator workflow ds =
          executorFailed e (st\<lparr>results := results st @ rs\<rparr>) w creator ?c
            (''Failed to update workflow status: '' @ m)" by simp
      with executorFailed_store[of e "st\<lparr>results := results st @ rs\<rparr>" w creator ?c
          "''Failed to update workflow status: '' @ m"]
      show ?thesis by auto
    next
      case n: None
      with None r show ?thesis by auto
    qed
  qed
qed

lemma runWorkflow_store:
  "approvals (rr_store (runWorkflow cfg e st req)) = approvals st \<and>
   datasets (rr_store (runWorkflow cfg e st req)) = datasets st \<and>
   keys (rr_store (runWorkflow cfg e st req)) = keys st \<and>
   (\<exists>rs. results (rr_store (runWorkflow cfg e st req)) = results st @ rs) \<and>
   (workflows (rr_store (runWorkflow cfg e st req)) = workflows st \<or>
    (\<exists>creator s t. s \<in> {RUNNING, COMPLETED, FAILED} \<and>
       workflows (rr_store (runWorkflow cfg e st req)) =
         (workflows st)(creator := map (set_status (rw_workflow_id req) s t) (workflows st creator))))"
proof (cases "rr_store (runWorkflow cfg e st req) = st")
  case True
  then show ?thesis by simp
next
  case False
  then have "rr_calls (runWorkflow cfg e st req) \<noteq> [] \<or> rr_store (runWorkflow cfg e st req) \<noteq> st"
    by simp
  then obtain creator collaborators where v: "rw_creator req = Some creator" "creator \<noteq> []"
    "rw_collaborators req = Some collaborators" "\<not> falsy_query (Some collaborators)"
    by (rule runWorkflow_guard)
  let ?w = "rw_workflow_id req"
  let ?cl = "collaboratorList collaborators"
  note u = runWorkflow_unfold[OF v, of cfg e st]
  from False u obtain workflow st1 where
    st1: "bq_updateWorkflowStatus e st ?w creator RUNNING = Inr st1"
    and r: "runWorkflow cfg e st req =
      (case gatherDatasets e st1 ?w creator ?cl of
         Inl m \<Rightarrow> runFailed st1 m
       | Inr ds \<Rightarrow>
           if ds = []
           then \<lparr>rr_store = st1, rr_calls = [],
                 rr_response = Failure 400 ''No datasets found for this workflow'' None\<rparr>
           else callExecutor cfg e st1 ?w creator workflow ds)"
    by (auto simp: runFailed_def split: option.splits sum.splits)
  note f = bq_updateWorkflowStatus_frame[OF st1]
  show ?thesis
  proof (cases "rr_store (runWorkflow cfg e st req) = st1")
    case True
    with f show ?thesis by auto
  next
    case ne: False
    with r obtain ds where
      "runWorkflow cfg e st req = callExecutor cfg e st1 ?w creator workflow ds"
      by (auto simp: runFailed_def split: sum.splits if_splits)
    then have eq: "rr_store (runWorkflow cfg e st req) =
        rr_store (callExecutor cfg e st1 ?w creator workflow ds)" by simp
    note c = callExecutor_store[of cfg e st1 ?w creator workflow ds]
    from f have w1: "workflows st1 =
        (workflows st)(creator := map (set_status ?w RUNNING
            (current_timestamp e (UpdateStatus ?w creator RUNNING))) (workflows st creator))"
      by simp
    have wf: "workflows (rr_store (runWorkflow cfg e st req)) = workflows st \<or>
      (\<exists>creator s t. s \<in> {RUNNING, COMPLETED, FAILED} \<and>
         workflows (rr_store (runWorkflow cfg e st req)) =
           (workflows st)(creator := map (set_status ?w s t) (workflows st creator)))"
    proof -
      from c consider
        (same) "workflows (rr_store (callExecutor cfg e st1 ?w creator workflow ds)) = workflows st1"
        | (upd) s t where "s \<in> {COMPLETED, FAILED}"
          "workflows (rr_store (callExecutor cfg e st1 ?w creator workflow ds)) =
             (workflows st1)(creator := map (set_status ?w s t) (workflows st1 creator))"
        by blast
      then show ?thesis
      proof cases
        case same
        with w1 eq have "workflows (rr_store (runWorkflow cfg e st req)) =
          (workflows st)(creator := map (set_status ?w RUNNING
            (current_timestamp e (UpdateStatus ?w creator RUNNING))) (workflows st creator))"
          by simp
        then show ?thesis by blast
      next
        case upd
        from upd(2) eq workflows_after_two_updates[OF w1, of s t]
        have "workflows (rr_store (runWorkflow cfg e st req)) =
          (workflows st)(creator := map (set_status ?w s t) (workflows st creator))"
          by simp
        with upd(1) show ?thesis by blast
      qed
    qed
    from c f eq wf show ?thesis by simp
  qed
qed

lemma insertMetadata_store:
  "insertMetadata e st file_type dataset_id workflow_id owner filename gcsPath = Inr st' \<Longrightarrow>
     workflows st' = workflows st \<and> approvals st' = approvals st \<and> results st' = results st"
  by (auto simp: insertMetadata_def bq_insertDataset_def bq_insertKey_def
      split: if_splits option.splits)

lemma generateUploadUrl_store:
  "workflows (fst (generateUploadUrl cfg e st req)) = workflows st \<and>
   approvals (fst (generateUploadUrl cfg e st req)) = approvals st \<and>
   results (fst (generateUploadUrl cfg e st req)) = results st"
  by (auto simp: generateUploadUrl_def Let_def dest: insertMetadata_store
      split: sum.splits)

lemma uploadFile_store:
  "workflows (fst (uploadFile cfg e st req)) = workflows st \<and>
   approvals (fst (uploadFile cfg e st req)) = approvals st \<and>
   results (fst (uploadFile cfg e st req)) = results st"
  by (auto simp: uploadFile_def Let_def dest: insertMetadata_store
      split: sum.splits option.splits)

lemma createWorkflow_store:
  "approvals (fst (createWorkflow cfg e st req)) = approvals st \<and>
   results (fst (createWorkflow cfg e st req)) = results st \<and>
   (workflows (fst (createWorkflow cfg e st req)) = workflows st \<or>
    (\<exists>creator row. wf_status row = PENDING_APPROVAL \<and>
       workflows (fst (createWorkflow cfg e st req)) =
         (workflows st)(creator := workflows st creator @ [row])))"
proof (cases "fst (createWorkflow cfg e st req) = st")
  case True
  then show ?thesis by simp
next
  case False
  then obtain workflow_id creator collaborators where
    eq0: "bq_createWorkflow e st
            \<lparr>wf_workflow_id = workflow_id, wf_creator = creator, wf_collaborators = collaborators,
             wf_workload_path = workload_fixedPath cfg, wf_status = PENDING_APPROVAL,
             wf_created_at = date_now e, wf_updated_at = None\<rparr> =
          Inr (fst (createWorkflow cfg e st req))"
    by (auto simp: createWorkflow_def split: option.splits sum.splits if_splits)
  define workflow where "workflow =
     \<lparr>wf_workflow_id = workflow_id, wf_creator = creator, wf_collaborators = collaborators,
      wf_workload_path = workload_fixedPath cfg, wf_status = PENDING_APPROVAL,
      wf_created_at = date_now e, wf_updated_at = None\<rparr>"
  have w: "wf_status workflow = PENDING_APPROVAL" by (simp add: workflow_def)
  have eq: "bq_createWorkflow e st workflow = Inr (fst (createWorkflow cfg e st req))"
    using eq0 by (simp add: workflow_def)
  let ?row = "\<lparr>wf_workflow_id = wf_workflow_id workflow, wf_creator = wf_creator workflow,
                wf_collaborators = wf_collaborators workflow,
                wf_workload_path = wf_workload_path workflow, wf_status = wf_status workflow,
                wf_created_at = wf_created_at workflow, wf_updated_at = None\<rparr>"
  from eq have st': "fst (createWorkflow cfg e st req) =
      st\<lparr>workflows := (workflows st)
          (wf_creator workflow := workflows st (wf_creator workflow) @ [?row])\<rparr>"
    by (simp add: bq_createWorkflow_def split: option.splits)
  have "wf_status ?row = PENDING_APPROVAL \<and>
      workflows (fst (createWorkflow cfg e st req)) =
        (workflows st)(wf_creator workflow := workflows st (wf_creator workflow) @ [?row])"
    by (simp add: st' w)
  then have "\<exists>creator row. wf_status row = PENDING_APPROVAL \<and>
       workflows (fst (createWorkflow cfg e st req)) =
         (workflows st)(creator := workflows st creator @ [row])"
    by blast
  moreover have "approvals (fst (createWorkflow cfg e st req)) = approvals st"
    and "results (fst (createWorkflow cfg e st req)) = results st"
    by (simp_all add: st')
  ultimately show ?thesis by simp
qed

lemma approveWorkflow_store:
  "workflows (fst (approveWorkflow e st w client_id)) = workflows st \<and>
   results (fst (approveWorkflow e st w client_id)) = results st \<and>
   (approvals (fst (approveWorkflow e st w client_id)) = approvals st \<or>
    (\<exists>c row. client_id = Some c \<and> bq_error e (InsertApproval w c) = None \<and>
       ap_workflow_id row = w \<and> ap_approved row = True \<and>
       approvals (fst (approveWorkflow e st w client_id)) =
         (approvals st)(c := approvals st c @ [row])))"
proof (cases "client_id = None \<or> client_id = Some []")
  case True
  from approveWorkflow_refused[OF True, of e st w] show ?thesis by simp
next
  case False
  then obtain c where c: "client_id = Some c" "c \<noteq> []" by auto
  show ?thesis
  proof (cases "bq_error e (InsertApproval w c)")
    case None
    let ?row = "\<lparr>ap_workflow_id = w, ap_approver = c, ap_approved = True,
                  ap_approved_at = current_timestamp e (InsertApproval w c)\<rparr>"
    note a = approveWorkflow_accepted[OF c(2) None, of st]
    have "client_id = Some c \<and> bq_error e (InsertApproval w c) = None \<and>
       ap_workflow_id ?row = w \<and> ap_approved ?row = True \<and>
       approvals (fst (approveWorkflow e st w client_id)) =
         (approvals st)(c := approvals st c @ [?row])"
      using a c None by simp
    then have "\<exists>c row. client_id = Some c \<and> bq_error e (InsertApproval w c) = None \<and>
       ap_workflow_id row = w \<and> ap_approved row = True \<and>
       approvals (fst (approveWorkflow e st w client_id)) =
         (approvals st)(c := approvals st c @ [row])"
      by blast
    moreover have "workflows (fst (approveWorkflow e st w client_id)) = workflows st"
      and "results (fst (approveWorkflow e st w client_id)) = results st"
      using a c by simp_all
    ultimately show ?thesis by simp
  next
    case (Some m)
    from approveWorkflow_rejected[OF c(2) Some, of st] c show ?thesis by simp
  qed
qed

subsection \<open>The Approval rows the operations write\<close>

lemma perform_approvals:
  "\<exists>rows. approvals (perform cfg st step) c = approvals st c @ rows \<and>
          (\<forall>row \<in> set rows. ap_approved row = True)"
proof -
  obtain e op where step: "step = (e, op)" by (cases step)
  show ?thesis
  proof (cases op)
    case (CreateWorkflow req)
    with step createWorkflow_store[of cfg e st req] show ?thesis by (simp add: perform_def)
  next
    case (ApproveWorkflow w client_id)
    then have p: "perform cfg st step = fst (approveWorkflow e st w client_id)"
      using step by (simp add: perform_def)
    from approveWorkflow_store[of e st w client_id] consider
      (same) "approvals (fst (approveWorkflow e st w client_id)) = approvals st"
      | (row) c0 row where "ap_approved row = True"
        "approvals (fst (approveWorkflow e st w client_id)) =
           (approvals st)(c0 := approvals st c0 @ [row])"
      by blast
    then show ?thesis
    proof cases
      case same
      with p show ?thesis by simp
    next
      case row
      show ?thesis
      proof (cases "c = c0")
        case True
        with row p have "approvals (perform cfg st step) c = approvals st c @ [row] \<and>
            (\<forall>r \<in> set [row]. ap_approved r = True)" by simp
        then show ?thesis by (rule exI)
      next
        case False
        with row p show ?thesis by simp
      qed
    qed
  next
    case (RunWorkflow req)
    with step runWorkflow_store[of cfg e st req] show ?thesis by (simp add: perform_def)
  next
    case (GenerateUploadUrl req)
    with step generateUploadUrl_store[of cfg e st req] show ?thesis by (simp add: perform_def)
  next
    case (UploadFile req)
    with step uploadFile_store[of cfg e st req] show ?thesis by (simp add: perform_def)
  qed
qed

lemma perform_all_approvals:
  "\<exists>rows. approvals (perform_all cfg st steps) c = approvals st c @ rows \<and>
          (\<forall>row \<in> set rows. ap_approved row = True)"
proof (induction steps arbitrary: st)
  case Nil
  show ?case by simp
next
  case (Cons step steps)
  from perform_approvals[of cfg st step c] obtain rows1 where
    1: "approvals (perform cfg st step) c = approvals st c @ rows1"
       "\<forall>row \<in> set rows1. ap_approved row = True" by blast
  from Cons[of "perform cfg st step"] obtain rows2 where
    2: "approvals (perform_all cfg (perform cfg st step) steps) c =
          approvals (perform cfg st step) c @ rows2"
       "\<forall>row \<in> set rows2. ap_approved row = True" by blast
  from 1 2 have "approvals (perform_all cfg st (step # steps)) c = approvals st c @ (rows1 @ rows2) \<and>
      (\<forall>row \<in> set (rows1 @ rows2). ap_approved row = True)" by auto
  then show ?case by (rule exI)
qed

lemma perform_all_affirmative:
  assumes "approvals_affirmative st"
  shows "approvals_affirmative (perform_all cfg st steps)"
  unfolding approvals_affirmative_def
proof (intro allI ballI)
  fix c row
  assume r: "row \<in> set (approvals (perform_all cfg st steps) c)"
  from perform_all_approvals[of cfg st steps c] obtain rows where
    "approvals (perform_all cfg st steps) c = approvals st c @ rows"
    "\<forall>row \<in> set rows. ap_approved row = True" by blast
  with r assms show "ap_approved row = True"
    by (auto simp: approvals_affirmative_def)
qed

lemma empty_store_affirmative: "approvals_affirmative empty_store"
  by (simp add: approvals_affirmative_def empty_store_def)

lemma affirmative_latest:
  assumes "approvals_affirmative st" and "latest_approval st w c = Some row"
  shows "ap_approved row = True"
  using latest_approval_Some[OF assms(2)] assms(1) by (auto simp: approvals_affirmative_def)

lemma approveWorkflow_Success:
  assumes "snd (approveWorkflow e st w (Some c)) = Success x"
  shows "c \<noteq> [] \<and> bq_error e (InsertApproval w c) = None"
  using assms by (auto simp: approveWorkflow_def bq_approveWorkflow_def split: if_splits option.splits)

lemma approved_stays_approved:
  assumes "approvals_affirmative st" and "snd (approveWorkflow e st w (Some c)) = Success x"
  shows "isWorkflowApproved e' (perform_all cfg (fst (approveWorkflow e st w (Some c))) steps) w c =
         (bq_error e' (SelectApproval w c) = None)"
proof -
  let ?st1 = "fst (approveWorkflow e st w (Some c))"
  let ?st2 = "perform_all cfg ?st1 steps"
  let ?row = "\<lparr>ap_workflow_id = w, ap_approver = c, ap_approved = True,
               ap_approved_at = current_timestamp e (InsertApproval w c)\<rparr>"
  from approveWorkflow_Success[OF assms(2)]
  have ok: "c \<noteq> []" "bq_error e (InsertApproval w c) = None" by simp_all
  from approveWorkflow_accepted[OF ok, of st]
  have a1: "approvals ?st1 = (approvals st)(c := approvals st c @ [?row])" by simp
  have aff1: "approvals_affirmative ?st1"
    using assms(1) unfolding a1 approvals_affirmative_def by auto
  then have aff2: "approvals_affirmative ?st2" by (rule perform_all_affirmative)
  from perform_all_approvals[of cfg ?st1 steps c] a1
  have "?row \<in> set (approvals ?st2 c)" by auto
  then have "latest_approval ?st2 w c \<noteq> None"
    unfolding latest_approval_None_iff by force
  then obtain row where l: "latest_approval ?st2 w c = Some row" by blast
  from affirmative_latest[OF aff2 l] l have "\<not> lacks_approval ?st2 w c"
    by (simp add: lacks_approval_def)
  then show ?thesis by (simp add: isWorkflowApproved_iff)
qed

text \<open>
  C10 (amended). Every Approval row that the system can ever write has approved = true:
  each public operation leaves the Approval rows of every approver in place and appends
  only rows with approved = true. So, starting from the empty store, after every
  sequence of public operations all Approval rows are affirmative, the operations keep
  them so from every store whose Approval rows are affirmative, and a negative latest
  approval is unreachable through the public interface. Once a party has approved a
  workflow in such a store, after every further sequence of public operations the
  approval check for that party and workflow returns true if the approval query is
  answered, and false if the query fails.
\<close>

theorem approvals_always_affirmative:
  "(\<exists>rows. approvals (perform cfg st step) c = approvals st c @ rows \<and>
           (\<forall>row \<in> set rows. ap_approved row = True)) \<and>
   approvals_affirmative (perform_all cfg empty_store steps) \<and>
   (approvals_affirmative st \<longrightarrow> approvals_affirmative (perform_all cfg st steps)) \<and>
   (\<forall>row. latest_approval (perform_all cfg empty_store steps) w c = Some row \<longrightarrow>
          ap_approved row = True) \<and>
   (approvals_affirmative st \<and> snd (approveWorkflow e st w (Some c)) = Success x \<longrightarrow>
      isWorkflowApproved e' (perform_all cfg (fst (approveWorkflow e st w (Some c))) steps) w c =
        (bq_error e' (SelectApproval w c) = None))"
proof -
  have 1: "approvals_affirmative (perform_all cfg empty_store steps)"
    using empty_store_affirmative by (rule perform_all_affirmative)
  have 2: "\<forall>row. latest_approval (perform_all cfg empty_store steps) w c = Some row \<longrightarrow>
          ap_approved row = True"
    using affirmative_latest[OF 1] by blast
  from 1 2 perform_approvals[of cfg st step c] perform_all_affirmative[of st cfg steps]
    approved_stays_approved[of st e w c x e' cfg steps]
  show ?thesis by blast
qed

theorem approvals_always_affirmative_witness:
  "approvals_affirmative empty_store \<and>
   snd (approveWorkflow env0 empty_store ''W'' (Some ''B'')) = Success (''W'', ''APPROVED_BY_B'') \<and>
   isWorkflowApproved env0
     (perform_all cfg0 (fst (approveWorkflow env0 empty_store ''W'' (Some ''B'')))
        [(env_timeout, RunWorkflow (run_req ''B'')), (env0, CreateWorkflow create_req)])
     ''W'' ''B'' \<and>
   approvals_affirmative
     (perform_all cfg0 empty_store
        [(env0, CreateWorkflow create_req), (env0, ApproveWorkflow ''W'' (Some ''B''))])"
proof -
  have a: "approvals_affirmative empty_store"
    by (simp add: approvals_affirmative_def empty_store_def)
  have b: "snd (approveWorkflow env0 empty_store ''W'' (Some ''B'')) =
      Success (''W'', ''APPROVED_BY_B'')"
    by (simp add: approveWorkflow_def bq_approveWorkflow_def env0_def)
  have c: "bq_error env0 (SelectApproval ''W'' ''B'') = None" by (simp add: env0_def)
  from approvals_always_affirmative[of cfg0 empty_store _ "''B''"
      "[(env_timeout, RunWorkflow (run_req ''B'')), (env0, CreateWorkflow create_req)]"
      "''W''" env0 "(''W'', ''APPROVED_BY_B'')" env0] a b c
  have d: "isWorkflowApproved env0
     (perform_all cfg0 (fst (approveWorkflow env0 empty_store ''W'' (Some ''B'')))
        [(env_timeout, RunWorkflow (run_req ''B'')), (env0, CreateWorkflow create_req)])
     ''W'' ''B''" by simp
  from approvals_always_affirmative[of cfg0 empty_store _ "''B''"
      "[(env0, CreateWorkflow create_req), (env0, ApproveWorkflow ''W'' (Some ''B''))]"]
  have e: "approvals_affirmative
     (perform_all cfg0 empty_store
        [(env0, CreateWorkflow create_req), (env0, ApproveWorkflow ''W'' (Some ''B''))])"
    by blast
  from a b d e show ?thesis by simp
qed

text \<open>
  The claim as stated fails when the approval query fails: \<open>B\<close> has approved \<open>W\<close>,
  no other write has happened, and the approval check returns false.
\<close>

theorem approvals_always_affirmative_counterexample:
  "snd (approveWorkflow env0 empty_store ''W'' (Some ''B'')) = Success (''W'', ''APPROVED_BY_B'') \<and>
   approvals (fst (approveWorkflow env0 empty_store ''W'' (Some ''B''))) ''B'' =
     [\<lparr>ap_workflow_id = ''W'', ap_approver = ''B'', ap_approved = True, ap_approved_at = 10\<rparr>] \<and>
   isWorkflowApproved env0 (fst (approveWorkflow env0 empty_store ''W'' (Some ''B''))) ''W'' ''B'' \<and>
   \<not> isWorkflowApproved env_approvals_down
       (fst (approveWorkflow env0 empty_store ''W'' (Some ''B''))) ''W'' ''B''"
proof -
  have ok: "bq_error env0 (InsertApproval ''W'' ''B'') = None" by (simp add: env0_def)
  have t: "current_timestamp env0 (InsertApproval ''W'' ''B'') = 10" by (simp add: env0_def)
  from approveWorkflow_accepted[OF _ ok, of empty_store]
  have a: "approveWorkflow env0 empty_store ''W'' (Some ''B'') =
     (empty_store\<lparr>approvals := (approvals empty_store)
         (''B'' := approvals empty_store ''B'' @
            [\<lparr>ap_workflow_id = ''W'', ap_approver = ''B'', ap_approved = True,
              ap_approved_at = 10\<rparr>])\<rparr>,
      Success (''W'', ''APPROVED_BY_B''))" by (simp add: t)
  have 1: "snd (approveWorkflow env0 empty_store ''W'' (Some ''B'')) =
      Success (''W'', ''APPROVED_BY_B'')" by (simp add: a)
  have 2: "approvals (fst (approveWorkflow env0 empty_store ''W'' (Some ''B''))) ''B'' =
     [\<lparr>ap_workflow_id = ''W'', ap_approver = ''B'', ap_approved = True, ap_approved_at = 10\<rparr>]"
    unfolding a by (simp add: empty_store_def)
  have 3: "isWorkflowApproved env0 (fst (approveWorkflow env0 empty_store ''W'' (Some ''B''))) ''W'' ''B''"
  proof -
    have "bq_error env0 (SelectApproval ''W'' ''B'') = None" by (simp add: env0_def)
    then show ?thesis
      by (simp add: isWorkflowApproved_def approval_rows_def order_by_desc_def 2)
  qed
  have 4: "\<not> isWorkflowApproved env_approvals_down
       (fst (approveWorkflow env0 empty_store ''W'' (Some ''B''))) ''W'' ''B''"
    by (simp add: isWorkflowApproved_def env_approvals_down_def)
  from 1 2 3 4 show ?thesis by simp
qed

subsection \<open>The status of a workflow over a sequence of operations\<close>




























end
